(* ===== verification/Prelude.thy ===== *)
theory Prelude
  imports Main "HOL-Library.Word"
begin

text \<open>
  Shared vocabulary of the lottery development: the machine types of the EVM
  (160-bit addresses, 256-bit unsigned amounts), the Solidity-style guard
  combinators \<open>require\<close> and \<open>check\<close> on results of type \<open>error + 'a\<close>,
  the collections of facts the component theories use, and generic lemmas on
  words, lists and sums that several components share.
\<close>

type_synonym addr = "160 word"
type_synonym uint = "256 word"

named_theorems lottery_ops
  \<open>definitions of the contract's operations, unfolded in the component proofs\<close>

section \<open>Guards\<close>

text \<open>
  \<open>require b e\<close> is Solidity's \<^verbatim>\<open>require(b, e)\<close>: it succeeds when \<open>b\<close>
  holds and reverts with \<open>e\<close> otherwise. \<open>check g k\<close> runs the guard \<open>g\<close>
  and continues with \<open>k\<close> only when the guard succeeded, so a chain of
  \<open>check\<close>s fails with the first failing guard, in source order.
\<close>

definition require :: "bool \<Rightarrow> 'e \<Rightarrow> 'e + unit" where
  "require b e = (if b then Inr () else Inl e)"

definition check :: "'e + unit \<Rightarrow> 'e + 'a \<Rightarrow> 'e + 'a" where
  "check g k = (case g of Inl e \<Rightarrow> Inl e | Inr _ \<Rightarrow> k)"

lemma check_require [simp]:
  "check (require b e) k = (if b then k else Inl e)"
  by (simp add: check_def require_def)

lemma check_Inr [simp]: "check (Inr u) k = k"
  by (simp add: check_def)

lemma check_Inl [simp]: "check (Inl e) k = Inl e"
  by (simp add: check_def)

section \<open>Checked 256-bit arithmetic\<close>

text \<open>
  Solidity 0.8 (the compiler version of \<^verbatim>\<open>hardhat.config.js\<close>) reverts on an
  unsigned overflow instead of wrapping. \<open>add_fits a b\<close> is the condition under
  which \<open>a + b\<close> does not wrap; under it \<open>unat\<close> distributes over the sum.
\<close>

definition add_fits :: "'a::len word \<Rightarrow> 'a word \<Rightarrow> bool" where
  "add_fits a b \<longleftrightarrow> unat a + unat b < 2 ^ LENGTH('a)"

lemma unat_add_fits:
  "add_fits a b \<Longrightarrow> unat (a + b) = unat a + unat b"
  by (simp add: add_fits_def unat_add_lem)

lemma add_fits_code [code_unfold]:
  "add_fits (a :: uint) b \<longleftrightarrow> unat a + unat b < 2 ^ 256"
  by (simp add: add_fits_def)

section \<open>Lists\<close>

lemma replicate_numeral: "replicate (numeral k) x = x # replicate (pred_numeral k) x"
  by (simp add: numeral_eq_Suc)

text \<open>Sum of the amounts of a list of (recipient, amount) transfers.\<close>

definition sum_amounts :: "('a \<times> nat) list \<Rightarrow> nat" where
  "sum_amounts ts = sum_list (map snd ts)"

lemma sum_amounts_Nil [simp]: "sum_amounts [] = 0"
  by (simp add: sum_amounts_def)

lemma sum_amounts_Cons [simp]: "sum_amounts ((a, n) # ts) = n + sum_amounts ts"
  by (simp add: sum_amounts_def)

lemma sum_amounts_snoc [simp]: "sum_amounts (ts @ [(a, n)]) = sum_amounts ts + n"
  by (simp add: sum_amounts_def)

lemma sum_amounts_append [simp]: "sum_amounts (ts @ us) = sum_amounts ts + sum_amounts us"
  by (simp add: sum_amounts_def)

end
