(* ===== verification/Lottery_State.thy ===== *)
theory Lottery_State
  imports Prelude
begin

text \<open>
  The state of the on-chain Lottery contract and of the chain around it, the
  errors its operations revert with, the constructor, the view functions of its
  ABI, the administrator check (AccessControl) and the custody invariant that
  every operation keeps. The Solidity source of the contract is not part of the
  repository; its interface is the ABI in \<^verbatim>\<open>src/frontend/lottery.js\<close> and its
  behaviour is the one the design document describes.
\<close>

section \<open>Data\<close>

datatype phase = Open | Drawn | Distributed

text \<open>
  The revert reasons. \<open>Overflow\<close> is Solidity 0.8's checked-arithmetic panic on
  the prize pool, \<open>CallDepthExceeded\<close> the EVM's limit of 1024 nested calls,
  \<open>OutOfBounds\<close> the panic of an array read past its end.
\<close>

datatype error =
    Unauthorized
  | InvalidPhase
  | IncorrectPayment
  | NoParticipants
  | TransferFailed
  | Overflow
  | CallDepthExceeded
  | OutOfBounds

text \<open>The contract's storage: one aggregate per round, reused by a reset.\<close>

record lottery =
  admin :: addr
  ticketPrice :: uint
  participants :: "addr list"
  prizePool :: uint
  winner :: "addr option"
  phase :: phase

text \<open>
  The chain as the contract sees it: its storage, the ether balance of the
  contract account (in wei), the total wei the contract has received, and the
  payouts it has made, in order.
\<close>

record chain = lottery +
  contractBalance :: nat
  deposited :: nat
  paid :: "(addr \<times> nat) list"

text \<open>
  The constructor \<^verbatim>\<open>constructor(uint256 _ticketPrice)\<close> is non-payable: the
  deploying account becomes the administrator and the contract starts empty.
\<close>

definition newLottery :: "addr \<Rightarrow> uint \<Rightarrow> chain" where
  "newLottery deployer price =
     \<lparr>admin = deployer, ticketPrice = price, participants = [], prizePool = 0,
      winner = None, phase = Open, contractBalance = 0, deposited = 0, paid = []\<rparr>"

section \<open>AccessControl\<close>

definition requireAdmin :: "addr \<Rightarrow> chain \<Rightarrow> error + unit" where
  "requireAdmin caller s = require (caller = admin s) Unauthorized"

lemma check_requireAdmin [simp]:
  "check (requireAdmin caller s) k = (if caller = admin s then k else Inl Unauthorized)"
  by (simp add: requireAdmin_def)

section \<open>Views\<close>

text \<open>
  The view functions of the ABI. The getter \<^verbatim>\<open>winner()\<close> returns an address, the
  zero address while no winner is set (the front end tests for it).
\<close>

definition getParticipants :: "chain \<Rightarrow> addr list" where
  "getParticipants s = participants s"

definition getPrizePool :: "chain \<Rightarrow> uint" where
  "getPrizePool s = prizePool s"

definition isDrawDone :: "chain \<Rightarrow> bool" where
  "isDrawDone s \<longleftrightarrow> phase s \<noteq> Open"

text \<open>
  \<^verbatim>\<open>participants(uint256)\<close>, the getter Solidity generates for the public
  array: it reverts on an index past the end.
\<close>

definition participantAt :: "chain \<Rightarrow> uint \<Rightarrow> error + addr" where
  "participantAt s i =
     (if unat i < length (participants s) then Inr (participants s ! unat i) else Inl OutOfBounds)"

definition winnerAddress :: "chain \<Rightarrow> addr" where
  "winnerAddress s = (case winner s of None \<Rightarrow> 0 | Some w \<Rightarrow> w)"

section \<open>The custody invariant\<close>

text \<open>
  The contract holds exactly the prize pool; what came in is what it holds plus
  what it paid out; until the payout the pool is the ticket price times the number
  of entries, after it the pool is empty; a winner is set exactly when the round
  has been drawn, and is one of the entrants.
\<close>

definition lottery_inv :: "chain \<Rightarrow> bool" where
  "lottery_inv s \<longleftrightarrow>
     unat (prizePool s) = contractBalance s \<and>
     contractBalance s + sum_amounts (paid s) = deposited s \<and>
     (if phase s = Distributed then prizePool s = 0
      else unat (prizePool s) = unat (ticketPrice s) * length (participants s)) \<and>
     (winner s = None \<longleftrightarrow> phase s = Open) \<and>
     set_option (winner s) \<subseteq> set (participants s)"

lemma lottery_inv_newLottery: "lottery_inv (newLottery a p)"
  by (simp add: lottery_inv_def newLottery_def)

end
