(* ===== verification/Ticket_Ledger.thy ===== *)
theory Ticket_Ledger
  imports Lottery_State
begin

text \<open>
  TicketLedger: the payable entry point \<^verbatim>\<open>buyTicket()\<close>. Any caller may enter
  while the round is open, paying exactly the ticket price; the entry is appended
  to the participants and the payment to the prize pool (with Solidity 0.8's
  overflow check). The payment is credited to the contract's account by the EVM.
\<close>

definition buyTicket :: "addr \<Rightarrow> uint \<Rightarrow> chain \<Rightarrow> error + chain" where
  "buyTicket caller value s =
     check (require (phase s = Open) InvalidPhase)
     (check (require (value = ticketPrice s) IncorrectPayment)
     (check (require (add_fits (prizePool s) value) Overflow)
     (Inr (s\<lparr>participants := participants s @ [caller],
             prizePool := prizePool s + value,
             contractBalance := contractBalance s + unat value,
             deposited := deposited s + unat value\<rparr>))))"

declare buyTicket_def [lottery_ops]

text \<open>A run of entries, each by its caller paying the given value.\<close>

fun buyTickets :: "(addr \<times> uint) list \<Rightarrow> chain \<Rightarrow> error + chain" where
  "buyTickets [] s = Inr s"
| "buyTickets ((c, v) # es) s =
     (case buyTicket c v s of Inl e \<Rightarrow> Inl e | Inr s' \<Rightarrow> buyTickets es s')"

section \<open>Behaviour on every branch\<close>

lemma buyTicket_not_open:
  "phase s \<noteq> Open \<Longrightarrow> buyTicket c v s = Inl InvalidPhase"
  by (simp add: buyTicket_def)

lemma buyTicket_wrong_payment:
  "phase s = Open \<Longrightarrow> v \<noteq> ticketPrice s \<Longrightarrow> buyTicket c v s = Inl IncorrectPayment"
  by (simp add: buyTicket_def)

lemma buyTicket_overflow:
  "phase s = Open \<Longrightarrow> \<not> add_fits (prizePool s) (ticketPrice s) \<Longrightarrow>
   buyTicket c (ticketPrice s) s = Inl Overflow"
  by (simp add: buyTicket_def)

lemma buyTicket_Inr:
  assumes "buyTicket c v s = Inr s'"
  shows "phase s = Open" and "v = ticketPrice s"
    and "participants s' = participants s @ [c]"
    and "unat (prizePool s') = unat (prizePool s) + unat (ticketPrice s)"
    and "contractBalance s' = contractBalance s + unat v"
    and "deposited s' = deposited s + unat v"
  using assms by (auto simp: buyTicket_def unat_add_fits split: if_splits)

lemma buyTicket_frame:
  assumes "buyTicket c v s = Inr s'"
  shows "admin s' = admin s" and "ticketPrice s' = ticketPrice s" and "phase s' = phase s"
    and "winner s' = winner s" and "paid s' = paid s"
  using assms by (auto simp: buyTicket_def split: if_splits)

section \<open>The invariant\<close>

lemma buyTicket_Inr_iff:
  "buyTicket c v s = Inr s' \<longleftrightarrow>
     phase s = Open \<and> v = ticketPrice s \<and> add_fits (prizePool s) v \<and>
     s' = s\<lparr>participants := participants s @ [c], prizePool := prizePool s + v,
            contractBalance := contractBalance s + unat v,
            deposited := deposited s + unat v\<rparr>"
  by (auto simp: buyTicket_def)

lemma buyTicket_inv:
  assumes "lottery_inv s" and "buyTicket c v s = Inr s'"
  shows "lottery_inv s'"
proof -
  from assms(2) have op: "phase s = Open" and v: "v = ticketPrice s"
    and fits: "add_fits (prizePool s) v"
    and s': "s' = s\<lparr>participants := participants s @ [c], prizePool := prizePool s + v,
            contractBalance := contractBalance s + unat v,
            deposited := deposited s + unat v\<rparr>"
    using assms(2) unfolding buyTicket_Inr_iff by blast+
  from fits have pool: "unat (prizePool s + v) = unat (prizePool s) + unat v"
    by (rule unat_add_fits)
  from assms(1) op have
    "unat (prizePool s) = contractBalance s"
    "contractBalance s + sum_amounts (paid s) = deposited s"
    "unat (prizePool s) = unat (ticketPrice s) * length (participants s)"
    "winner s = None"
    by (simp_all add: lottery_inv_def)
  with op v pool show ?thesis
    by (simp add: s' lottery_inv_def)
qed

lemma buyTickets_inv:
  "lottery_inv s \<Longrightarrow> buyTickets es s = Inr s' \<Longrightarrow> lottery_inv s'"
  by (induction es s rule: buyTickets.induct)
     (auto split: sum.splits dest: buyTicket_inv)

text \<open>
  Progress: in the open phase an entry that pays exactly the ticket price is
  accepted unless the pool after it would not fit in 256 bits.
\<close>

lemma buyTicket_accepted:
  assumes "lottery_inv s" and "phase s = Open"
    and "unat (ticketPrice s) * Suc (length (participants s)) < 2 ^ 256"
  shows "\<exists>s'. buyTicket c (ticketPrice s) s = Inr s'"
proof -
  from assms(1,2) have "unat (prizePool s) = unat (ticketPrice s) * length (participants s)"
    by (simp add: lottery_inv_def)
  with assms(3) have "add_fits (prizePool s) (ticketPrice s)"
    by (simp add: add_fits_def)
  with assms(2) show ?thesis by (simp add: buyTicket_def)
qed

end
