(* ===== verification/Draw_Engine.thy ===== *)
theory Draw_Engine
  imports Lottery_State
begin

text \<open>
  DrawEngine: the administrator's \<^verbatim>\<open>drawWinner()\<close>. The randomness source is an
  input of the model (one 256-bit sample per call); the sample is reduced modulo
  the number of entries and the entry at that index becomes the winner.
\<close>

definition drawIndex :: "uint \<Rightarrow> nat \<Rightarrow> nat" where
  "drawIndex sample n = unat sample mod n"

definition drawWinner :: "addr \<Rightarrow> uint \<Rightarrow> chain \<Rightarrow> error + chain" where
  "drawWinner caller sample s =
     check (requireAdmin caller s)
     (check (require (phase s = Open) InvalidPhase)
     (check (require (participants s \<noteq> []) NoParticipants)
     (Inr (s\<lparr>winner := Some (participants s ! drawIndex sample (length (participants s))),
             phase := Drawn\<rparr>))))"

declare drawWinner_def [lottery_ops]

section \<open>Behaviour on every branch\<close>

lemma drawIndex_less: "0 < n \<Longrightarrow> drawIndex sample n < n"
  by (simp add: drawIndex_def)

lemma drawWinner_Inr_iff:
  "drawWinner c r s = Inr s' \<longleftrightarrow>
     c = admin s \<and> phase s = Open \<and> participants s \<noteq> [] \<and>
     s' = s\<lparr>winner := Some (participants s ! drawIndex r (length (participants s))),
            phase := Drawn\<rparr>"
  by (auto simp: drawWinner_def)

lemma drawWinner_Inl:
  "drawWinner c r s = Inl e \<longleftrightarrow>
     (if c \<noteq> admin s then e = Unauthorized
      else if phase s \<noteq> Open then e = InvalidPhase
      else participants s = [] \<and> e = NoParticipants)"
  by (auto simp: drawWinner_def)

lemma drawWinner_frame:
  assumes "drawWinner c r s = Inr s'"
  shows "admin s' = admin s" and "ticketPrice s' = ticketPrice s"
    and "participants s' = participants s" and "prizePool s' = prizePool s"
    and "contractBalance s' = contractBalance s" and "deposited s' = deposited s"
    and "paid s' = paid s"
  using assms by (auto simp: drawWinner_Inr_iff)

section \<open>The invariant\<close>

lemma drawWinner_inv:
  assumes "lottery_inv s" and "drawWinner c r s = Inr s'"
  shows "lottery_inv s'"
proof -
  from assms(2) have op: "phase s = Open" and ne: "participants s \<noteq> []"
    and s': "s' = s\<lparr>winner := Some (participants s ! drawIndex r (length (participants s))),
            phase := Drawn\<rparr>"
    unfolding drawWinner_Inr_iff by blast+
  from ne have "participants s ! drawIndex r (length (participants s)) \<in> set (participants s)"
    by (simp add: drawIndex_less)
  with assms(1) op show ?thesis
    by (simp add: s' lottery_inv_def)
qed

section \<open>How often each entry is drawn\<close>

text \<open>
  The winner's index is the 256-bit sample modulo the number of entries. Counting
  the samples that pick each index measures the modulo bias: with a uniform
  sample, index \<open>i\<close> wins with probability (its count) / \<open>2 ^ 256\<close>.
\<close>

lemma card_mod_class:
  assumes "0 < n" and "i < n"
  shows "card {x. x < N \<and> x mod n = i} = N div n + (if i < N mod n then 1 else 0)"
proof (induction N)
  case 0
  then show ?case by simp
next
  case (Suc N)
  have split: "{x. x < Suc N \<and> x mod n = i} =
      {x. x < N \<and> x mod n = i} \<union> (if N mod n = i then {N} else {})"
    by (auto simp: less_Suc_eq)
  have fin: "finite {x. x < N \<and> x mod n = i}" by simp
  show ?case
  proof (cases "Suc (N mod n) = n")
    case True
    then have "Suc N div n = Suc (N div n)" "Suc N mod n = 0"
      by (simp_all add: div_Suc mod_Suc)
    with True Suc.IH split fin assms show ?thesis by (auto simp: card_insert_if)
  next
    case False
    then have "Suc N div n = N div n" "Suc N mod n = Suc (N mod n)"
      by (simp_all add: div_Suc mod_Suc)
    with False Suc.IH split fin assms show ?thesis by (auto simp: card_insert_if)
  qed
qed

lemma unat_image_draw_class:
  "unat ` {r :: uint. drawIndex r n = i} = {x. x < 2 ^ 256 \<and> x mod n = i}"
proof (intro equalityI subsetI)
  fix x assume "x \<in> unat ` {r :: uint. drawIndex r n = i}"
  then show "x \<in> {x. x < 2 ^ 256 \<and> x mod n = i}"
    using unsigned_less[where 'a=nat and w="_ :: uint"] by (auto simp: drawIndex_def)
next
  fix x assume x: "x \<in> {x. x < 2 ^ 256 \<and> x mod n = i}"
  then have "unat (word_of_nat x :: uint) = x" by (simp add: unat_of_nat)
  with x show "x \<in> unat ` {r :: uint. drawIndex r n = i}"
    by (intro image_eqI[of _ _ "word_of_nat x"]) (auto simp: drawIndex_def)
qed

text \<open>
  The samples that pick index \<open>i\<close> of \<open>n\<close>: \<open>2 ^ 256 div n\<close> of them, plus one
  for the first \<open>2 ^ 256 mod n\<close> indices.
\<close>

lemma drawIndex_class_card:
  assumes "0 < n" and "i < n"
  shows "card {r :: uint. drawIndex r n = i} = 2 ^ 256 div n + (if i < 2 ^ 256 mod n then 1 else 0)"
proof -
  have "card {r :: uint. drawIndex r n = i} = card (unat ` {r :: uint. drawIndex r n = i})"
    by (rule card_image[symmetric]) (simp add: inj_on_def word_unat_eq_iff)
  also have "\<dots> = card {x. x < 2 ^ 256 \<and> x mod n = i}" by (simp only: unat_image_draw_class)
  also have "\<dots> = 2 ^ 256 div n + (if i < 2 ^ 256 mod n then 1 else 0)"
    using assms by (rule card_mod_class)
  finally show ?thesis .
qed

end
