(* ===== verification/Prize_Vault.thy ===== *)
theory Prize_Vault
  imports Lottery_State
begin

text \<open>
  PrizeVault: the administrator's \<^verbatim>\<open>distributePrize()\<close>. The payout is an
  external call: the winner's account receives the ether and may run code of its
  own, which can call back into the lottery. That code is a parameter
  \<open>recv\<close> of the model (a \<open>receiver_hook\<close>): given the recipient and the chain
  at the moment of the transfer it either rejects the payment or returns the
  chain after its own calls. The operation zeroes the pool and moves to
  \<open>Distributed\<close> before the transfer (checks-effects-interactions); a rejected
  transfer reverts the whole call.
\<close>

type_synonym receiver_hook = "addr \<Rightarrow> chain \<Rightarrow> error + chain"

text \<open>
  An ether transfer from the contract: the EVM refuses it when the contract's
  balance is too small; otherwise the amount leaves the contract, and the
  recipient's code runs on the chain that already shows the payment.
\<close>

definition transferTo :: "receiver_hook \<Rightarrow> addr \<Rightarrow> nat \<Rightarrow> chain \<Rightarrow> error + chain" where
  "transferTo recv to amount s =
     (if contractBalance s < amount then Inl TransferFailed
      else recv to (s\<lparr>contractBalance := contractBalance s - amount,
                       paid := paid s @ [(to, amount)]\<rparr>))"

definition distributePrize :: "receiver_hook \<Rightarrow> addr \<Rightarrow> chain \<Rightarrow> error + chain" where
  "distributePrize recv caller s =
     check (requireAdmin caller s)
     (check (require (phase s = Drawn) InvalidPhase)
     (let w = winnerAddress s; amount = unat (prizePool s)
      in case transferTo recv w amount (s\<lparr>prizePool := 0, phase := Distributed\<rparr>) of
           Inl _ \<Rightarrow> Inl TransferFailed
         | Inr s' \<Rightarrow> Inr s'))"

declare distributePrize_def [lottery_ops]

text \<open>The chain the recipient's code runs on, when the payout goes ahead.\<close>

definition payoutState :: "chain \<Rightarrow> chain" where
  "payoutState s =
     s\<lparr>prizePool := 0, phase := Distributed,
       contractBalance := contractBalance s - unat (prizePool s),
       paid := paid s @ [(winnerAddress s, unat (prizePool s))]\<rparr>"

text \<open>A recipient whose code keeps the custody invariant.\<close>

definition keeps_inv :: "receiver_hook \<Rightarrow> bool" where
  "keeps_inv recv \<longleftrightarrow> (\<forall>w t t'. lottery_inv t \<longrightarrow> recv w t = Inr t' \<longrightarrow> lottery_inv t')"

section \<open>Behaviour on every branch\<close>

lemma distributePrize_Inr_iff:
  "distributePrize recv c s = Inr s' \<longleftrightarrow>
     c = admin s \<and> phase s = Drawn \<and> unat (prizePool s) \<le> contractBalance s \<and>
     recv (winnerAddress s) (payoutState s) = Inr s'"
  by (auto simp: distributePrize_def transferTo_def payoutState_def Let_def not_less
           split: sum.splits)

lemma distributePrize_Inl:
  "distributePrize recv c s = Inl e \<longleftrightarrow>
     (if c \<noteq> admin s then e = Unauthorized
      else if phase s \<noteq> Drawn then e = InvalidPhase
      else e = TransferFailed \<and>
        (contractBalance s < unat (prizePool s) \<or>
         (\<exists>e'. recv (winnerAddress s) (payoutState s) = Inl e')))"
  by (auto simp: distributePrize_def transferTo_def payoutState_def Let_def
           split: sum.splits)

lemma payoutState_fields [simp]:
  "prizePool (payoutState s) = 0" "phase (payoutState s) = Distributed"
  "admin (payoutState s) = admin s" "ticketPrice (payoutState s) = ticketPrice s"
  "participants (payoutState s) = participants s" "winner (payoutState s) = winner s"
  "paid (payoutState s) = paid s @ [(winnerAddress s, unat (prizePool s))]"
  "contractBalance (payoutState s) = contractBalance s - unat (prizePool s)"
  "deposited (payoutState s) = deposited s"
  by (simp_all add: payoutState_def)

section \<open>The invariant\<close>

lemma payoutState_inv:
  assumes "lottery_inv s" and "phase s = Drawn"
  shows "lottery_inv (payoutState s)"
  using assms by (auto simp: lottery_inv_def)

lemma distributePrize_inv:
  assumes "keeps_inv recv" and "lottery_inv s" and "distributePrize recv c s = Inr s'"
  shows "lottery_inv s'"
proof -
  from assms(3) have d: "phase s = Drawn" and r: "recv (winnerAddress s) (payoutState s) = Inr s'"
    by (simp_all add: distributePrize_Inr_iff)
  from assms(2) d have "lottery_inv (payoutState s)" by (rule payoutState_inv)
  with assms(1) r show ?thesis by (auto simp: keeps_inv_def)
qed

end
