(* ===== verification/Lifecycle.thy ===== *)
theory Lifecycle
  imports Ticket_Ledger Draw_Engine Prize_Vault
begin

text \<open>
  LifecycleController: \<^verbatim>\<open>resetLottery()\<close>, the dispatcher of the four mutating
  entry points of the ABI, the recipient's reentrant calls during a payout, the
  host's transactions (each one atomic: a failed call reverts everything it did)
  and the reachable states of the contract, with the custody invariant proved for
  all of them by rule induction.
\<close>

section \<open>Reset\<close>

definition resetLottery :: "addr \<Rightarrow> chain \<Rightarrow> error + chain" where
  "resetLottery caller s =
     check (requireAdmin caller s)
     (check (require (phase s = Distributed) InvalidPhase)
     (Inr (s\<lparr>participants := [], prizePool := 0, winner := None, phase := Open\<rparr>)))"

declare resetLottery_def [lottery_ops]

lemma resetLottery_Inr_iff:
  "resetLottery c s = Inr s' \<longleftrightarrow>
     c = admin s \<and> phase s = Distributed \<and>
     s' = s\<lparr>participants := [], prizePool := 0, winner := None, phase := Open\<rparr>"
  by (auto simp: resetLottery_def)

lemma resetLottery_inv:
  assumes "lottery_inv s" and "resetLottery c s = Inr s'"
  shows "lottery_inv s'"
  using assms by (auto simp: resetLottery_Inr_iff lottery_inv_def)

section \<open>Calls and the dispatcher\<close>

text \<open>
  The mutating functions of the ABI, with their inputs: the wei sent with
  \<^verbatim>\<open>buyTicket()\<close> and the sample of the randomness source for
  \<^verbatim>\<open>drawWinner()\<close>.
\<close>

datatype call = BuyTicket uint | DrawWinner uint | DistributePrize | ResetLottery

text \<open>
  What the code of an account does when it receives ether: reject it, or accept
  it and make a list of calls (caller, call) into the lottery. It may depend on
  the chain it sees.
\<close>

datatype receiver = Reject | Accept "(addr \<times> call) list"

text \<open>
  The recipient's calls run one after the other; a call that reverts leaves the
  chain as it was (the recipient catches the failure and goes on).
\<close>

fun run_calls :: "(addr \<Rightarrow> call \<Rightarrow> chain \<Rightarrow> error + chain) \<Rightarrow> (addr \<times> call) list \<Rightarrow> chain \<Rightarrow> chain" where
  "run_calls ex [] s = s"
| "run_calls ex ((c, k) # cs) s = run_calls ex cs (case ex c k s of Inl _ \<Rightarrow> s | Inr s' \<Rightarrow> s')"

definition receive :: "(addr \<Rightarrow> call \<Rightarrow> chain \<Rightarrow> error + chain) \<Rightarrow> (addr \<Rightarrow> chain \<Rightarrow> receiver) \<Rightarrow> receiver_hook" where
  "receive ex rs w s = (case rs w s of Reject \<Rightarrow> Inl TransferFailed | Accept cs \<Rightarrow> Inr (run_calls ex cs s))"

text \<open>
  The dispatcher. Its first argument is the call depth still available: a
  reentrant call made during a payout runs one level deeper, and at depth zero
  every call fails, as the EVM's call-depth limit makes it.
\<close>

primrec exec :: "nat \<Rightarrow> (addr \<Rightarrow> chain \<Rightarrow> receiver) \<Rightarrow> addr \<Rightarrow> call \<Rightarrow> chain \<Rightarrow> error + chain" where
  "exec 0 rs c k s = Inl CallDepthExceeded"
| "exec (Suc n) rs c k s =
     (case k of
        BuyTicket v \<Rightarrow> buyTicket c v s
      | DrawWinner r \<Rightarrow> drawWinner c r s
      | DistributePrize \<Rightarrow> distributePrize (receive (exec n rs) rs) c s
      | ResetLottery \<Rightarrow> resetLottery c s)"

definition callDepthLimit :: nat where
  "callDepthLimit = 1024"

text \<open>
  A transaction of the host: the call runs to completion; if it fails the chain is
  left as it was and the caller sees the error.
\<close>

definition transact :: "(addr \<Rightarrow> chain \<Rightarrow> receiver) \<Rightarrow> addr \<Rightarrow> call \<Rightarrow> chain \<Rightarrow> (error + unit) \<times> chain" where
  "transact rs c k s =
     (case exec callDepthLimit rs c k s of Inl e \<Rightarrow> (Inl e, s) | Inr s' \<Rightarrow> (Inr (), s'))"

section \<open>Unfolding a transaction\<close>

lemma exec_unfold:
  "0 < n \<Longrightarrow> exec n rs c k s =
     (case k of
        BuyTicket v \<Rightarrow> buyTicket c v s
      | DrawWinner r \<Rightarrow> drawWinner c r s
      | DistributePrize \<Rightarrow> distributePrize (receive (exec (n - 1) rs) rs) c s
      | ResetLottery \<Rightarrow> resetLottery c s)"
  by (cases n; cases k) simp_all

lemma exec_top:
  "exec callDepthLimit rs c k s =
     (case k of
        BuyTicket v \<Rightarrow> buyTicket c v s
      | DrawWinner r \<Rightarrow> drawWinner c r s
      | DistributePrize \<Rightarrow> distributePrize (receive (exec (callDepthLimit - 1) rs) rs) c s
      | ResetLottery \<Rightarrow> resetLottery c s)"
  by (rule exec_unfold) (simp add: callDepthLimit_def)

lemma transact_Inl: "transact rs c k s = (Inl e, s') \<Longrightarrow> s' = s"
  unfolding transact_def by (cases "exec callDepthLimit rs c k s") simp_all

text \<open>
  The host's serial order: transactions one after the other, as long as they
  succeed (the first failure is reported; it changed nothing).
\<close>

fun runTxs :: "(addr \<Rightarrow> chain \<Rightarrow> receiver) \<Rightarrow> (addr \<times> call) list \<Rightarrow> chain \<Rightarrow> error + chain" where
  "runTxs rs [] s = Inr s"
| "runTxs rs ((c, k) # ts) s =
     (case exec callDepthLimit rs c k s of Inl e \<Rightarrow> Inl e | Inr s' \<Rightarrow> runTxs rs ts s')"

text \<open>A recipient that accepts the payment and makes no call (an external account).\<close>

definition acceptAll :: "addr \<Rightarrow> chain \<Rightarrow> receiver" where
  "acceptAll w t = Accept []"

section \<open>Reachable states\<close>

inductive lottery_step :: "chain \<Rightarrow> chain \<Rightarrow> bool" where
  tx: "transact rs c k s = (r, s') \<Longrightarrow> lottery_step s s'"

inductive reachable :: "chain \<Rightarrow> bool" where
  deploy: "reachable (newLottery a p)"
| step: "reachable s \<Longrightarrow> lottery_step s s' \<Longrightarrow> reachable s'"

inductive_cases lottery_stepE: "lottery_step s s'"

lemma receive_acceptAll [simp]: "receive ex acceptAll w t = Inr t"
  by (simp add: receive_def acceptAll_def)

lemma distributePrize_acceptAll:
  assumes "c = admin s" and "phase s = Drawn" and "unat (prizePool s) \<le> contractBalance s"
  shows "distributePrize (receive ex acceptAll) c s = Inr (payoutState s)"
  using assms by (simp add: distributePrize_Inr_iff)

lemma reachable_runTxs: "reachable s \<Longrightarrow> runTxs rs ts s = Inr s' \<Longrightarrow> reachable s'"
proof (induction ts arbitrary: s)
  case Nil
  then show ?case by simp
next
  case (Cons ck ts)
  obtain c k where ck: "ck = (c, k)" by fastforce
  show ?case
  proof (cases "exec callDepthLimit rs c k s")
    case (Inl e)
    with Cons.prems show ?thesis by (simp add: ck)
  next
    case (Inr t)
    then have "lottery_step s t" by (intro lottery_step.tx[of rs c k s "Inr ()"]) (simp add: transact_def)
    with Cons.prems(1) have "reachable t" by (rule reachable.step)
    with Cons.prems(2) Inr show ?thesis by (simp add: ck Cons.IH)
  qed
qed

section \<open>The invariant through every call\<close>

lemma run_calls_inv:
  assumes "\<And>c k t t'. lottery_inv t \<Longrightarrow> ex c k t = Inr t' \<Longrightarrow> lottery_inv t'"
  shows "lottery_inv s \<Longrightarrow> lottery_inv (run_calls ex cs s)"
proof (induction cs arbitrary: s)
  case Nil
  then show ?case by simp
next
  case (Cons ck cs)
  obtain c k where ck: "ck = (c, k)" by fastforce
  have "lottery_inv (case ex c k s of Inl _ \<Rightarrow> s | Inr s' \<Rightarrow> s')"
    using Cons.prems assms by (auto split: sum.splits)
  then show ?case by (simp add: ck Cons.IH)
qed

lemma receive_keeps_inv:
  assumes "\<And>c k t t'. lottery_inv t \<Longrightarrow> ex c k t = Inr t' \<Longrightarrow> lottery_inv t'"
  shows "keeps_inv (receive ex rs)"
  unfolding keeps_inv_def receive_def
  by (auto split: receiver.splits intro: run_calls_inv assms)

lemma exec_inv:
  "lottery_inv s \<Longrightarrow> exec n rs c k s = Inr s' \<Longrightarrow> lottery_inv s'"
proof (induction n arbitrary: c k s s')
  case 0
  then show ?case by simp
next
  case (Suc n)
  have "keeps_inv (receive (exec n rs) rs)"
    by (rule receive_keeps_inv) (rule Suc.IH)
  with Suc.prems show ?case
    by (cases k) (auto intro: buyTicket_inv drawWinner_inv distributePrize_inv resetLottery_inv)
qed

lemma lottery_step_inv:
  assumes "lottery_step s s'" and "lottery_inv s"
  shows "lottery_inv s'"
  using assms
  by (auto elim!: lottery_stepE simp: transact_def intro: exec_inv split: sum.splits)

lemma reachable_lottery_inv: "reachable s \<Longrightarrow> lottery_inv s"
proof (induction rule: reachable.induct)
  case (deploy a p)
  show ?case by (rule lottery_inv_newLottery)
next
  case (step s s')
  then show ?case by (blast intro: lottery_step_inv)
qed

section \<open>What no call changes\<close>

text \<open>The administrator and the ticket price are fixed at deployment.\<close>

definition same_config :: "chain \<Rightarrow> chain \<Rightarrow> bool" where
  "same_config s s' \<longleftrightarrow> admin s' = admin s \<and> ticketPrice s' = ticketPrice s"

lemma same_config_refl [simp]: "same_config s s"
  by (simp add: same_config_def)

lemma same_config_trans: "same_config s t \<Longrightarrow> same_config t u \<Longrightarrow> same_config s u"
  by (simp add: same_config_def)

lemma run_calls_config:
  assumes "\<And>c k t t'. ex c k t = Inr t' \<Longrightarrow> same_config t t'"
  shows "same_config s (run_calls ex cs s)"
proof (induction cs arbitrary: s)
  case Nil
  then show ?case by simp
next
  case (Cons ck cs)
  obtain c k where ck: "ck = (c, k)" by fastforce
  have "same_config s (case ex c k s of Inl _ \<Rightarrow> s | Inr s' \<Rightarrow> s')"
    using assms by (auto split: sum.splits)
  with Cons.IH[of "case ex c k s of Inl _ \<Rightarrow> s | Inr s' \<Rightarrow> s'"] show ?case
    by (simp add: ck same_config_trans)
qed

lemma exec_config: "exec n rs c k s = Inr s' \<Longrightarrow> same_config s s'"
proof (induction n arbitrary: c k s s')
  case 0
  then show ?case by simp
next
  case (Suc n)
  have recv: "receive (exec n rs) rs w t = Inr t' \<Longrightarrow> same_config t t'" for w t t'
    using run_calls_config[OF Suc.IH] by (auto simp: receive_def split: receiver.splits)
  show ?case
  proof (cases k)
    case DistributePrize
    with Suc.prems recv[of "winnerAddress s" "payoutState s" s'] show ?thesis
      by (simp add: distributePrize_Inr_iff same_config_def)
  qed (use Suc.prems in \<open>auto simp: same_config_def buyTicket_Inr_iff drawWinner_Inr_iff resetLottery_Inr_iff\<close>)
qed

lemma lottery_step_config: "lottery_step s s' \<Longrightarrow> same_config s s'"
  by (auto elim!: lottery_stepE simp: transact_def dest: exec_config split: sum.splits)

lemma lottery_steps_config: "lottery_step\<^sup>*\<^sup>* s s' \<Longrightarrow> same_config s s'"
  by (induction rule: rtranclp_induct) (auto dest: lottery_step_config intro: same_config_trans)

end
