(* ===== verification/Contract_ABI.thy ===== *)
theory Contract_ABI
  imports Lifecycle
begin

text \<open>
  The contract's interface as the front end has it: the constant
  \<^verbatim>\<open>contractABI\<close> of \<^verbatim>\<open>src/frontend/lottery.js\<close>, entry by entry and in its
  order, with each JSON object a record and each string kept as it is. The
  lemmas relate it to the model: the mutating entries are exactly the calls of the
  dispatcher (and only \<^verbatim>\<open>buyTicket\<close> takes ether), the view entries are the
  getters of the model, and no name is declared twice.
\<close>

record abi_param =
  internalType :: string
  paramName :: string
  paramType :: string

record abi_entry =
  inputs :: "abi_param list"
  entryName :: "string option"
  outputs :: "abi_param list"
  stateMutability :: string
  entryType :: string

definition abi_uint :: "string \<Rightarrow> abi_param" where
  "abi_uint n = \<lparr>internalType = ''uint256'', paramName = n, paramType = ''uint256''\<rparr>"

definition abi_address :: abi_param where
  "abi_address = \<lparr>internalType = ''address'', paramName = '''', paramType = ''address''\<rparr>"

definition abi_address_array :: abi_param where
  "abi_address_array = \<lparr>internalType = ''address[]'', paramName = '''', paramType = ''address[]''\<rparr>"

definition abi_bool :: abi_param where
  "abi_bool = \<lparr>internalType = ''bool'', paramName = '''', paramType = ''bool''\<rparr>"

definition abi_function :: "string \<Rightarrow> abi_param list \<Rightarrow> abi_param list \<Rightarrow> string \<Rightarrow> abi_entry" where
  "abi_function n ins outs m =
     \<lparr>inputs = ins, entryName = Some n, outputs = outs, stateMutability = m, entryType = ''function''\<rparr>"

definition contractABI :: "abi_entry list" where
  "contractABI =
    [\<lparr>inputs = [abi_uint ''_ticketPrice''], entryName = None, outputs = [],
      stateMutability = ''nonpayable'', entryType = ''constructor''\<rparr>,
     abi_function ''admin'' [] [abi_address] ''view'',
     abi_function ''buyTicket'' [] [] ''payable'',
     abi_function ''distributePrize'' [] [] ''nonpayable'',
     abi_function ''drawWinner'' [] [] ''nonpayable'',
     abi_function ''getParticipants'' [] [abi_address_array] ''view'',
     abi_function ''getPrizePool'' [] [abi_uint ''''] ''view'',
     abi_function ''isDrawDone'' [] [abi_bool] ''view'',
     abi_function ''participants'' [abi_uint ''''] [abi_address] ''view'',
     abi_function ''resetLottery'' [] [] ''nonpayable'',
     abi_function ''ticketPrice'' [] [abi_uint ''''] ''view'',
     abi_function ''winner'' [] [abi_address] ''view'']"

section \<open>The model's side of the interface\<close>

text \<open>The ABI function each call of the dispatcher is sent as.\<close>

primrec call_name :: "call \<Rightarrow> string" where
  "call_name (BuyTicket v) = ''buyTicket''"
| "call_name (DrawWinner r) = ''drawWinner''"
| "call_name DistributePrize = ''distributePrize''"
| "call_name ResetLottery = ''resetLottery''"

primrec call_payable :: "call \<Rightarrow> bool" where
  "call_payable (BuyTicket v) = True"
| "call_payable (DrawWinner r) = False"
| "call_payable DistributePrize = False"
| "call_payable ResetLottery = False"

text \<open>
  The getters of the model, by ABI name, with the Solidity type of what they
  return: the view functions the front end reads.
\<close>

definition model_views :: "(string \<times> string) list" where
  "model_views =
     [(''admin'', ''address''), (''getParticipants'', ''address[]''),
      (''getPrizePool'', ''uint256''), (''isDrawDone'', ''bool''),
      (''participants'', ''address''), (''ticketPrice'', ''uint256''),
      (''winner'', ''address'')]"

definition abi_lookup :: "string \<Rightarrow> abi_entry option" where
  "abi_lookup n = find (\<lambda>e. entryName e = Some n) contractABI"

definition abi_names :: "string list" where
  "abi_names = List.map_filter entryName contractABI"

section \<open>Agreement of the ABI with the model\<close>

text \<open>
  Each call of the dispatcher is sent as a function of the ABI that takes no
  argument and returns nothing, and the function is payable exactly for
  \<^verbatim>\<open>buyTicket\<close>.
\<close>

lemma abi_entry_of_call: "\<exists>e. abi_lookup (call_name k) = Some e \<and> inputs e = [] \<and> outputs e = [] \<and>
     entryType e = ''function'' \<and> (stateMutability e = ''payable'' \<longleftrightarrow> call_payable k)"
  by (cases k) (simp_all add: abi_lookup_def contractABI_def abi_function_def abi_uint_def abi_address_def abi_address_array_def abi_bool_def)

lemma range_call_name: "range call_name = {''buyTicket'', ''drawWinner'', ''distributePrize'', ''resetLottery''}"
proof (intro equalityI subsetI)
  fix n assume "n \<in> range call_name"
  then obtain k where "n = call_name k" by auto
  then show "n \<in> {''buyTicket'', ''drawWinner'', ''distributePrize'', ''resetLottery''}"
    by (cases k) simp_all
next
  fix n assume "n \<in> {''buyTicket'', ''drawWinner'', ''distributePrize'', ''resetLottery''}"
  then show "n \<in> range call_name"
    by (auto intro: range_eqI[of _ call_name "BuyTicket 0"] range_eqI[of _ call_name "DrawWinner 0"]
         range_eqI[of _ call_name DistributePrize] range_eqI[of _ call_name ResetLottery])
qed

text \<open>
  The functions of the ABI that are not views are exactly the four calls of
  the dispatcher: the model covers every state-changing entry point.
\<close>

lemma abi_mutating_functions: "set (List.map_filter entryName [e \<leftarrow> contractABI. entryType e = ''function'' \<and> stateMutability e \<noteq> ''view''])
   = range call_name"
  by (simp add: range_call_name contractABI_def abi_function_def abi_uint_def abi_address_def abi_address_array_def abi_bool_def insert_commute)

text \<open>
  The view functions of the ABI, in order and with the Solidity type they
  return, are the getters of the model.
\<close>

lemma abi_view_functions: "[(the (entryName e), paramType (hd (outputs e))). e \<leftarrow> contractABI, stateMutability e = ''view''] = model_views"
  by (simp add: model_views_def contractABI_def abi_function_def abi_uint_def abi_address_def abi_address_array_def abi_bool_def)

lemma abi_names_distinct: "distinct abi_names"
  by (simp add: abi_names_def contractABI_def abi_function_def map_filter_simps)

end
