(* ===== verification/Address_Strings.thy ===== *)
theory Address_Strings
  imports Prelude
begin

text \<open>
  Addresses and amounts as the front end sees them: strings. The provider returns
  an address as \<^verbatim>\<open>0x\<close> and 40 hexadecimal digits in EIP-55 mixed case (the
  case of each letter is a checksum); \<^verbatim>\<open>toLowerCase\<close> forgets the case. The
  lemmas show that the lowercase comparison the admin page makes is address
  equality, that the zero address is recognised by its string, and that ethers'
  \<^verbatim>\<open>parseEther\<close> reads back exactly what \<^verbatim>\<open>formatEther\<close> prints.
\<close>

section \<open>JavaScript string operations\<close>

definition lowerChar :: "char \<Rightarrow> char" where
  "lowerChar c = (let n = (of_char c :: nat) in if 65 \<le> n \<and> n \<le> 90 then char_of (n + 32) else c)"

definition toLowerCase :: "string \<Rightarrow> string" where
  "toLowerCase s = map lowerChar s"

text \<open>\<^verbatim>\<open>s.slice(0, n)\<close> and \<^verbatim>\<open>s.slice(-n)\<close> for \<open>n \<ge> 0\<close>.\<close>

definition sliceFront :: "nat \<Rightarrow> string \<Rightarrow> string" where
  "sliceFront n s = take n s"

definition sliceBack :: "nat \<Rightarrow> string \<Rightarrow> string" where
  "sliceBack n s = drop (length s - n) s"

section \<open>Hexadecimal addresses\<close>

definition hexChar :: "nat \<Rightarrow> char" where
  "hexChar d = ''0123456789abcdef'' ! d"

fun hexDigits :: "nat \<Rightarrow> nat \<Rightarrow> string" where
  "hexDigits 0 n = []"
| "hexDigits (Suc k) n = hexDigits k (n div 16) @ [hexChar (n mod 16)]"

text \<open>The lowercase form of an address, as \<^verbatim>\<open>address.toLowerCase()\<close> gives it.\<close>

definition hexAddress :: "addr \<Rightarrow> string" where
  "hexAddress a = ''0x'' @ hexDigits 40 (unat a)"

text \<open>
  A string the provider may return for an address: \<^verbatim>\<open>0x\<close>, then the address's
  digits with any choice of case.
\<close>

definition encodesAddress :: "string \<Rightarrow> addr \<Rightarrow> bool" where
  "encodesAddress s a \<longleftrightarrow> take 2 s = ''0x'' \<and> toLowerCase s = hexAddress a"

definition zeroAddressString :: string where
  "zeroAddressString = ''0x0000000000000000000000000000000000000000''"

section \<open>Lemmas on addresses\<close>

lemma hexChar_inj: "d < 16 \<Longrightarrow> e < 16 \<Longrightarrow> hexChar d = hexChar e \<Longrightarrow> d = e"
  unfolding hexChar_def by (subst (asm) nth_eq_iff_index_eq) simp_all
lemma lowerChar_hex_digits: "\<forall>c \<in> set ''0123456789abcdef''. lowerChar c = c"
  by (simp add: lowerChar_def)
lemma lowerChar_hexChar: "d < 16 \<Longrightarrow> lowerChar (hexChar d) = hexChar d"
proof -
  assume "d < 16"
  then have "hexChar d \<in> set ''0123456789abcdef''"
    unfolding hexChar_def by (intro nth_mem) simp
  with lowerChar_hex_digits show ?thesis by blast
qed

lemma length_hexDigits [simp]: "length (hexDigits k n) = k"
  by (induction k arbitrary: n) simp_all

lemma length_hexAddress [simp]: "length (hexAddress a) = 42"
  by (simp add: hexAddress_def)

lemma hexDigits_inj: "m < 16 ^ k \<Longrightarrow> n < 16 ^ k \<Longrightarrow> hexDigits k m = hexDigits k n \<Longrightarrow> m = n"
proof (induction k arbitrary: m n)
  case 0
  then show ?case by simp
next
  case (Suc k)
  from Suc.prems(3) have hi: "hexDigits k (m div 16) = hexDigits k (n div 16)"
    and lo: "hexChar (m mod 16) = hexChar (n mod 16)" by simp_all
  from Suc.prems(1,2) have "m div 16 < 16 ^ k" "n div 16 < 16 ^ k"
    by (simp_all add: less_mult_imp_div_less mult.commute)
  with hi have "m div 16 = n div 16" using Suc.IH by blast
  moreover from lo have "m mod 16 = n mod 16" by (rule hexChar_inj[rotated 2]) simp_all
  ultimately show ?case by (metis div_mod_decomp)
qed

lemma hexAddress_inj: "hexAddress a = hexAddress b \<longleftrightarrow> a = b"
proof
  assume "hexAddress a = hexAddress b"
  then have "hexDigits 40 (unat a) = hexDigits 40 (unat b)" by (simp add: hexAddress_def)
  moreover have "unat a < 16 ^ 40" "unat b < 16 ^ 40"
    using unsigned_less[of a] unsigned_less[of b] by simp_all
  ultimately have "unat a = unat b" using hexDigits_inj by blast
  then show "a = b" by (simp add: word_unat_eq_iff)
qed simp

lemma toLowerCase_hexDigits: "toLowerCase (hexDigits k n) = hexDigits k n"
  by (induction k arbitrary: n) (simp_all add: toLowerCase_def lowerChar_hexChar)

lemma toLowerCase_eq_iff_address:
  "encodesAddress u a \<Longrightarrow> encodesAddress v b \<Longrightarrow> toLowerCase u = toLowerCase v \<longleftrightarrow> a = b"
  by (auto simp: encodesAddress_def hexAddress_inj)

lemma hexDigits_zero: "hexDigits k 0 = replicate k CHR ''0''"
  by (induction k) (simp_all add: hexChar_def replicate_append_same)

lemma hexAddress_zero: "hexAddress 0 = zeroAddressString"
  by (simp add: hexAddress_def hexDigits_zero zeroAddressString_def numeral_eq_Suc)

lemma lowerChar_digit: "lowerChar c = CHR ''0'' \<Longrightarrow> c = CHR ''0''"
  unfolding lowerChar_def Let_def
  by (auto split: if_splits dest: arg_cong[where f = "of_char :: char \<Rightarrow> nat"])

lemma toLowerCase_zeros: "toLowerCase s = replicate n CHR ''0'' \<Longrightarrow> s = replicate n CHR ''0''"
proof (induction s arbitrary: n)
  case Nil
  then show ?case by (simp add: toLowerCase_def)
next
  case (Cons c s)
  then obtain m where n: "n = Suc m" by (cases n) (simp_all add: toLowerCase_def)
  with Cons.prems have "lowerChar c = CHR ''0''" "toLowerCase s = replicate m CHR ''0''"
    by (simp_all add: toLowerCase_def)
  with n Cons.IH show ?case by (simp add: lowerChar_digit)
qed

lemma zeroAddressString_iff:
  assumes "encodesAddress s a"
  shows "s = zeroAddressString \<longleftrightarrow> a = 0"
proof
  assume "s = zeroAddressString"
  with assms have "hexAddress a = hexAddress 0"
    by (simp add: encodesAddress_def hexAddress_zero zeroAddressString_def toLowerCase_def lowerChar_def)
  then show "a = 0" by (simp add: hexAddress_inj)
next
  assume "a = 0"
  with assms have low: "toLowerCase s = zeroAddressString" and pre: "take 2 s = ''0x''"
    by (simp_all add: encodesAddress_def hexAddress_zero)
  have "toLowerCase (drop 2 s) = drop 2 (toLowerCase s)"
    by (simp add: toLowerCase_def drop_map)
  also have "\<dots> = replicate 40 CHR ''0''"
    by (simp add: low zeroAddressString_def numeral_eq_Suc)
  finally have "drop 2 s = replicate 40 CHR ''0''" by (rule toLowerCase_zeros)
  with pre have "s = ''0x'' @ replicate 40 CHR ''0''"
    by (metis append_take_drop_id)
  then show "s = zeroAddressString"
    by (simp add: zeroAddressString_def numeral_eq_Suc)
qed

section \<open>Decimal numbers and ether amounts\<close>

fun decString :: "nat \<Rightarrow> string" where
  "decString n =
     (if n < 10 then [''0123456789'' ! n] else decString (n div 10) @ [''0123456789'' ! (n mod 10)])"

declare decString.simps [simp del]

definition stripTrailingZeros :: "string \<Rightarrow> string" where
  "stripTrailingZeros xs =
     (let ys = rev (dropWhile (\<lambda>c. c = CHR ''0'') (rev xs)) in if ys = [] then ''0'' else ys)"

text \<open>
  \<^verbatim>\<open>ethers.utils.formatEther\<close> (ethers v5 \<^verbatim>\<open>formatFixed\<close> with 18 decimals):
  the whole ether, a dot, and the 18-digit fraction without its trailing zeros
  (at least one digit kept).
\<close>

definition formatEther :: "nat \<Rightarrow> string" where
  "formatEther wei =
     (let frac = decString (wei mod 10 ^ 18);
          padded = replicate (18 - length frac) CHR ''0'' @ frac
      in decString (wei div 10 ^ 18) @ ''.'' @ stripTrailingZeros padded)"

text \<open>
  \<^verbatim>\<open>ethers.utils.parseEther\<close> (ethers v5 \<^verbatim>\<open>parseFixed\<close> with 18 decimals): an
  optional minus sign, digits and at most one dot; the fraction's trailing zeros
  are dropped, more than 18 digits remaining is an error, and the value is the
  whole part times \<open>10^18\<close> plus the fraction padded to 18 digits.
\<close>

definition digitValue :: "char \<Rightarrow> nat option" where
  "digitValue c = (let n = (of_char c :: nat) in if 48 \<le> n \<and> n \<le> 57 then Some (n - 48) else None)"

fun decValue :: "nat \<Rightarrow> string \<Rightarrow> nat option" where
  "decValue acc [] = Some acc"
| "decValue acc (c # cs) = (case digitValue c of None \<Rightarrow> None | Some k \<Rightarrow> decValue (10 * acc + k) cs)"

definition rtrimZeros :: "string \<Rightarrow> string" where
  "rtrimZeros xs = rev (dropWhile (\<lambda>c. c = CHR ''0'') (rev xs))"

definition parseEther :: "string \<Rightarrow> int option" where
  "parseEther s =
     (let neg = (take 1 s = ''-''); v = (if neg then drop 1 s else s);
          whole0 = takeWhile (\<lambda>c. c \<noteq> CHR ''.'') v; rest = dropWhile (\<lambda>c. c \<noteq> CHR ''.'') v;
          whole = (if whole0 = [] then ''0'' else whole0);
          frac0 = (if rest = [] then [] else tl rest);
          frac = rtrimZeros frac0
      in if v = [] \<or> \<not> list_all (\<lambda>c. c \<in> set ''0123456789.'') v \<or> v = ''.'' \<or> CHR ''.'' \<in> set frac0 \<or> 18 < length frac
         then None
         else case (decValue 0 whole, decValue 0 (frac @ replicate (18 - length frac) CHR ''0'')) of
           (Some w, Some f) \<Rightarrow> Some ((if neg then -1 else 1) * int (w * 10 ^ 18 + f))
         | _ \<Rightarrow> None)"

section \<open>Parsing what is printed\<close>

lemma digitValue_digit: "k < 10 \<Longrightarrow> digitValue (''0123456789'' ! k) = Some k"
  by (auto simp: digitValue_def less_Suc_eq numeral_eq_Suc)

lemma digit_in_digits: "k < 10 \<Longrightarrow> ''0123456789'' ! k \<in> set ''0123456789''"
  by (rule nth_mem) simp

lemma decValue_append:
  "decValue acc (xs @ ys) = (case decValue acc xs of None \<Rightarrow> None | Some a \<Rightarrow> decValue a ys)"
  by (induction acc xs rule: decValue.induct) (simp_all split: option.splits)

lemma decString_digits: "set (decString n) \<subseteq> set ''0123456789''"
proof (induction n rule: decString.induct)
  case (1 n)
  show ?case
  proof (cases "n < 10")
    case True
    then show ?thesis using digit_in_digits[of n] by (subst decString.simps) simp
  next
    case False
    then show ?thesis using 1 digit_in_digits[of "n mod 10"]
      by (subst decString.simps) simp
  qed
qed

lemma decValue_decString: "decValue acc (decString n) = Some (acc * 10 ^ length (decString n) + n)"
proof (induction n arbitrary: acc rule: decString.induct)
  case (1 n)
  show ?case
  proof (cases "n < 10")
    case True
    then show ?thesis by (subst (1 2) decString.simps) (simp add: digitValue_digit)
  next
    case False
    then have "decString n = decString (n div 10) @ [''0123456789'' ! (n mod 10)]"
      by (subst decString.simps) simp
    with False 1[of "acc"] show ?thesis
      by (simp add: decValue_append digitValue_digit algebra_simps)
  qed
qed

lemma length_decString: "n < 10 ^ k \<Longrightarrow> 0 < k \<Longrightarrow> length (decString n) \<le> k"
proof (induction n arbitrary: k rule: decString.induct)
  case (1 n)
  show ?case
  proof (cases "n < 10")
    case True
    with 1 show ?thesis by (subst decString.simps) simp
  next
    case False
    then obtain k' where k: "k = Suc k'" using 1(3) by (cases k) simp_all
    from False 1(2) k have "n div 10 < 10 ^ k'" by (simp add: less_mult_imp_div_less mult.commute)
    moreover from False 1(2) k have "0 < k'" by (cases k') simp_all
    ultimately have "length (decString (n div 10)) \<le> k'" using 1(1) False by blast
    with False k show ?thesis by (subst decString.simps) simp
  qed
qed

lemma rtrimZeros_split: "rtrimZeros p @ replicate (length p - length (rtrimZeros p)) CHR ''0'' = p"
proof -
  let ?Z = "\<lambda>c. c = CHR ''0''"
  let ?t = "rev (takeWhile ?Z (rev p))"
  have "rev p = takeWhile ?Z (rev p) @ dropWhile ?Z (rev p)" by simp
  then have "rev (rev p) = rev (takeWhile ?Z (rev p) @ dropWhile ?Z (rev p))" by (rule arg_cong)
  then have p: "p = rtrimZeros p @ ?t" by (simp only: rev_rev_ident rev_append rtrimZeros_def)
  have "\<forall>y \<in> set ?t. y = CHR ''0''" by (auto dest: set_takeWhileD)
  then have t: "replicate (length ?t) CHR ''0'' = ?t" by (rule replicate_length_same)
  from p have "length p = length (rtrimZeros p) + length ?t" by (metis length_append)
  then have "length ?t = length p - length (rtrimZeros p)" by simp
  with t p show ?thesis by simp
qed

lemma dropWhile_length: "length (dropWhile P xs) \<le> length xs"
  by (induction xs) auto

lemma dropWhile_twice: "dropWhile P (dropWhile P xs) = dropWhile P xs"
  by (induction xs) auto

lemma rtrimZeros_idem: "rtrimZeros (rtrimZeros p) = rtrimZeros p"
  by (simp add: rtrimZeros_def dropWhile_twice)

lemma stripTrailingZeros_rtrim: "stripTrailingZeros p = (if rtrimZeros p = [] then ''0'' else rtrimZeros p)"
  unfolding stripTrailingZeros_def Let_def rtrimZeros_def ..

lemma rtrimZeros_stripTrailingZeros: "rtrimZeros (stripTrailingZeros p) = rtrimZeros p"
  by (simp add: stripTrailingZeros_rtrim rtrimZeros_idem) (simp add: rtrimZeros_def)

lemma decValue_zeros: "decValue acc (replicate k CHR ''0'' @ ys) = decValue (10 ^ k * acc) ys"
  by (induction k arbitrary: acc) (simp_all add: digitValue_def ac_simps)

lemma parseEther_formatEther: "parseEther (formatEther n) = Some (int n)"
proof -
  define w where "w = decString (n div 10 ^ 18)"
  define frac where "frac = decString (n mod 10 ^ 18)"
  define padded where "padded = replicate (18 - length frac) CHR ''0'' @ frac"
  have lf: "length frac \<le> 18" unfolding frac_def by (rule length_decString) simp_all
  then have lp: "length padded = 18" by (simp add: padded_def)
  have dw: "set w \<subseteq> set ''0123456789''" and df: "set frac \<subseteq> set ''0123456789''"
    unfolding w_def frac_def by (rule decString_digits)+
  have wne: "w \<noteq> []" unfolding w_def by (subst decString.simps) simp
  then obtain c ws where wc: "w = c # ws" by (cases w) simp_all
  from dw wc have c_digit: "c \<in> set ''0123456789''" by simp
  have s: "formatEther n = w @ ''.'' @ stripTrailingZeros padded"
    by (simp add: formatEther_def w_def frac_def padded_def Let_def)
  have sp: "set (stripTrailingZeros padded) \<subseteq> set ''0123456789''"
  proof -
    have "set (rtrimZeros padded) \<subseteq> set padded" unfolding rtrimZeros_def by (auto dest: set_dropWhileD)
    with df show ?thesis unfolding stripTrailingZeros_def rtrimZeros_def[symmetric] Let_def padded_def
      by auto
  qed
  let ?r = "rtrimZeros padded"
  have "length (dropWhile (\<lambda>c. c = CHR ''0'') (rev padded)) \<le> length (rev padded)"
    by (rule dropWhile_length)
  then have lr: "length ?r \<le> 18" unfolding rtrimZeros_def using lp by simp
  have pad: "?r @ replicate (18 - length ?r) CHR ''0'' = padded" using rtrimZeros_split[of padded] lp by simp
  have fv: "decValue 0 padded = Some (n mod 10 ^ 18)"
    unfolding padded_def decValue_zeros by (simp add: frac_def decValue_decString)
  have wv: "decValue 0 w = Some (n div 10 ^ 18)" by (simp add: w_def decValue_decString)
  have notdot: "CHR ''.'' \<notin> set w" using dw by auto
  let ?P = "\<lambda>c. c \<noteq> CHR ''.''"
  have wP: "\<And>x. x \<in> set w \<Longrightarrow> ?P x" using notdot by auto
  have tw: "takeWhile ?P (formatEther n) = w" unfolding s by (simp add: takeWhile_append2 wP)
  have dw': "dropWhile ?P (formatEther n) = CHR ''.'' # stripTrailingZeros padded"
    unfolding s by (simp add: dropWhile_append2 wP)
  have neg: "take 1 (formatEther n) \<noteq> ''-''" using s wc c_digit by auto
  have ne: "formatEther n \<noteq> []" "formatEther n \<noteq> ''.''" using s wc by auto
  have chars: "list_all (\<lambda>c. c \<in> set ''0123456789.'') (formatEther n)"
    unfolding s list_all_iff using dw sp by auto
  have spdot: "CHR ''.'' \<notin> set (stripTrailingZeros padded)" using sp by auto
  have fv': "decValue 0 (rtrimZeros (stripTrailingZeros padded) @
      replicate (18 - length (rtrimZeros (stripTrailingZeros padded))) CHR ''0'') = Some (n mod 10 ^ 18)"
    by (simp only: rtrimZeros_stripTrailingZeros pad fv)
  have "parseEther (formatEther n) = Some (int (n div 10 ^ 18 * 10 ^ 18 + n mod 10 ^ 18))"
    unfolding parseEther_def Let_def
    using neg ne chars tw dw' wne wv spdot lr fv' by (simp add: rtrimZeros_stripTrailingZeros)
  then show ?thesis by simp
qed

end
