(* ===== verification/Frontend.thy ===== *)
theory Frontend
  imports Contract_ABI Address_Strings
begin

text \<open>
  The helpers of \<^verbatim>\<open>src/frontend/lottery.js\<close> that both pages use:
  \<^verbatim>\<open>showStatus\<close> and \<^verbatim>\<open>loadLotteryDetails\<close>. The page is a store of DOM
  elements by id (what \<^verbatim>\<open>document.getElementById\<close> returns); a JavaScript object
  of elements is an association list from property names to element ids, so that
  reading a property the object does not have gives \<^verbatim>\<open>undefined\<close>, and setting a
  field of \<^verbatim>\<open>undefined\<close> throws a \<^verbatim>\<open>TypeError\<close>. A thrown exception is a value
  \<open>Inl message\<close>. The animations change no element field the model keeps;
  the theory Wheel models the wheel's global and the calls that may throw.
\<close>

section \<open>Elements and the page\<close>

record element =
  textContent :: string
  classList :: "string list"
  disabled :: bool

type_synonym dom = "string \<Rightarrow> element"
type_synonym js_object = "(string \<times> string) list"

definition typeErrorUndefined :: string where
  "typeErrorUndefined = ''TypeError: Cannot set properties of undefined (setting 'textContent')''"

text \<open>\<^verbatim>\<open>classList.remove\<close> and \<^verbatim>\<open>classList.add\<close> of a DOMTokenList.\<close>

definition classRemove :: "string list \<Rightarrow> string list \<Rightarrow> string list" where
  "classRemove toks cl = filter (\<lambda>t. t \<notin> set toks) cl"

definition classAdd :: "string \<Rightarrow> string list \<Rightarrow> string list" where
  "classAdd t cl = (if t \<in> set cl then cl else cl @ [t])"

text \<open>
  \<^verbatim>\<open>showStatus(statusMessageEl, message, isError)\<close>: the element is given by its
  id, or \<open>None\<close> for \<^verbatim>\<open>undefined\<close>.
\<close>

definition statusUpdate :: "string \<Rightarrow> string \<Rightarrow> bool \<Rightarrow> dom \<Rightarrow> dom" where
  "statusUpdate i message isError d =
     d(i := (d i)\<lparr>textContent := message,
            classList := classAdd (if isError then ''text-red-600'' else ''text-green-600'')
              (classRemove [''hidden'', ''text-green-600'', ''text-red-600''] (classList (d i)))\<rparr>)"

definition showStatus :: "string option \<Rightarrow> string \<Rightarrow> bool \<Rightarrow> dom \<Rightarrow> string + dom" where
  "showStatus el message isError d =
     (case el of None \<Rightarrow> Inl typeErrorUndefined | Some i \<Rightarrow> Inr (statusUpdate i message isError d))"

text \<open>\<^verbatim>\<open>elements.key.textContent = text\<close>.\<close>

definition setText :: "js_object \<Rightarrow> string \<Rightarrow> string \<Rightarrow> dom \<Rightarrow> string + dom" where
  "setText obj key text d =
     (case map_of obj key of
        None \<Rightarrow> Inl typeErrorUndefined
      | Some i \<Rightarrow> Inr (d(i := (d i)\<lparr>textContent := text\<rparr>)))"

text \<open>A page whose elements are all empty, visible and enabled.\<close>

definition emptyPage :: dom where
  "emptyPage i = \<lparr>textContent = '''', classList = [], disabled = False\<rparr>"

section \<open>Loading the details\<close>

text \<open>
  The four awaited reads of \<^verbatim>\<open>loadLotteryDetails\<close>, in order; each is the value
  the contract returned or the message of the error the provider threw. The
  winner comes back as the provider's string for the address.
\<close>

record reads =
  rTicketPrice :: "string + uint"
  rParticipants :: "string + addr list"
  rPrizePool :: "string + uint"
  rWinner :: "string + string"

text \<open>
  The reads as four separate calls: each sees the chain as it is when it is
  answered, \<open>fmt\<close> is how the provider writes an address.
\<close>

definition readAll :: "(addr \<Rightarrow> string) \<Rightarrow> chain \<Rightarrow> chain \<Rightarrow> chain \<Rightarrow> chain \<Rightarrow> reads" where
  "readAll fmt s1 s2 s3 s4 =
     \<lparr>rTicketPrice = Inr (ticketPrice s1), rParticipants = Inr (getParticipants s2),
      rPrizePool = Inr (getPrizePool s3), rWinner = Inr (fmt (winnerAddress s4))\<rparr>"

definition winnerText :: "string \<Rightarrow> string" where
  "winnerText w = (if w = zeroAddressString then ''Not drawn yet'' else w)"

text \<open>
  The \<^verbatim>\<open>try\<close> block: the reads, then the four assignments. A failure is the
  thrown message with the page as far as it got.
\<close>

definition loadTry :: "reads \<Rightarrow> js_object \<Rightarrow> dom \<Rightarrow> (string \<times> dom) + dom" where
  "loadTry r els d =
     (case (rTicketPrice r, rParticipants r, rPrizePool r, rWinner r) of
        (Inr tp, Inr ps, Inr pool, Inr w) \<Rightarrow>
          (case setText els ''ticketPriceEl'' (formatEther (unat tp)) d of
             Inl e \<Rightarrow> Inl (e, d)
           | Inr d1 \<Rightarrow>
          (case setText els ''participantsCountEl'' (decString (length ps)) d1 of
             Inl e \<Rightarrow> Inl (e, d1)
           | Inr d2 \<Rightarrow>
          (case setText els ''prizePoolEl'' (formatEther (unat pool)) d2 of
             Inl e \<Rightarrow> Inl (e, d2)
           | Inr d3 \<Rightarrow>
          (case setText els ''winnerEl'' (winnerText w) d3 of
             Inl e \<Rightarrow> Inl (e, d3)
           | Inr d4 \<Rightarrow> Inr d4))))
      | (Inl e, _, _, _) \<Rightarrow> Inl (e, d)
      | (_, Inl e, _, _) \<Rightarrow> Inl (e, d)
      | (_, _, Inl e, _) \<Rightarrow> Inl (e, d)
      | (_, _, _, Inl e) \<Rightarrow> Inl (e, d))"

text \<open>
  \<^verbatim>\<open>loadLotteryDetails(contract, elements)\<close>: the \<^verbatim>\<open>catch\<close> shows the failure
  in \<^verbatim>\<open>elements.statusMessageEl\<close>. A result \<open>Inl\<close> is an exception that escapes
  the function (its promise rejects).
\<close>

definition loadLotteryDetails :: "reads \<Rightarrow> js_object \<Rightarrow> dom \<Rightarrow> string + dom" where
  "loadLotteryDetails r els d =
     (case loadTry r els d of
        Inr d' \<Rightarrow> Inr d'
      | Inl (_, d') \<Rightarrow> showStatus (map_of els ''statusMessageEl'') ''Failed to load lottery details'' True d')"

text \<open>
  The object both pages pass: the element variables in shorthand, so the status
  element is under the key \<^verbatim>\<open>statusMessage\<close>.
\<close>

definition detailsElements :: js_object where
  "detailsElements =
     [(''ticketPriceEl'', ''ticket-price''), (''participantsCountEl'', ''participants-count''),
      (''prizePoolEl'', ''prize-pool''), (''winnerEl'', ''winner''),
      (''statusMessage'', ''status-message'')]"

section \<open>Lemmas\<close>

text \<open>
  \<^verbatim>\<open>showStatus\<close> on an element writes the message, makes the element visible,
  gives it exactly the one colour class of the outcome (red for an error, green
  otherwise), and changes nothing else on the page.
\<close>

lemma showStatus_element:
  "case showStatus (Some i) m isError d of
     Inl _ \<Rightarrow> False
   | Inr d' \<Rightarrow> textContent (d' i) = m \<and> ''hidden'' \<notin> set (classList (d' i)) \<and>
       (if isError then ''text-red-600'' \<in> set (classList (d' i)) \<and> ''text-green-600'' \<notin> set (classList (d' i))
        else ''text-green-600'' \<in> set (classList (d' i)) \<and> ''text-red-600'' \<notin> set (classList (d' i))) \<and>
       disabled (d' i) = disabled (d i) \<and> d'(i := d i) = d"
  by (simp add: showStatus_def statusUpdate_def classAdd_def classRemove_def)

text \<open>
  C14. When the four reads succeed, \<^verbatim>\<open>loadLotteryDetails\<close> with the pages' element
  object shows the ticket price and the pool in ether, the number of entries, and
  the winner or "Not drawn yet", each from the read that fetched it.
\<close>

lemma loadLotteryDetails_shows:
  "loadLotteryDetails (readAll fmt s1 s2 s3 s4) detailsElements d =
     Inr (d(''ticket-price'' := (d ''ticket-price'')\<lparr>textContent := formatEther (unat (ticketPrice s1))\<rparr>,
            ''participants-count'' := (d ''participants-count'')\<lparr>textContent := decString (length (participants s2))\<rparr>,
            ''prize-pool'' := (d ''prize-pool'')\<lparr>textContent := formatEther (unat (prizePool s3))\<rparr>,
            ''winner'' := (d ''winner'')\<lparr>textContent := winnerText (fmt (winnerAddress s4))\<rparr>))"
  by (simp add: loadLotteryDetails_def loadTry_def readAll_def setText_def detailsElements_def
      getParticipants_def getPrizePool_def)

lemma loadTry_detailsElements:
  "loadTry r detailsElements d = Inl (e, d') \<Longrightarrow> d' = d"
  by (auto simp: loadTry_def setText_def detailsElements_def split: sum.splits)

text \<open>
  C15. When a read fails, the \<^verbatim>\<open>catch\<close> of \<^verbatim>\<open>loadLotteryDetails\<close> reads
  \<^verbatim>\<open>elements.statusMessageEl\<close>, which the object the pages pass does not have
  (its key is \<^verbatim>\<open>statusMessage\<close>): the failure message is never shown and a
  \<^verbatim>\<open>TypeError\<close> escapes instead.
\<close>

lemma loadLotteryDetails_failure:
  assumes "loadTry r detailsElements d = Inl (e, d')"
  shows "loadLotteryDetails r detailsElements d = Inl typeErrorUndefined"
  using assms by (simp add: loadLotteryDetails_def showStatus_def detailsElements_def)

theorem loadLotteryDetails_failure_witness:
  "loadTry \<lparr>rTicketPrice = Inl ''network error'', rParticipants = Inr [], rPrizePool = Inr 0, rWinner = Inr ''''\<rparr>
     detailsElements emptyPage = Inl (''network error'', emptyPage) \<and>
   loadLotteryDetails \<lparr>rTicketPrice = Inl ''network error'', rParticipants = Inr [], rPrizePool = Inr 0, rWinner = Inr ''''\<rparr>
     detailsElements emptyPage = Inl typeErrorUndefined"
proof -
  have h: "loadTry \<lparr>rTicketPrice = Inl ''network error'', rParticipants = Inr [], rPrizePool = Inr 0, rWinner = Inr ''''\<rparr>
     detailsElements emptyPage = Inl (''network error'', emptyPage)"
    by (simp add: loadTry_def)
  show ?thesis using loadLotteryDetails_failure[OF h] h by blast
qed

lemma statusUpdate_other [simp]: "j \<noteq> i \<Longrightarrow> statusUpdate i m e d j = d j"
  by (simp add: statusUpdate_def)

lemma statusUpdate_text [simp]: "textContent (statusUpdate i m e d i) = m"
  by (simp add: statusUpdate_def)

lemma encodesAddress_hexAddress: "encodesAddress (hexAddress a) a"
  by (simp add: encodesAddress_def hexAddress_def toLowerCase_def lowerChar_def toLowerCase_hexDigits[unfolded toLowerCase_def])

lemma winnerText_not_drawn:
  assumes "encodesAddress w a"
  shows "winnerText w = ''Not drawn yet'' \<longleftrightarrow> a = 0"
proof -
  from assms have "take 2 w = ''0x''" by (simp add: encodesAddress_def)
  then have "w \<noteq> ''Not drawn yet''" by auto
  with assms show ?thesis by (simp add: winnerText_def zeroAddressString_iff)
qed

lemma winnerAddress_zero_iff:
  assumes "lottery_inv s" and "0 \<notin> set (participants s)"
  shows "winnerAddress s = 0 \<longleftrightarrow> phase s = Open"
  using assms by (auto simp: winnerAddress_def lottery_inv_def split: option.splits)

end
