(* ===== verification/Pages.thy ===== *)
theory Pages
  imports Frontend
begin

text \<open>
  The two pages: \<^verbatim>\<open>src/frontend/admin.js\<close> (connect the wallet, then draw,
  distribute and reset) and \<^verbatim>\<open>src/frontend/user.js\<close> (connect, then buy a
  ticket). Each button handler disables its button and relabels it, sends one
  transaction, shows the outcome in the status element, asks for a reload of the
  details on success, and in its \<^verbatim>\<open>finally\<close> re-enables the button with its
  label. Awaiting the transaction is atomic here (the host serialises
  transactions); \<open>msgOf\<close> is the message of the error the provider reports for
  a reverted call.
\<close>

section \<open>Transaction buttons\<close>

record txButton =
  btnId :: string
  busyLabel :: string
  idleLabel :: string
  okMessage :: string
  failPrefix :: string

definition statusId :: string where
  "statusId = ''status-message''"

definition setButton :: "string \<Rightarrow> bool \<Rightarrow> string \<Rightarrow> dom \<Rightarrow> dom" where
  "setButton i dis label d = d(i := (d i)\<lparr>disabled := dis, textContent := label\<rparr>)"

text \<open>
  The page side of a handler, given the outcome of the awaited calls: \<open>Inr ()\<close>
  or the message of what they threw.
\<close>

definition txButtonUI :: "txButton \<Rightarrow> string + unit \<Rightarrow> dom \<Rightarrow> dom" where
  "txButtonUI b outcome d =
     (let d1 = setButton (btnId b) True (busyLabel b) d;
          d2 = (case outcome of
                  Inr _ \<Rightarrow> statusUpdate statusId (okMessage b) False d1
                | Inl m \<Rightarrow> statusUpdate statusId (failPrefix b @ m) True d1)
      in setButton (btnId b) False (idleLabel b) d2)"

text \<open>The result of a click: the page, the chain, and whether the details reload.\<close>

record click_result =
  page :: dom
  chainAfter :: chain
  reloads :: bool

definition clickTx :: "txButton \<Rightarrow> (error \<Rightarrow> string) \<Rightarrow> (addr \<Rightarrow> chain \<Rightarrow> receiver) \<Rightarrow> addr \<Rightarrow> call \<Rightarrow> chain \<Rightarrow> dom \<Rightarrow> click_result" where
  "clickTx b msgOf rs caller k s d =
     (case transact rs caller k s of
        (Inl e, s') \<Rightarrow> \<lparr>page = txButtonUI b (Inl (msgOf e)) d, chainAfter = s', reloads = False\<rparr>
      | (Inr _, s') \<Rightarrow> \<lparr>page = txButtonUI b (Inr ()) d, chainAfter = s', reloads = True\<rparr>)"

section \<open>admin.js\<close>

definition triggerDrawButton :: txButton where
  "triggerDrawButton =
     \<lparr>btnId = ''trigger-draw'', busyLabel = ''Drawing...'', idleLabel = ''Trigger Draw'',
      okMessage = ''Draw triggered successfully!'', failPrefix = ''Failed to trigger draw: ''\<rparr>"

definition distributePrizeButton :: txButton where
  "distributePrizeButton =
     \<lparr>btnId = ''distribute-prize'', busyLabel = ''Distributing...'', idleLabel = ''Distribute Prize'',
      okMessage = ''Prize distributed successfully!'', failPrefix = ''Failed to distribute prize: ''\<rparr>"

definition resetLotteryButton :: txButton where
  "resetLotteryButton =
     \<lparr>btnId = ''reset-lottery'', busyLabel = ''Resetting...'', idleLabel = ''Reset Lottery'',
      okMessage = ''Lottery reset successfully!'', failPrefix = ''Failed to reset lottery: ''\<rparr>"

text \<open>The draw transaction carries the randomness sample of the block it is mined in.\<close>

definition clickTriggerDraw :: "(error \<Rightarrow> string) \<Rightarrow> (addr \<Rightarrow> chain \<Rightarrow> receiver) \<Rightarrow> addr \<Rightarrow> uint \<Rightarrow> chain \<Rightarrow> dom \<Rightarrow> click_result" where
  "clickTriggerDraw msgOf rs caller sample s d =
     clickTx triggerDrawButton msgOf rs caller (DrawWinner sample) s d"

definition clickDistributePrize :: "(error \<Rightarrow> string) \<Rightarrow> (addr \<Rightarrow> chain \<Rightarrow> receiver) \<Rightarrow> addr \<Rightarrow> chain \<Rightarrow> dom \<Rightarrow> click_result" where
  "clickDistributePrize msgOf rs caller s d =
     clickTx distributePrizeButton msgOf rs caller DistributePrize s d"

definition clickResetLottery :: "(error \<Rightarrow> string) \<Rightarrow> (addr \<Rightarrow> chain \<Rightarrow> receiver) \<Rightarrow> addr \<Rightarrow> chain \<Rightarrow> dom \<Rightarrow> click_result" where
  "clickResetLottery msgOf rs caller s d =
     clickTx resetLotteryButton msgOf rs caller ResetLottery s d"

section \<open>user.js\<close>

definition buyTicketButton :: txButton where
  "buyTicketButton =
     \<lparr>btnId = ''buy-ticket'', busyLabel = ''Processing...'', idleLabel = ''Buy Ticket'',
      okMessage = ''Ticket purchased successfully!'', failPrefix = ''Failed to buy ticket: ''\<rparr>"

text \<open>
  The buy handler first reads \<^verbatim>\<open>ticketPrice()\<close> (from the chain as it is then,
  \<open>sRead\<close>, or the provider throws) and then sends \<^verbatim>\<open>buyTicket\<close> with that
  value, mined on the chain as it is later, \<open>s\<close>.
\<close>

definition clickBuyTicket :: "(error \<Rightarrow> string) \<Rightarrow> (addr \<Rightarrow> chain \<Rightarrow> receiver) \<Rightarrow> addr \<Rightarrow> string + chain \<Rightarrow> chain \<Rightarrow> dom \<Rightarrow> click_result" where
  "clickBuyTicket msgOf rs caller sRead s d =
     (case sRead of
        Inl m \<Rightarrow> \<lparr>page = txButtonUI buyTicketButton (Inl m) d, chainAfter = s, reloads = False\<rparr>
      | Inr r \<Rightarrow> clickTx buyTicketButton msgOf rs caller (BuyTicket (ticketPrice r)) s d)"

section \<open>Lemmas\<close>

lemma clickTx_outcome:
  "clickTx b msgOf rs c k s d =
     (case exec callDepthLimit rs c k s of
        Inl e \<Rightarrow> \<lparr>page = txButtonUI b (Inl (msgOf e)) d, chainAfter = s, reloads = False\<rparr>
      | Inr s' \<Rightarrow> \<lparr>page = txButtonUI b (Inr ()) d, chainAfter = s', reloads = True\<rparr>)"
  unfolding clickTx_def transact_def by (cases "exec callDepthLimit rs c k s") simp_all

end
