(* ===== verification/Wallet_Connect.thy ===== *)
theory Wallet_Connect
  imports Pages
begin

text \<open>
  The Connect Wallet handlers of \<^verbatim>\<open>src/frontend/admin.js\<close> and
  \<^verbatim>\<open>src/frontend/user.js\<close>. Both ask the injected provider
  (\<^verbatim>\<open>window.ethereum\<close>) for the accounts, read the signer's address, show it
  shortened in the wallet status and hide the Connect button. The administrator's
  page then reads \<^verbatim>\<open>admin()\<close> from the contract and compares the two addresses
  in lowercase: only the administrator gets the admin section; the player's page
  shows its section to every connected wallet. Both then start
  \<^verbatim>\<open>loadLotteryDetails\<close> without awaiting it, so an exception it throws is a
  rejected promise nobody handles, not a failure of the handler. The wallet's answers
  are inputs: \<open>Inl m\<close> is the message of what the provider threw.
\<close>

section \<open>Elements\<close>

definition connectWalletId :: string where
  "connectWalletId = ''connect-wallet''"

definition walletStatusId :: string where
  "walletStatusId = ''wallet-status''"

definition adminSectionId :: string where
  "adminSectionId = ''admin-section''"

definition userSectionId :: string where
  "userSectionId = ''user-section''"

definition wheelCanvasId :: string where
  "wheelCanvasId = ''lottery-wheel''"

lemmas element_ids = connectWalletId_def walletStatusId_def adminSectionId_def userSectionId_def
  wheelCanvasId_def statusId_def

section \<open>DOM updates\<close>

text \<open>\<^verbatim>\<open>el.textContent = t\<close>, \<^verbatim>\<open>el.classList.add("hidden")\<close> and
  \<^verbatim>\<open>el.classList.remove("hidden")\<close>.\<close>

definition setTextContent :: "string \<Rightarrow> string \<Rightarrow> dom \<Rightarrow> dom" where
  "setTextContent i t d = d(i := (d i)\<lparr>textContent := t\<rparr>)"

definition hideElement :: "string \<Rightarrow> dom \<Rightarrow> dom" where
  "hideElement i d = d(i := (d i)\<lparr>classList := classAdd ''hidden'' (classList (d i))\<rparr>)"

definition unhideElement :: "string \<Rightarrow> dom \<Rightarrow> dom" where
  "unhideElement i d = d(i := (d i)\<lparr>classList := classRemove [''hidden''] (classList (d i))\<rparr>)"

text \<open>
  \<^verbatim>\<open>initWheel()\<close>: of what it does, only unhiding the canvas changes the page the
  model keeps; the three.js scene, camera, renderer and animation loop draw on the
  canvas. This is \<^verbatim>\<open>initWheel\<close> when three.js can create its renderer; the
  theory Wheel adds the case where it throws.
\<close>

definition initWheel :: "dom \<Rightarrow> dom" where
  "initWheel d = unhideElement wheelCanvasId d"

section \<open>The handlers\<close>

text \<open>What the wallet answers: whether a provider is injected, the outcome of
  \<^verbatim>\<open>eth_requestAccounts\<close>, and the signer's address as the provider writes it.\<close>

record wallet =
  hasEthereum :: bool
  requestAccounts :: "string + unit"
  signerAddress :: "string + string"

text \<open>\<^verbatim>\<open>`Connected: ${userAddress.slice(0, 6)}...${userAddress.slice(-4)}`\<close>.\<close>

definition walletLabel :: "string \<Rightarrow> string" where
  "walletLabel u = ''Connected: '' @ sliceFront 6 u @ ''...'' @ sliceBack 4 u"

text \<open>
  The first lines of the \<^verbatim>\<open>try\<close> block, the same on both pages: the user's
  address and the page, or the thrown message and the page as far as it got.
\<close>

definition connectTry :: "wallet \<Rightarrow> dom \<Rightarrow> (string \<times> dom) + (string \<times> dom)" where
  "connectTry w d =
     (case requestAccounts w of
        Inl m \<Rightarrow> Inl (m, d)
      | Inr _ \<Rightarrow>
     (case signerAddress w of
        Inl m \<Rightarrow> Inl (m, d)
      | Inr u \<Rightarrow> Inr (u, hideElement connectWalletId (setTextContent walletStatusId (walletLabel u) d))))"

text \<open>The page after the handler, and the rejection of the un-awaited
  \<^verbatim>\<open>loadLotteryDetails\<close> if it rejects.\<close>

record connect_result =
  connPage :: dom
  unhandled :: "string option"

definition showError :: "string \<Rightarrow> dom \<Rightarrow> connect_result" where
  "showError m d = \<lparr>connPage = statusUpdate statusId m True d, unhandled = None\<rparr>"

definition connectFailed :: "string \<Rightarrow> dom \<Rightarrow> connect_result" where
  "connectFailed m d = showError (''Failed to connect wallet: '' @ m) d"

text \<open>
  \<^verbatim>\<open>loadLotteryDetails(contract, {...})\<close> without \<^verbatim>\<open>await\<close>. With the pages'
  element object a rejection leaves the page as it was
  (\<open>loadTry_detailsElements\<close>).
\<close>

definition loadDetailsAsync :: "reads \<Rightarrow> dom \<Rightarrow> connect_result" where
  "loadDetailsAsync r d =
     (case loadLotteryDetails r detailsElements d of
        Inl e \<Rightarrow> \<lparr>connPage = d, unhandled = Some e\<rparr>
      | Inr d' \<Rightarrow> \<lparr>connPage = d', unhandled = None\<rparr>)"

text \<open>admin.js: \<open>adminRead\<close> is the answer to \<^verbatim>\<open>contract.admin()\<close>.\<close>

definition connectAdmin :: "wallet \<Rightarrow> string + string \<Rightarrow> reads \<Rightarrow> dom \<Rightarrow> connect_result" where
  "connectAdmin w adminRead r d =
     (if \<not> hasEthereum w then showError ''Please install MetaMask'' d
      else case connectTry w d of
        Inl (m, d1) \<Rightarrow> connectFailed m d1
      | Inr (u, d1) \<Rightarrow>
     (case adminRead of
        Inl m \<Rightarrow> connectFailed m d1
      | Inr a \<Rightarrow>
          if toLowerCase u \<noteq> toLowerCase a then showError ''You are not the admin'' d1
          else loadDetailsAsync r (initWheel (unhideElement adminSectionId d1))))"

text \<open>user.js: no admin check.\<close>

definition connectUser :: "wallet \<Rightarrow> reads \<Rightarrow> dom \<Rightarrow> connect_result" where
  "connectUser w r d =
     (if \<not> hasEthereum w then showError ''Please install MetaMask'' d
      else case connectTry w d of
        Inl (m, d1) \<Rightarrow> connectFailed m d1
      | Inr (u, d1) \<Rightarrow> loadDetailsAsync r (initWheel (unhideElement userSectionId d1)))"

section \<open>Lemmas\<close>

lemmas dom_update_defs = setTextContent_def hideElement_def unhideElement_def initWheel_def

lemma loadTry_detailsElements_Inr:
  "loadTry r detailsElements d = Inr d' \<Longrightarrow> i \<notin> set (map snd detailsElements) \<Longrightarrow> d' i = d i"
  by (auto simp: loadTry_def setText_def detailsElements_def split: sum.splits)

lemma loadDetailsAsync_frame:
  assumes "i \<notin> set (map snd detailsElements)"
  shows "connPage (loadDetailsAsync r d) i = d i"
proof (cases "loadTry r detailsElements d")
  case (Inl p)
  then show ?thesis
    by (cases p) (simp add: loadDetailsAsync_def loadLotteryDetails_def showStatus_def detailsElements_def)
next
  case (Inr d')
  from Inr assms have "d' i = d i" by (rule loadTry_detailsElements_Inr)
  with Inr show ?thesis by (simp add: loadDetailsAsync_def loadLotteryDetails_def)
qed

lemma loadTry_detailsElements_fails:
  assumes "rTicketPrice r = Inl m \<or> rParticipants r = Inl m \<or> rPrizePool r = Inl m \<or> rWinner r = Inl m"
  shows "\<exists>e. loadTry r detailsElements d = Inl (e, d)"
  using assms by (auto simp: loadTry_def split: sum.splits)

lemma loadDetailsAsync_fails:
  assumes "rTicketPrice r = Inl m \<or> rParticipants r = Inl m \<or> rPrizePool r = Inl m \<or> rWinner r = Inl m"
  shows "loadDetailsAsync r d = \<lparr>connPage = d, unhandled = Some typeErrorUndefined\<rparr>"
proof -
  from loadTry_detailsElements_fails[OF assms] obtain e where "loadTry r detailsElements d = Inl (e, d)" ..
  then show ?thesis
    by (simp add: loadDetailsAsync_def loadLotteryDetails_def showStatus_def detailsElements_def)
qed

lemma connectTry_Inr:
  "requestAccounts w = Inr () \<Longrightarrow> signerAddress w = Inr u \<Longrightarrow>
   connectTry w d = Inr (u, hideElement connectWalletId (setTextContent walletStatusId (walletLabel u) d))"
  by (simp add: connectTry_def)

lemma connectTry_Inl:
  "isl (requestAccounts w) \<or> isl (signerAddress w) \<Longrightarrow> \<exists>m. connectTry w d = Inl (m, d)"
  by (auto simp: connectTry_def split: sum.splits)

lemma length_sliceFront [simp]: "length (sliceFront n s) = min n (length s)"
  by (simp add: sliceFront_def)

lemma length_sliceBack [simp]: "length (sliceBack n s) = min n (length s)"
  by (simp add: sliceBack_def)

text \<open>
  C19. Admin gate: when the wallet connects with the address of \<open>c\<close> and the
  provider writes the stored administrator's address, the admin section is shown
  exactly when \<open>c\<close> is the administrator (whatever case the two strings use);
  anyone else is told that they are not the admin.
\<close>

lemma admin_connect_gate:
  assumes "hasEthereum w" and "requestAccounts w = Inr ()" and "signerAddress w = Inr u"
    and "encodesAddress u c" and "encodesAddress (fmt (admin s)) (admin s)"
    and "''hidden'' \<in> set (classList (d adminSectionId))"
  shows "(''hidden'' \<notin> set (classList (connPage (connectAdmin w (Inr (fmt (admin s))) r d) adminSectionId))
            \<longleftrightarrow> c = admin s) \<and>
         (c \<noteq> admin s \<longrightarrow> textContent (connPage (connectAdmin w (Inr (fmt (admin s))) r d) statusId) = ''You are not the admin'')"
proof -
  have eq: "toLowerCase u = toLowerCase (fmt (admin s)) \<longleftrightarrow> c = admin s"
    using assms(4,5) by (rule toLowerCase_eq_iff_address)
  have ids: "adminSectionId \<notin> set (map snd detailsElements)"
    by (simp add: detailsElements_def element_ids)
  show ?thesis
    using assms(1-3,6) eq loadDetailsAsync_frame[OF ids]
    by (simp add: connectAdmin_def connectTry_Inr showError_def dom_update_defs element_ids classRemove_def)
qed

text \<open>
  C20. The wallet status is at most 24 characters: the 14 of the template, at most
  six from the front of the address and at most four from its back; for a
  provider's address string (42 characters) it is exactly 24 and shows
  \<^verbatim>\<open>0x\<close>, four digits, and the last four digits.
\<close>

lemma walletLabel_bounds:
  "length (walletLabel u) = 14 + min 6 (length u) + min 4 (length u) \<and> length (walletLabel u) \<le> 24 \<and>
   (encodesAddress u a \<longrightarrow> length (walletLabel u) = 24 \<and>
      walletLabel u = ''Connected: '' @ take 6 u @ ''...'' @ drop 38 u)"
proof -
  have "encodesAddress u a \<Longrightarrow> length u = 42"
    by (drule arg_cong[where f = length, OF conjunct2[OF iffD1[OF encodesAddress_def]]])
       (simp add: toLowerCase_def)
  then show ?thesis
    by (auto simp: walletLabel_def sliceFront_def sliceBack_def)
qed

text \<open>
  C21. A connection that fails (no injected provider, a rejected account request,
  or a failed address read) changes only the status element, which shows the
  error in red, on both pages, and loads nothing.
\<close>

lemma connect_failure_frame:
  assumes "\<not> hasEthereum w \<or> isl (requestAccounts w) \<or> isl (signerAddress w)"
  shows "(\<forall>i. i \<noteq> statusId \<longrightarrow> connPage (connectAdmin w a r d) i = d i \<and> connPage (connectUser w r d) i = d i) \<and>
         unhandled (connectAdmin w a r d) = None \<and> unhandled (connectUser w r d) = None \<and>
         ''text-red-600'' \<in> set (classList (connPage (connectAdmin w a r d) statusId)) \<and>
         ''text-red-600'' \<in> set (classList (connPage (connectUser w r d) statusId))"
proof (cases "hasEthereum w")
  case False
  then show ?thesis by (simp add: connectAdmin_def connectUser_def showError_def statusUpdate_def classAdd_def)
next
  case True
  with assms obtain m where "connectTry w d = Inl (m, d)" using connectTry_Inl by blast
  with True show ?thesis
    by (simp add: connectAdmin_def connectUser_def connectFailed_def showError_def statusUpdate_def classAdd_def)
qed

text \<open>
  When the administrator connects and a read of the details fails, the
  handler does not report it: \<^verbatim>\<open>loadLotteryDetails\<close> throws the
  \<^verbatim>\<open>TypeError\<close> of its \<^verbatim>\<open>catch\<close> into a promise nobody awaits, and the
  status element is left exactly as it was.
\<close>

lemma admin_connect_details_unhandled:
  assumes "hasEthereum w" and "requestAccounts w = Inr ()" and "signerAddress w = Inr u"
    and "toLowerCase u = toLowerCase a"
    and "rTicketPrice r = Inl m \<or> rParticipants r = Inl m \<or> rPrizePool r = Inl m \<or> rWinner r = Inl m"
  shows "unhandled (connectAdmin w (Inr a) r d) = Some typeErrorUndefined \<and>
         connPage (connectAdmin w (Inr a) r d) statusId = d statusId"
  using assms by (simp add: connectAdmin_def connectTry_Inr loadDetailsAsync_fails dom_update_defs element_ids)

text \<open>
  Any wallet that connects on the player's page gets the shortened address in
  the wallet status, the Connect button hidden, the player's section and the wheel
  shown, and, when the reads succeed, the details and no rejection.
\<close>

lemma user_connect_shows:
  assumes "hasEthereum w" and "requestAccounts w = Inr ()" and "signerAddress w = Inr u"
  shows "textContent (connPage (connectUser w (readAll fmt s1 s2 s3 s4) d) walletStatusId) = walletLabel u \<and>
         ''hidden'' \<in> set (classList (connPage (connectUser w (readAll fmt s1 s2 s3 s4) d) connectWalletId)) \<and>
         ''hidden'' \<notin> set (classList (connPage (connectUser w (readAll fmt s1 s2 s3 s4) d) userSectionId)) \<and>
         ''hidden'' \<notin> set (classList (connPage (connectUser w (readAll fmt s1 s2 s3 s4) d) wheelCanvasId)) \<and>
         textContent (connPage (connectUser w (readAll fmt s1 s2 s3 s4) d) ''prize-pool'') = formatEther (unat (prizePool s3)) \<and>
         unhandled (connectUser w (readAll fmt s1 s2 s3 s4) d) = None"
  using assms
  by (simp add: connectUser_def connectTry_Inr loadDetailsAsync_def loadLotteryDetails_def loadTry_def readAll_def
      setText_def detailsElements_def getPrizePool_def dom_update_defs element_ids classAdd_def classRemove_def)

end
