(* ===== verification/Wheel.thy ===== *)
theory Wheel
  imports Complex_Main Wallet_Connect
begin

text \<open>
  The three.js wheel of both pages (\<^verbatim>\<open>initWheel\<close> and \<^verbatim>\<open>spinWheel\<close> in
  \<^verbatim>\<open>src/frontend/admin.js\<close> and \<^verbatim>\<open>src/frontend/user.js\<close>) and the handlers
  with the calls that touch it. The page's global \<^verbatim>\<open>wheel\<close> is \<open>None\<close> while
  it is \<^verbatim>\<open>undefined\<close>, and otherwise the angle its rotation about the y axis
  is animated to. \<^verbatim>\<open>initWheel\<close> throws when three.js cannot create its WebGL
  renderer, before it unhides the canvas or sets \<^verbatim>\<open>wheel\<close>; \<^verbatim>\<open>spinWheel\<close>
  reads \<^verbatim>\<open>wheel.rotation\<close>, which throws while \<^verbatim>\<open>wheel\<close> is undefined. Both
  calls sit inside the handlers' \<^verbatim>\<open>try\<close> blocks, after the step they decorate.
  With the wheel created the handlers are exactly those of the theories Pages and
  Wallet_Connect; without it, a connection shows the page's section
  and reports a failure, and every later successful draw or purchase is reported
  as failed and does not reload the details.
\<close>

section \<open>The wheel\<close>

type_synonym wheel = "real option"

definition webglError :: string where
  "webglError = ''Error creating WebGL context.''"

definition typeErrorRotation :: string where
  "typeErrorRotation = ''Cannot read properties of undefined (reading 'rotation')''"

text \<open>
  \<^verbatim>\<open>initWheel()\<close>: the renderer is created before the canvas is unhidden and
  before \<^verbatim>\<open>wheel = new THREE.Mesh(...)\<close>; \<open>gl\<close> says whether the browser gives
  three.js a WebGL context. A new mesh has rotation 0.
\<close>

definition initWheelScene :: "bool \<Rightarrow> dom \<Rightarrow> string + (dom \<times> real)" where
  "initWheelScene gl d = (if gl then Inr (initWheel d, 0) else Inl webglError)"

text \<open>
  \<^verbatim>\<open>spinWheel()\<close>: \<^verbatim>\<open>anime({targets: wheel.rotation, y: "+=turn", ...})\<close>
  animates the angle to the current one plus the page's turn: 12.56 rad on the
  administrator's page, 6.28 rad on the player's page.
\<close>

definition spinWheel :: "real \<Rightarrow> wheel \<Rightarrow> string + real" where
  "spinWheel turn wh = (case wh of None \<Rightarrow> Inl typeErrorRotation | Some y \<Rightarrow> Inr (y + turn))"

definition adminTurn :: real where
  "adminTurn = 12.56"

definition userTurn :: real where
  "userTurn = 6.28"

section \<open>Connecting\<close>

text \<open>
  The connect handlers with \<^verbatim>\<open>initWheel()\<close> as written: a throw goes to the
  handler's \<^verbatim>\<open>catch\<close>, after the page's section has been unhidden.
\<close>

definition wheelThenLoad :: "bool \<Rightarrow> reads \<Rightarrow> wheel \<Rightarrow> dom \<Rightarrow> connect_result \<times> wheel" where
  "wheelThenLoad gl r wh d =
     (case initWheelScene gl d of
        Inl m \<Rightarrow> (connectFailed m d, wh)
      | Inr (d2, y) \<Rightarrow> (loadDetailsAsync r d2, Some y))"

definition connectAdminWheel :: "bool \<Rightarrow> wallet \<Rightarrow> string + string \<Rightarrow> reads \<Rightarrow> wheel \<Rightarrow> dom \<Rightarrow> connect_result \<times> wheel" where
  "connectAdminWheel gl w adminRead r wh d =
     (if \<not> hasEthereum w then (showError ''Please install MetaMask'' d, wh)
      else case connectTry w d of
        Inl (m, d1) \<Rightarrow> (connectFailed m d1, wh)
      | Inr (u, d1) \<Rightarrow>
     (case adminRead of
        Inl m \<Rightarrow> (connectFailed m d1, wh)
      | Inr a \<Rightarrow>
          if toLowerCase u \<noteq> toLowerCase a then (showError ''You are not the admin'' d1, wh)
          else wheelThenLoad gl r wh (unhideElement adminSectionId d1)))"

definition connectUserWheel :: "bool \<Rightarrow> wallet \<Rightarrow> reads \<Rightarrow> wheel \<Rightarrow> dom \<Rightarrow> connect_result \<times> wheel" where
  "connectUserWheel gl w r wh d =
     (if \<not> hasEthereum w then (showError ''Please install MetaMask'' d, wh)
      else case connectTry w d of
        Inl (m, d1) \<Rightarrow> (connectFailed m d1, wh)
      | Inr (u, d1) \<Rightarrow> wheelThenLoad gl r wh (unhideElement userSectionId d1))"

section \<open>The spinning handlers\<close>

text \<open>
  The draw and buy handlers: after a mined transaction they show the success
  message, start the button's own animation (which reads no global), spin the
  wheel and reload the details; a throw of \<^verbatim>\<open>spinWheel\<close> goes to the
  \<^verbatim>\<open>catch\<close>, which shows the failure, and the \<^verbatim>\<open>finally\<close> restores the
  button.
\<close>

definition clickTxSpin :: "txButton \<Rightarrow> real \<Rightarrow> (error \<Rightarrow> string) \<Rightarrow> (addr \<Rightarrow> chain \<Rightarrow> receiver) \<Rightarrow> addr \<Rightarrow> call \<Rightarrow> wheel \<Rightarrow> chain \<Rightarrow> dom \<Rightarrow> click_result \<times> wheel" where
  "clickTxSpin b turn msgOf rs caller k wh s d =
     (case transact rs caller k s of
        (Inl e, s') \<Rightarrow> (\<lparr>page = txButtonUI b (Inl (msgOf e)) d, chainAfter = s', reloads = False\<rparr>, wh)
      | (Inr _, s') \<Rightarrow>
          (let d1 = statusUpdate statusId (okMessage b) False (setButton (btnId b) True (busyLabel b) d)
           in case spinWheel turn wh of
                Inr y \<Rightarrow> (\<lparr>page = setButton (btnId b) False (idleLabel b) d1, chainAfter = s', reloads = True\<rparr>, Some y)
              | Inl m \<Rightarrow> (\<lparr>page = setButton (btnId b) False (idleLabel b)
                                  (statusUpdate statusId (failPrefix b @ m) True d1),
                          chainAfter = s', reloads = False\<rparr>, wh)))"

definition clickTriggerDrawSpin :: "(error \<Rightarrow> string) \<Rightarrow> (addr \<Rightarrow> chain \<Rightarrow> receiver) \<Rightarrow> addr \<Rightarrow> uint \<Rightarrow> wheel \<Rightarrow> chain \<Rightarrow> dom \<Rightarrow> click_result \<times> wheel" where
  "clickTriggerDrawSpin msgOf rs caller sample wh s d =
     clickTxSpin triggerDrawButton adminTurn msgOf rs caller (DrawWinner sample) wh s d"

definition clickBuyTicketSpin :: "(error \<Rightarrow> string) \<Rightarrow> (addr \<Rightarrow> chain \<Rightarrow> receiver) \<Rightarrow> addr \<Rightarrow> string + chain \<Rightarrow> wheel \<Rightarrow> chain \<Rightarrow> dom \<Rightarrow> click_result \<times> wheel" where
  "clickBuyTicketSpin msgOf rs caller sRead wh s d =
     (case sRead of
        Inl m \<Rightarrow> (\<lparr>page = txButtonUI buyTicketButton (Inl m) d, chainAfter = s, reloads = False\<rparr>, wh)
      | Inr r \<Rightarrow> clickTxSpin buyTicketButton userTurn msgOf rs caller (BuyTicket (ticketPrice r)) wh s d)"

section \<open>Lemmas\<close>

lemma classRemove_classAdd_cancel:
  "t \<in> set ts \<Longrightarrow> classRemove ts (classAdd t cl) = classRemove ts cl"
  by (simp add: classRemove_def classAdd_def)

lemma classRemove_idem: "classRemove ts (classRemove ts cl) = classRemove ts cl"
  by (simp add: classRemove_def)

text \<open>A second \<^verbatim>\<open>showStatus\<close> on the same element erases every trace of the first.\<close>

lemma statusUpdate_overwrite:
  "statusUpdate i m2 e2 (statusUpdate i m1 e1 d) = statusUpdate i m2 e2 d"
  by (simp add: statusUpdate_def classRemove_classAdd_cancel classRemove_idem)

text \<open>
  With the wheel created, the spinning handlers are the handlers of the theory
  Pages, and a successful transaction turns the wheel once more.
\<close>

lemma clickTxSpin_created:
  "clickTxSpin b t msgOf rs c k (Some y) s d =
     (clickTx b msgOf rs c k s d, if reloads (clickTx b msgOf rs c k s d) then Some (y + t) else Some y)"
  by (simp add: clickTxSpin_def clickTx_def spinWheel_def txButtonUI_def Let_def split: prod.split sum.split)

text \<open>Without it, every mined transaction is reported as a failure of the spin.\<close>

lemma clickTxSpin_undefined:
  assumes "exec callDepthLimit rs c k s = Inr s'"
  shows "clickTxSpin b t msgOf rs c k None s d =
           (\<lparr>page = txButtonUI b (Inl typeErrorRotation) d, chainAfter = s', reloads = False\<rparr>, None)"
  using assms
  by (simp add: clickTxSpin_def transact_def spinWheel_def txButtonUI_def statusUpdate_overwrite del: exec.simps)

lemma clickTxSpin_reverted:
  assumes "exec callDepthLimit rs c k s = Inl e"
  shows "clickTxSpin b t msgOf rs c k wh s d =
           (\<lparr>page = txButtonUI b (Inl (msgOf e)) d, chainAfter = s, reloads = False\<rparr>, wh)"
  using assms by (simp add: clickTxSpin_def transact_def del: exec.simps)

lemma wheelThenLoad_created:
  "wheelThenLoad True r wh d = (loadDetailsAsync r (initWheel d), Some 0)"
  by (simp add: wheelThenLoad_def initWheelScene_def)

lemma wheelThenLoad_no_webgl:
  "wheelThenLoad False r wh d = (connectFailed webglError d, wh)"
  by (simp add: wheelThenLoad_def initWheelScene_def)

lemma connectUserWheel_created:
  "fst (connectUserWheel True w r wh d) = connectUser w r d"
  by (simp add: connectUserWheel_def connectUser_def wheelThenLoad_created split: sum.split prod.split)

lemma connectAdminWheel_created:
  "fst (connectAdminWheel True w a r wh d) = connectAdmin w a r d"
  by (simp add: connectAdminWheel_def connectAdmin_def wheelThenLoad_created split: sum.split prod.split)

lemma connectUserWheel_no_webgl:
  assumes "hasEthereum w" and "connectTry w d = Inr (u, d1)"
  shows "connectUserWheel False w r wh d = (connectFailed webglError (unhideElement userSectionId d1), wh)"
  using assms by (simp add: connectUserWheel_def wheelThenLoad_no_webgl)

lemma connectAdminWheel_no_webgl:
  assumes "hasEthereum w" and "connectTry w d = Inr (u, d1)" and "toLowerCase u = toLowerCase a"
  shows "connectAdminWheel False w (Inr a) r wh d = (connectFailed webglError (unhideElement adminSectionId d1), wh)"
  using assms by (simp add: connectAdminWheel_def wheelThenLoad_no_webgl)


lemma txButtonUI_failure_status:
  "btnId b \<noteq> statusId \<Longrightarrow> textContent (txButtonUI b (Inl m) d statusId) = failPrefix b @ m"
  by (simp add: txButtonUI_def setButton_def statusUpdate_def)

lemma txButtonUI_enabled: "\<not> disabled (txButtonUI b outcome d (btnId b))"
  by (simp add: txButtonUI_def setButton_def Let_def)

text \<open>
  C13. On the player's page in a browser where three.js cannot create the wheel,
  connecting the wallet shows the player's section (the Buy Ticket button) but
  reports that the connection failed, and leaves the global wheel undefined; a
  ticket purchase that is then mined is reported as "Failed to buy ticket", with
  the TypeError of spinWheel, and the details are not reloaded, although the
  ticket was bought.
\<close>

theorem purchase_reported_failed_without_wheel:
  assumes "hasEthereum w" and "connectTry w d = Inr (u, d1)"
    and "exec callDepthLimit rs c (BuyTicket (ticketPrice r)) s = Inr s'"
  shows "let (cr, wh) = connectUserWheel False w rds None d;
             (res, wh') = clickBuyTicketSpin msgOf rs c (Inr r) wh s (connPage cr)
         in ''hidden'' \<notin> set (classList (connPage cr userSectionId)) \<and>
            textContent (connPage cr statusId) = ''Failed to connect wallet: '' @ webglError \<and>
            chainAfter res = s' \<and> \<not> reloads res \<and> wh' = None \<and>
            textContent (page res statusId) = ''Failed to buy ticket: '' @ typeErrorRotation \<and>
            \<not> disabled (page res (btnId buyTicketButton))"
proof -
  let ?d2 = "connectFailed webglError (unhideElement userSectionId d1)"
  have conn: "connectUserWheel False w rds None d = (?d2, None)"
    using assms(1,2) by (rule connectUserWheel_no_webgl)
  have buy: "clickBuyTicketSpin msgOf rs c (Inr r) None s (connPage ?d2) =
      (\<lparr>page = txButtonUI buyTicketButton (Inl typeErrorRotation) (connPage ?d2), chainAfter = s', reloads = False\<rparr>, None)"
    unfolding clickBuyTicketSpin_def using assms(3) by (simp add: clickTxSpin_undefined del: exec.simps)
  have ids: "userSectionId \<noteq> statusId" "btnId buyTicketButton \<noteq> statusId"
    by (simp_all add: userSectionId_def statusId_def buyTicketButton_def)
  have sec: "''hidden'' \<notin> set (classList (connPage ?d2 userSectionId))"
    using ids(1) by (simp add: connectFailed_def showError_def unhideElement_def classRemove_def)
  have st: "textContent (connPage ?d2 statusId) = ''Failed to connect wallet: '' @ webglError"
    by (simp add: connectFailed_def showError_def statusUpdate_def)
  have fail: "textContent (txButtonUI buyTicketButton (Inl typeErrorRotation) (connPage ?d2) statusId) =
      ''Failed to buy ticket: '' @ typeErrorRotation"
    using txButtonUI_failure_status[OF ids(2)] by (simp add: buyTicketButton_def)
  show ?thesis
    using conn buy sec st fail txButtonUI_enabled by simp
qed

text \<open>The administrator's page fails the same way, for the draw.\<close>

lemma draw_reported_failed_without_wheel:
  assumes "hasEthereum w" and "connectTry w d = Inr (u, d1)" and "toLowerCase u = toLowerCase a"
    and "exec callDepthLimit rs c (DrawWinner sample) s = Inr s'"
  shows "let (cr, wh) = connectAdminWheel False w (Inr a) rds None d;
             (res, wh') = clickTriggerDrawSpin msgOf rs c sample wh s (connPage cr)
         in ''hidden'' \<notin> set (classList (connPage cr adminSectionId)) \<and>
            chainAfter res = s' \<and> \<not> reloads res \<and> wh' = None \<and>
            textContent (page res statusId) = ''Failed to trigger draw: '' @ typeErrorRotation"
proof -
  let ?d2 = "connectFailed webglError (unhideElement adminSectionId d1)"
  have conn: "connectAdminWheel False w (Inr a) rds None d = (?d2, None)"
    using assms(1-3) by (rule connectAdminWheel_no_webgl)
  have ids: "adminSectionId \<noteq> statusId" "btnId triggerDrawButton \<noteq> statusId"
    by (simp_all add: adminSectionId_def statusId_def triggerDrawButton_def)
  have sec: "''hidden'' \<notin> set (classList (connPage ?d2 adminSectionId))"
    using ids(1) by (simp add: connectFailed_def showError_def unhideElement_def classRemove_def)
  show ?thesis
    using conn sec txButtonUI_failure_status[OF ids(2)] assms(4)
    by (simp add: clickTriggerDrawSpin_def clickTxSpin_undefined triggerDrawButton_def del: exec.simps)
qed


section \<open>Connecting with and without WebGL\<close>

lemma connectAdminWheel_wheel:
  assumes "hasEthereum w" and "requestAccounts w = Inr ()" and "signerAddress w = Inr u"
    and "toLowerCase u = toLowerCase a"
  shows "snd (connectAdminWheel True w (Inr a) r wh d) = Some 0"
  using assms by (simp add: connectAdminWheel_def connectTry_Inr wheelThenLoad_created)

lemma connectUserWheel_wheel:
  assumes "hasEthereum w" and "requestAccounts w = Inr ()" and "signerAddress w = Inr u"
  shows "snd (connectUserWheel True w r wh d) = Some 0"
  using assms by (simp add: connectUserWheel_def connectTry_Inr wheelThenLoad_created)

lemma connectFailed_status:
  "textContent (connPage (connectFailed m d) statusId) = ''Failed to connect wallet: '' @ m \<and>
   unhandled (connectFailed m d) = None"
  by (simp add: connectFailed_def showError_def statusUpdate_def)

text \<open>
  C22. When the administrator connects in a browser with WebGL and a read of the
  details fails, the handler does not report it: the wheel is created, and
  \<^verbatim>\<open>loadLotteryDetails\<close> throws the \<^verbatim>\<open>TypeError\<close> of its \<^verbatim>\<open>catch\<close> into a
  promise nobody awaits, leaving the status element exactly as it was. Without
  WebGL the details load never starts: the status shows the WebGL error instead.
\<close>

theorem admin_connect_load_unreported:
  assumes "hasEthereum w" and "requestAccounts w = Inr ()" and "signerAddress w = Inr u"
    and "toLowerCase u = toLowerCase a"
    and "rTicketPrice r = Inl m \<or> rParticipants r = Inl m \<or> rPrizePool r = Inl m \<or> rWinner r = Inl m"
  shows "unhandled (fst (connectAdminWheel True w (Inr a) r wh d)) = Some typeErrorUndefined \<and>
         connPage (fst (connectAdminWheel True w (Inr a) r wh d)) statusId = d statusId \<and>
         snd (connectAdminWheel True w (Inr a) r wh d) = Some 0 \<and>
         unhandled (fst (connectAdminWheel False w (Inr a) r wh d)) = None \<and>
         textContent (connPage (fst (connectAdminWheel False w (Inr a) r wh d)) statusId) =
           ''Failed to connect wallet: '' @ webglError"
proof -
  have on: "unhandled (connectAdmin w (Inr a) r d) = Some typeErrorUndefined \<and>
      connPage (connectAdmin w (Inr a) r d) statusId = d statusId"
    using assms by (rule admin_connect_details_unhandled)
  have off: "connectAdminWheel False w (Inr a) r wh d =
      (connectFailed webglError (unhideElement adminSectionId
         (hideElement connectWalletId (setTextContent walletStatusId (walletLabel u) d))), wh)"
    by (rule connectAdminWheel_no_webgl[OF assms(1) connectTry_Inr[OF assms(2,3)] assms(4)])
  show ?thesis
    using on off connectAdminWheel_created[of w "Inr a" r wh d] connectAdminWheel_wheel[OF assms(1-4)]
      connectFailed_status
    by simp
qed

text \<open>
  C23. Any wallet that connects on the player's page in a browser with WebGL gets
  the shortened address in the wallet status, the Connect button hidden, the
  player's section and the wheel canvas shown, a wheel at angle 0, and, when the
  reads succeed, the details and no rejection.
\<close>

theorem user_connect_with_wheel:
  assumes "hasEthereum w" and "requestAccounts w = Inr ()" and "signerAddress w = Inr u"
  shows "textContent (connPage (fst (connectUserWheel True w (readAll fmt s1 s2 s3 s4) wh d)) walletStatusId) = walletLabel u \<and>
         ''hidden'' \<in> set (classList (connPage (fst (connectUserWheel True w (readAll fmt s1 s2 s3 s4) wh d)) connectWalletId)) \<and>
         ''hidden'' \<notin> set (classList (connPage (fst (connectUserWheel True w (readAll fmt s1 s2 s3 s4) wh d)) userSectionId)) \<and>
         ''hidden'' \<notin> set (classList (connPage (fst (connectUserWheel True w (readAll fmt s1 s2 s3 s4) wh d)) wheelCanvasId)) \<and>
         textContent (connPage (fst (connectUserWheel True w (readAll fmt s1 s2 s3 s4) wh d)) ''prize-pool'') =
           formatEther (unat (prizePool s3)) \<and>
         unhandled (fst (connectUserWheel True w (readAll fmt s1 s2 s3 s4) wh d)) = None \<and>
         snd (connectUserWheel True w (readAll fmt s1 s2 s3 s4) wh d) = Some 0"
  using user_connect_shows[OF assms, of fmt s1 s2 s3 s4 d]
    connectUserWheel_created[of w "readAll fmt s1 s2 s3 s4" wh d] connectUserWheel_wheel[OF assms]
  by simp

end
