(* ===== verification/Page_Elements.thy ===== *)
theory Page_Elements
  imports Wheel
begin

text \<open>
  The element bindings at the top of both pages
  (\<^verbatim>\<open>const x = document.getElementById("id")\<close>, \<^verbatim>\<open>src/frontend/admin.js\<close>
  lines 1 to 13 and \<^verbatim>\<open>src/frontend/user.js\<close> lines 1 to 11) as an environment
  from the constant's name to the element's id, and the object literal
  \<^verbatim>\<open>{ ticketPriceEl, participantsCountEl, prizePoolEl, winnerEl, statusMessage }\<close>
  that both pages pass to \<^verbatim>\<open>loadLotteryDetails\<close>, built with JavaScript's
  shorthand properties from that environment. The lemmas check the ids the other
  theories use against these bindings: every id the handlers touch is the one its
  constant is bound to, no two constants of a page share an element, and the
  element object of \<^theory_text>\<open>Frontend\<close> is the one both pages build.
\<close>

section \<open>Bindings\<close>

definition adminPageElements :: js_object where
  "adminPageElements =
     [(''connectWalletBtn'', ''connect-wallet''), (''walletStatus'', ''wallet-status''),
      (''adminSection'', ''admin-section''), (''statusMessage'', ''status-message''),
      (''triggerDrawBtn'', ''trigger-draw''), (''distributePrizeBtn'', ''distribute-prize''),
      (''resetLotteryBtn'', ''reset-lottery''), (''ticketPriceEl'', ''ticket-price''),
      (''participantsCountEl'', ''participants-count''), (''prizePoolEl'', ''prize-pool''),
      (''winnerEl'', ''winner''), (''wheelCanvas'', ''lottery-wheel'')]"

definition userPageElements :: js_object where
  "userPageElements =
     [(''connectWalletBtn'', ''connect-wallet''), (''walletStatus'', ''wallet-status''),
      (''userSection'', ''user-section''), (''statusMessage'', ''status-message''),
      (''buyTicket'', ''buy-ticket''), (''ticketPriceEl'', ''ticket-price''),
      (''participantsCountEl'', ''participants-count''), (''prizePoolEl'', ''prize-pool''),
      (''winnerEl'', ''winner''), (''wheelCanvas'', ''lottery-wheel'')]"

text \<open>
  \<^verbatim>\<open>{ a, b, ... }\<close>: each property takes the value of the constant of its
  name; a name with no binding is a \<^verbatim>\<open>ReferenceError\<close>.
\<close>

definition shorthandObject :: "js_object \<Rightarrow> string list \<Rightarrow> string + js_object" where
  "shorthandObject env ks =
     (if set ks \<subseteq> fst ` set env then Inr (map (\<lambda>k. (k, the (map_of env k))) ks)
      else Inl ''ReferenceError'')"

definition detailsObjectKeys :: "string list" where
  "detailsObjectKeys = [''ticketPriceEl'', ''participantsCountEl'', ''prizePoolEl'', ''winnerEl'', ''statusMessage'']"

section \<open>The ids of the model are the pages' bindings\<close>

lemma admin_page_ids:
  "map (map_of adminPageElements)
     [''connectWalletBtn'', ''walletStatus'', ''adminSection'', ''statusMessage'',
      ''triggerDrawBtn'', ''distributePrizeBtn'', ''resetLotteryBtn'', ''wheelCanvas'']
   = map Some [connectWalletId, walletStatusId, adminSectionId, statusId,
       btnId triggerDrawButton, btnId distributePrizeButton, btnId resetLotteryButton, wheelCanvasId]"
  by (simp add: adminPageElements_def connectWalletId_def walletStatusId_def adminSectionId_def statusId_def
      triggerDrawButton_def distributePrizeButton_def resetLotteryButton_def wheelCanvasId_def)

lemma user_page_ids:
  "map (map_of userPageElements)
     [''connectWalletBtn'', ''walletStatus'', ''userSection'', ''statusMessage'', ''buyTicket'', ''wheelCanvas'']
   = map Some [connectWalletId, walletStatusId, userSectionId, statusId, btnId buyTicketButton, wheelCanvasId]"
  by (simp add: userPageElements_def connectWalletId_def walletStatusId_def userSectionId_def statusId_def
      buyTicketButton_def wheelCanvasId_def)

lemma page_bindings_distinct:
  "distinct (map fst adminPageElements) \<and> distinct (map snd adminPageElements) \<and>
   distinct (map fst userPageElements) \<and> distinct (map snd userPageElements)"
  by (simp add: adminPageElements_def userPageElements_def)

text \<open>Both pages build the element object the model of \<^verbatim>\<open>loadLotteryDetails\<close> is given.\<close>

lemma details_object_built:
  "shorthandObject adminPageElements detailsObjectKeys = Inr detailsElements \<and>
   shorthandObject userPageElements detailsObjectKeys = Inr detailsElements"
  by (simp add: shorthandObject_def detailsObjectKeys_def adminPageElements_def userPageElements_def
      detailsElements_def)

text \<open>
  The object has no \<^verbatim>\<open>statusMessageEl\<close> property, the one
  \<^verbatim>\<open>loadLotteryDetails\<close> reads in its \<^verbatim>\<open>catch\<close>, although the page binds the
  status element: it is bound under another name.
\<close>

lemma details_object_lacks_statusMessageEl:
  "map_of detailsElements ''statusMessageEl'' = None \<and>
   map_of adminPageElements ''statusMessage'' = Some statusId \<and>
   map_of userPageElements ''statusMessage'' = Some statusId"
  by (simp add: detailsElements_def adminPageElements_def userPageElements_def statusId_def)

end
