(* ===== verification/Deploy.thy ===== *)
theory Deploy
  imports Address_Strings
begin

text \<open>
  The deployment script \<^verbatim>\<open>src/scripts/deploy.js\<close>. Its \<^verbatim>\<open>main\<close> reads the
  signer, its balance and the network's gas price, raises the price by 20\%,
  refuses to deploy when the balance cannot pay a million gas at that price, and
  otherwise sends the deployment of \<^verbatim>\<open>Lottery\<close> with an explicit nonce, prints a
  dot every three seconds while it waits, and checks that code is at the new
  address. The network's answers are inputs (a record \<open>network\<close>); \<open>Inl m\<close> is
  the message of what the provider threw. What the script prints is a list of
  console calls. JavaScript \<^verbatim>\<open>BigInt\<close>s are \<open>int\<close>: multiplication is exact,
  division truncates towards zero and throws on a zero divisor, and mixing a
  \<^verbatim>\<open>BigInt\<close> with \<^verbatim>\<open>null\<close> throws a \<^verbatim>\<open>TypeError\<close>.
\<close>

section \<open>BigInt arithmetic and amounts\<close>

definition bigIntMixError :: string where
  "bigIntMixError = ''Cannot mix BigInt and other types, use explicit conversions''"

definition bigDiv :: "int \<Rightarrow> int \<Rightarrow> string + int" where
  "bigDiv a b = (if b = 0 then Inl ''Division by zero'' else Inr (sgn a * sgn b * (\<bar>a\<bar> div \<bar>b\<bar>)))"

text \<open>
  \<^verbatim>\<open>ethers.formatUnits(v, decimals)\<close> (and \<^verbatim>\<open>formatEther\<close>, 18 decimals):
  the sign, the whole part, a dot and the fraction without trailing zeros (at
  least one digit).
\<close>

definition formatFixed :: "nat \<Rightarrow> nat \<Rightarrow> string" where
  "formatFixed dec v =
     (let frac = decString (v mod 10 ^ dec);
          padded = replicate (dec - length frac) CHR ''0'' @ frac
      in decString (v div 10 ^ dec) @ ''.'' @ stripTrailingZeros padded)"

definition formatUnits :: "int \<Rightarrow> nat \<Rightarrow> string" where
  "formatUnits v dec = (if v < 0 then ''-'' @ formatFixed dec (nat (- v)) else formatFixed dec (nat v))"

definition newline :: string where
  "newline = [CHR 0x0A]"

text \<open>The check mark of the success message, as the UTF-8 bytes written.\<close>

definition checkMark :: string where
  "checkMark = [CHR 0xE2, CHR 0x9C, CHR 0x93]"

text \<open>\<^verbatim>\<open>s.includes(t)\<close>.\<close>

definition strIncludes :: "string \<Rightarrow> string \<Rightarrow> bool" where
  "strIncludes s t = list_ex (\<lambda>i. take (length t) (drop i s) = t) [0..<Suc (length s)]"

section \<open>Console output\<close>

text \<open>
  \<^verbatim>\<open>console.log(a, b, ...)\<close>, \<^verbatim>\<open>console.error(a, b, ...)\<close> (their arguments,
  printed separated by spaces and followed by a newline) and
  \<^verbatim>\<open>process.stdout.write(s)\<close>.
\<close>

datatype console_out = Log "string list" | Err "string list" | Write string

section \<open>Gas\<close>

text \<open>\<^verbatim>\<open>ethers.parseEther("0.0001")\<close>.\<close>

definition deployTicketPrice :: int where
  "deployTicketPrice = the (parseEther ''0.0001'')"

definition gasLimit :: int where
  "gasLimit = 1000000"

text \<open>\<^verbatim>\<open>currentGasPrice * 120n / 100n\<close>, where \<^verbatim>\<open>feeData.gasPrice\<close> may be
  \<^verbatim>\<open>null\<close> (\<open>None\<close>).\<close>

definition bumpGasPrice :: "int option \<Rightarrow> string + int" where
  "bumpGasPrice cur =
     (case cur of
        None \<Rightarrow> Inl bigIntMixError
      | Some p \<Rightarrow> bigDiv (p * 120) 100)"

section \<open>Progress dots\<close>

text \<open>
  One tick of the interval: write a dot, append it to \<^verbatim>\<open>dots\<close>, and after more
  than 60 of them write a newline and start again.
\<close>

definition dotsTick :: "string \<Rightarrow> console_out list \<times> string" where
  "dotsTick dots =
     (let dots' = dots @ ''.'' in
      if 60 < length dots' then ([Write ''.'', Write newline], []) else ([Write ''.''], dots'))"

fun progress :: "nat \<Rightarrow> string \<Rightarrow> console_out list \<times> string" where
  "progress 0 dots = ([], dots)"
| "progress (Suc k) dots =
     (let (o1, d1) = dotsTick dots; (o2, d2) = progress k d1 in (o1 @ o2, d2))"

text \<open>
  The output the interval should produce, as a reference: after \<open>k\<close> ticks,
  \<open>k div 61\<close> lines of 61 dots and then \<open>k mod 61\<close> dots, with those last dots
  counted in \<^verbatim>\<open>dots\<close>.
\<close>

definition progressSpec :: "nat \<Rightarrow> console_out list \<times> string" where
  "progressSpec k =
     (concat (replicate (k div 61) (replicate 61 (Write ''.'') @ [Write newline])) @ replicate (k mod 61) (Write ''.''),
      replicate (k mod 61) CHR ''.'')"

section \<open>Waiting for the deployment\<close>

text \<open>
  \<^verbatim>\<open>lottery.waitForDeployment()\<close> polls the network until the transaction is
  mined; no timeout is passed. \<open>poll i\<close> is what the network says at the
  \<open>i\<close>-th tick of the progress interval: still pending (\<open>None\<close>), deployed, or
  failed with a message. The result is the tick at which it settled and how; it is
  \<open>None\<close> when it never settles.
\<close>

partial_function (option) waitDeployment ::
  "(nat \<Rightarrow> (string + unit) option) \<Rightarrow> nat \<Rightarrow> (nat \<times> (string + unit)) option" where
  "waitDeployment poll i = (case poll i of None \<Rightarrow> waitDeployment poll (Suc i) | Some r \<Rightarrow> Some (i, r))"

section \<open>main\<close>

text \<open>What the network answers to each call of the script, in order.\<close>

record network =
  signerAddr :: "string + string"
  walletBalance :: "string + int"
  feeGasPrice :: "string + int option"
  accountNonce :: "string + nat"
  contractFactory :: "string + unit"
  deployTx :: "string + string"
  pollDeploy :: "nat \<Rightarrow> (string + unit) option"
  deployedAddress :: "string + string"
  deployedCode :: "string + string"

text \<open>\<^verbatim>\<open>main().catch(...)\<close>: the message and exit code 1.\<close>

definition mainCatch :: "string \<Rightarrow> console_out list \<Rightarrow> console_out list \<times> nat" where
  "mainCatch e out = (out @ [Err [''Deployment failed:'', e]], 1)"

text \<open>The \<^verbatim>\<open>catch\<close> around the deployment; \<open>w\<close> is the wallet address.\<close>

definition deployCatch :: "string \<Rightarrow> string \<Rightarrow> console_out list \<Rightarrow> console_out list \<times> nat" where
  "deployCatch w e out =
     (out @ [Err [newline @ ''Failed to deploy contract:'', e]] @
      (if strIncludes e ''timeout''
       then [Log [newline @ ''The transaction was sent but confirmation timed out.''],
             Log [''Your contract might still be deployed. Check your address on Etherscan:''],
             Log [''https://sepolia.etherscan.io/address/'' @ w]]
       else []), 1)"

text \<open>The \<^verbatim>\<open>try\<close> block: send the deployment, wait with the progress dots,
  then check the code at the address.\<close>

definition deployTry :: "network \<Rightarrow> string \<Rightarrow> console_out list \<Rightarrow> (console_out list \<times> nat) option" where
  "deployTry n w out =
     (case deployTx n of
        Inl e \<Rightarrow> Some (deployCatch w e out)
      | Inr h \<Rightarrow>
     (let out1 = out @ [Log [''Transaction sent, hash:'', h], Log [''Waiting for transaction confirmation...''],
                        Log [''(This could take a few minutes on Sepolia)'']]
      in case waitDeployment (pollDeploy n) 0 of
        None \<Rightarrow> None
      | Some (k, r) \<Rightarrow>
     (let out2 = out1 @ fst (progress k [])
      in case r of
        Inl e \<Rightarrow> Some (deployCatch w e out2)
      | Inr _ \<Rightarrow>
     (case deployedAddress n of
        Inl e \<Rightarrow> Some (deployCatch w e out2)
      | Inr a \<Rightarrow>
     (let out3 = out2 @ [Log [newline @ ''Lottery successfully deployed to:'', a], Log [''Verifying contract has code...'']]
      in case deployedCode n of
        Inl e \<Rightarrow> Some (deployCatch w e out3)
      | Inr c \<Rightarrow>
          if c = ''0x'' \<or> c = ''0x0''
          then Some (out3 @ [Log [''Warning: No contract code found at address. Deployment may have failed.'']], 0)
          else Some (out3 @ [Log [''Contract verified - code exists at deployed address '' @ checkMark],
                             Log [newline @ ''Deployment successful! Your lottery contract is ready to use.''],
                             Log [''View on Etherscan: https://sepolia.etherscan.io/address/'' @ a]], 0))))))"

text \<open>\<^verbatim>\<open>main()\<close> with its \<^verbatim>\<open>catch\<close>: the console output and the exit code, or
  \<open>None\<close> when it never ends.\<close>

definition deployMain :: "network \<Rightarrow> (console_out list \<times> nat) option" where
  "deployMain n =
     (let out1 = [Log [''Starting optimized deployment process...''], Log [''Fetching signer...'']]
      in case signerAddr n of
        Inl e \<Rightarrow> Some (mainCatch e out1)
      | Inr w \<Rightarrow>
     (let out2 = out1 @ [Log [''Deploying from wallet:'', w], Log [''Checking wallet balance...'']]
      in case walletBalance n of
        Inl e \<Rightarrow> Some (mainCatch e out2)
      | Inr bal \<Rightarrow>
     (let out3 = out2 @ [Log [''Wallet balance:'', formatUnits bal 18, ''ETH''],
                         Log [''Ticket price:'', formatUnits deployTicketPrice 18, ''ETH''],
                         Log [''Getting current gas prices...'']]
      in case feeGasPrice n of
        Inl e \<Rightarrow> Some (mainCatch e out3)
      | Inr cur \<Rightarrow>
     (case bumpGasPrice cur of
        Inl e \<Rightarrow> Some (mainCatch e out3)
      | Inr gp \<Rightarrow>
     (let gasCost = gasLimit * gp;
          out4 = out3 @ [Log [''Current network gas price:'', formatUnits (case cur of None \<Rightarrow> 0 | Some p \<Rightarrow> p) 9, ''gwei''],
                         Log [''Using gas price:'', formatUnits gp 9, ''gwei''],
                         Log [''Gas limit:'', decString (nat gasLimit)],
                         Log [''Estimated gas cost:'', formatUnits gasCost 18, ''ETH'']]
      in if bal < gasCost
         then Some (out4 @ [Err [''Insufficient funds: have'', formatUnits bal 18, ''ETH, need'', formatUnits gasCost 18, ''ETH'']], 1)
         else case accountNonce n of
        Inl e \<Rightarrow> Some (mainCatch e out4)
      | Inr k \<Rightarrow>
     (let out5 = out4 @ [Log [''Current account nonce:'', decString k], Log [''Getting Lottery contract factory...'']]
      in case contractFactory n of
        Inl e \<Rightarrow> Some (mainCatch e out5)
      | Inr _ \<Rightarrow> deployTry n w (out5 @ [Log [''Deploying Lottery contract...'']])))))))"

section \<open>Lemmas: BigInt arithmetic\<close>

lemma bigDiv_nonneg: "0 \<le> a \<Longrightarrow> 0 < b \<Longrightarrow> bigDiv a b = Inr (a div b)"
  by (simp add: bigDiv_def abs_of_nonneg sgn_if)

lemma times_120_div_100: "0 \<le> (p::int) \<Longrightarrow> p * 120 div 100 = p + p div 5"
proof -
  have "p * 120 div 100 = (20 * (p * 6)) div (20 * 5)" by simp
  also have "\<dots> = (p * 6) div 5" by (rule div_mult_mult1) simp
  also have "\<dots> = (p + p * 5) div 5" by simp
  also have "\<dots> = p div 5 + p" by simp
  finally show ?thesis by simp
qed

lemma bumpGasPrice_Some: "0 \<le> p \<Longrightarrow> bumpGasPrice (Some p) = Inr (p + p div 5)"
  by (simp add: bumpGasPrice_def bigDiv_nonneg times_120_div_100)

section \<open>Lemmas: progress dots\<close>

lemma concat_replicate_snoc: "concat (replicate q xs) @ xs = concat (replicate (Suc q) xs)"
  by (induction q) simp_all

lemma progressSpec_Suc:
  "fst (progressSpec (Suc n)) =
     fst (progressSpec n) @ (if n mod 61 = 60 then [Write ''.'', Write newline] else [Write ''.''])"
proof (cases "n mod 61 = 60")
  case True
  then have q: "Suc n div 61 = Suc (n div 61)" "Suc n mod 61 = 0" by (simp_all add: div_Suc mod_Suc)
  have r61: "replicate 61 (Write ''.'') = replicate 60 (Write ''.'') @ [Write ''.'']"
    using replicate_add[of 60 1 "Write ''.''"] by simp
  have "fst (progressSpec (Suc n)) = concat (replicate (n div 61) (replicate 61 (Write ''.'') @ [Write newline])) @
      (replicate 61 (Write ''.'') @ [Write newline])"
    by (simp only: progressSpec_def q fst_conv concat_replicate_snoc replicate_0 append_Nil2)
  also have "\<dots> = fst (progressSpec n) @ [Write ''.'', Write newline]"
    by (simp add: progressSpec_def True r61)
  finally show ?thesis using True by simp
next
  case False
  have "n mod 61 < 61" by simp
  with False have q: "Suc n div 61 = n div 61" "Suc n mod 61 = Suc (n mod 61)" by (simp_all add: div_Suc mod_Suc)
  then show ?thesis using False by (simp add: progressSpec_def replicate_append_same)
qed

lemma dotsTick_progressSpec:
  "dotsTick (snd (progressSpec n)) =
     (if n mod 61 = 60 then [Write ''.'', Write newline] else [Write ''.''], snd (progressSpec (Suc n)))"
proof (cases "n mod 61 = 60")
  case True
  then show ?thesis by (simp add: dotsTick_def progressSpec_def mod_Suc)
next
  case False
  have "n mod 61 < 61" by simp
  with False show ?thesis by (simp add: dotsTick_def progressSpec_def mod_Suc replicate_append_same)
qed

lemma progress_from_spec:
  "fst (progressSpec n) @ fst (progress k (snd (progressSpec n))) = fst (progressSpec (n + k)) \<and>
   snd (progress k (snd (progressSpec n))) = snd (progressSpec (n + k))"
proof (induction k arbitrary: n)
  case 0
  then show ?case by simp
next
  case (Suc k)
  define t where "t = (if n mod 61 = 60 then [Write ''.'', Write newline] else [Write ''.''])"
  have step: "progress (Suc k) (snd (progressSpec n)) =
      (t @ fst (progress k (snd (progressSpec (Suc n)))), snd (progress k (snd (progressSpec (Suc n)))))"
    by (simp add: dotsTick_progressSpec t_def split: prod.splits)
  have ts: "fst (progressSpec n) @ t = fst (progressSpec (Suc n))" by (simp add: progressSpec_Suc t_def)
  from Suc.IH[of "Suc n"] have
    ih1: "fst (progressSpec (Suc n)) @ fst (progress k (snd (progressSpec (Suc n)))) = fst (progressSpec (Suc n + k))"
    and ih2: "snd (progress k (snd (progressSpec (Suc n)))) = snd (progressSpec (Suc n + k))"
    by blast+
  show ?case
    by (simp only: step fst_conv snd_conv append_assoc[symmetric] ts ih1 ih2 add_Suc_shift)
qed

lemma progress_spec: "progress k [] = progressSpec k"
  using progress_from_spec[of 0 k] by (simp add: progressSpec_def prod_eq_iff)

section \<open>Lemmas: the wait\<close>

lemma waitDeployment_settles:
  "poll j \<noteq> None \<Longrightarrow> i \<le> j \<Longrightarrow> \<exists>y. waitDeployment poll i = Some y"
proof (induction "j - i" arbitrary: i)
  case 0
  then have "j = i" by simp
  with 0 show ?case by (auto simp: waitDeployment.simps)
next
  case (Suc d)
  show ?case
  proof (cases "poll i")
    case None
    with Suc.prems have "i \<noteq> j" by auto
    with Suc.hyps(2) Suc.prems have "\<exists>y. waitDeployment poll (Suc i) = Some y"
      by (intro Suc.hyps(1)) simp_all
    with None show ?thesis by (simp add: waitDeployment.simps)
  next
    case (Some r)
    then show ?thesis by (simp add: waitDeployment.simps)
  qed
qed

lemma waitDeployment_result:
  assumes "waitDeployment poll i = Some y"
  shows "i \<le> fst y \<and> poll (fst y) = Some (snd y) \<and> (\<forall>j. i \<le> j \<and> j < fst y \<longrightarrow> poll j = None)"
proof (rule waitDeployment.raw_induct[where P = "\<lambda>poll i y. i \<le> fst y \<and> poll (fst y) = Some (snd y) \<and>
      (\<forall>j. i \<le> j \<and> j < fst y \<longrightarrow> poll j = None)", OF _ assms])
  fix f :: "(nat \<Rightarrow> (string + unit) option) \<Rightarrow> nat \<Rightarrow> (nat \<times> (string + unit)) option" and poll i y
  assume IH: "\<And>poll i y. f poll i = Some y \<Longrightarrow>
      i \<le> fst y \<and> poll (fst y) = Some (snd y) \<and> (\<forall>j. i \<le> j \<and> j < fst y \<longrightarrow> poll j = None)"
    and eq: "(case poll i of None \<Rightarrow> f poll (Suc i) | Some r \<Rightarrow> Some (i, r)) = Some y"
  show "i \<le> fst y \<and> poll (fst y) = Some (snd y) \<and> (\<forall>j. i \<le> j \<and> j < fst y \<longrightarrow> poll j = None)"
  proof (cases "poll i")
    case None
    with eq have "f poll (Suc i) = Some y" by simp
    from IH[OF this] have h: "Suc i \<le> fst y" "poll (fst y) = Some (snd y)"
      "\<forall>j. Suc i \<le> j \<and> j < fst y \<longrightarrow> poll j = None" by simp_all
    have "\<forall>j. i \<le> j \<and> j < fst y \<longrightarrow> poll j = None"
    proof (intro allI impI)
      fix j assume "i \<le> j \<and> j < fst y"
      with None h(3) show "poll j = None" by (cases "j = i") auto
    qed
    with h(1,2) show ?thesis by simp
  next
    case (Some r')
    with eq show ?thesis by auto
  qed
qed

lemma waitDeployment_returns_iff: "(\<exists>y. waitDeployment poll i = Some y) \<longleftrightarrow> (\<exists>j\<ge>i. poll j \<noteq> None)"
proof
  assume "\<exists>y. waitDeployment poll i = Some y"
  then obtain y where "waitDeployment poll i = Some y" ..
  from waitDeployment_result[OF this] show "\<exists>j\<ge>i. poll j \<noteq> None" by auto
next
  assume "\<exists>j\<ge>i. poll j \<noteq> None"
  then show "\<exists>y. waitDeployment poll i = Some y" using waitDeployment_settles by blast
qed

section \<open>Lemmas: main\<close>

lemma deployTicketPrice_value: "deployTicketPrice = 10 ^ 14"
  by (simp add: deployTicketPrice_def parseEther_def rtrimZeros_def digitValue_def replicate_numeral)

lemma formatUnits_ticket: "formatUnits deployTicketPrice 18 = ''0.0001''"
  by (simp add: formatUnits_def formatFixed_def deployTicketPrice_value decString.simps stripTrailingZeros_def replicate_numeral)

lemma waitDeployment_first:
  assumes "i \<le> t" and "poll t = Some r" and "\<forall>j. i \<le> j \<and> j < t \<longrightarrow> poll j = None"
  shows "waitDeployment poll i = Some (t, r)"
proof -
  from assms(1,2) obtain y where y: "waitDeployment poll i = Some y" using waitDeployment_settles by blast
  note res = waitDeployment_result[OF y]
  have "fst y = t"
  proof (rule ccontr)
    assume "fst y \<noteq> t"
    then have "fst y < t \<or> t < fst y" by arith
    with assms res show False by auto
  qed
  with res assms(2) y show ?thesis by (cases y) simp
qed

text \<open>
  C24. When the network reports no gas price (\<^verbatim>\<open>feeData.gasPrice\<close> is
  \<^verbatim>\<open>null\<close>), \<^verbatim>\<open>currentGasPrice * 120n\<close> throws a \<^verbatim>\<open>TypeError\<close> before the
  \<^verbatim>\<open>|| 0n\<close> fallback of the next line is reached: the script prints what it had
  read, then "Deployment failed" with the BigInt error, exits with code 1 and
  deploys nothing.
\<close>

lemma null_gas_price_crashes:
  assumes "signerAddr n = Inr w" and "walletBalance n = Inr b" and "feeGasPrice n = Inr None"
  shows "deployMain n = Some ([Log [''Starting optimized deployment process...''], Log [''Fetching signer...''],
     Log [''Deploying from wallet:'', w], Log [''Checking wallet balance...''],
     Log [''Wallet balance:'', formatUnits b 18, ''ETH''], Log [''Ticket price:'', ''0.0001'', ''ETH''],
     Log [''Getting current gas prices...''], Err [''Deployment failed:'', bigIntMixError]], 1)"
  using assms by (simp add: deployMain_def bumpGasPrice_def mainCatch_def formatUnits_ticket)

text \<open>
  C25. For a gas price \<open>p \<ge> 0\<close> the script pays \<open>p * 120n / 100n\<close>, which is
  \<open>p + p div 5\<close>: at least \<open>p\<close>, at most \<open>1.2 p\<close>, and less than one wei below
  \<open>1.2 p\<close>.
\<close>

lemma gas_bump_bounds:
  assumes "0 \<le> p"
  shows "bumpGasPrice (Some p) = Inr (p + p div 5) \<and> p \<le> p + p div 5 \<and>
         5 * (p + p div 5) \<le> 6 * p \<and> 6 * p < 5 * (p + p div 5) + 5"
  using assms by (simp add: bumpGasPrice_Some) linarith

text \<open>
  C26. When the balance cannot pay the gas limit at the raised price, the script
  ends with the "Insufficient funds" message and exit code 1, and what the
  network would answer to a deployment does not matter: it sends none.
\<close>

lemma deploy_requires_funds:
  assumes "signerAddr n = Inr w" and "walletBalance n = Inr b" and "feeGasPrice n = Inr (Some p)" and "0 \<le> p"
    and "b < gasLimit * (p + p div 5)"
  shows "(\<exists>out. deployMain n = Some (out @ [Err [''Insufficient funds: have'', formatUnits b 18, ''ETH, need'',
            formatUnits (gasLimit * (p + p div 5)) 18, ''ETH'']], 1)) \<and>
         deployMain (n\<lparr>deployTx := x, pollDeploy := q\<rparr>) = deployMain n"
  using assms by (simp add: deployMain_def bumpGasPrice_Some Let_def)

text \<open>
  C27. The script runs forever exactly when it sends the deployment and the
  network never settles it: \<^verbatim>\<open>waitForDeployment()\<close> is called without a timeout,
  although the comment above it says "with timeout". In every other case it ends.
\<close>

lemma deployMain_never_returns_iff:
  "deployMain n = None \<longleftrightarrow>
     (\<exists>w b p g h. signerAddr n = Inr w \<and> walletBalance n = Inr b \<and> feeGasPrice n = Inr (Some p) \<and>
        bumpGasPrice (Some p) = Inr g \<and> gasLimit * g \<le> b \<and> \<not> isl (accountNonce n) \<and> \<not> isl (contractFactory n) \<and>
        deployTx n = Inr h \<and> (\<forall>j. pollDeploy n j = None))"
proof -
  have w: "waitDeployment (pollDeploy n) 0 = None \<longleftrightarrow> (\<forall>j. pollDeploy n j = None)"
    using waitDeployment_returns_iff[of "pollDeploy n" 0] by (cases "waitDeployment (pollDeploy n) 0") auto
  have "deployMain n = None \<longleftrightarrow>
     (\<exists>w b p g h. signerAddr n = Inr w \<and> walletBalance n = Inr b \<and> feeGasPrice n = Inr (Some p) \<and>
        bumpGasPrice (Some p) = Inr g \<and> gasLimit * g \<le> b \<and> \<not> isl (accountNonce n) \<and> \<not> isl (contractFactory n) \<and>
        deployTx n = Inr h \<and> waitDeployment (pollDeploy n) 0 = None)"
    by (auto simp: deployMain_def deployTry_def mainCatch_def deployCatch_def Let_def not_less bumpGasPrice_def
        split: sum.splits option.splits if_splits prod.splits)
  then show ?thesis by (simp only: w)
qed

text \<open>
  C28. A deployment that the network settles at tick \<open>t\<close> prints the ticket
  price 0.0001 ETH and the transaction hash, then the progress dots of \<open>t\<close>
  ticks, the address, and the result of the code check, and the script exits with
  code 0, also when no code is found at the address.
\<close>

lemma deploy_success:
  assumes "signerAddr n = Inr w" and "walletBalance n = Inr b" and "feeGasPrice n = Inr (Some p)" and "0 \<le> p"
    and "gasLimit * (p + p div 5) \<le> b" and "accountNonce n = Inr k" and "contractFactory n = Inr ()"
    and "deployTx n = Inr h" and "pollDeploy n t = Some (Inr ())" and "\<forall>j<t. pollDeploy n j = None"
    and "deployedAddress n = Inr a" and "deployedCode n = Inr c"
  shows "\<exists>pre. deployMain n = Some (pre @ fst (progressSpec t) @
      [Log [newline @ ''Lottery successfully deployed to:'', a], Log [''Verifying contract has code...'']] @
      (if c = ''0x'' \<or> c = ''0x0'' then [Log [''Warning: No contract code found at address. Deployment may have failed.'']]
       else [Log [''Contract verified - code exists at deployed address '' @ checkMark],
             Log [newline @ ''Deployment successful! Your lottery contract is ready to use.''],
             Log [''View on Etherscan: https://sepolia.etherscan.io/address/'' @ a]]), 0) \<and>
      Log [''Ticket price:'', ''0.0001'', ''ETH''] \<in> set pre \<and> Log [''Transaction sent, hash:'', h] \<in> set pre"
proof -
  have "waitDeployment (pollDeploy n) 0 = Some (t, Inr ())"
    using assms(9,10) by (intro waitDeployment_first) simp_all
  then show ?thesis
    using assms(1-8,11,12)
    by (intro exI[of _ "[Log [''Starting optimized deployment process...''], Log [''Fetching signer...''],
         Log [''Deploying from wallet:'', w], Log [''Checking wallet balance...''],
         Log [''Wallet balance:'', formatUnits b 18, ''ETH''], Log [''Ticket price:'', ''0.0001'', ''ETH''],
         Log [''Getting current gas prices...''], Log [''Current network gas price:'', formatUnits p 9, ''gwei''],
         Log [''Using gas price:'', formatUnits (p + p div 5) 9, ''gwei''], Log [''Gas limit:'', decString (nat gasLimit)],
         Log [''Estimated gas cost:'', formatUnits (gasLimit * (p + p div 5)) 18, ''ETH''],
         Log [''Current account nonce:'', decString k], Log [''Getting Lottery contract factory...''],
         Log [''Deploying Lottery contract...''], Log [''Transaction sent, hash:'', h],
         Log [''Waiting for transaction confirmation...''], Log [''(This could take a few minutes on Sepolia)'']]"])
       (simp add: deployMain_def deployTry_def Let_def bumpGasPrice_Some formatUnits_ticket progress_spec not_less)
qed

text \<open>
  C29. The progress interval writes exactly the reference output: after \<open>k\<close>
  ticks, \<open>k div 61\<close> lines of 61 dots and then \<open>k mod 61\<close> dots; its counter
  never exceeds 60.
\<close>

lemma progress_matches_reference:
  "progress k [] = progressSpec k \<and> length (snd (progress k [])) \<le> 60"
  using progress_from_spec[of 0 k] by (simp add: progressSpec_def prod_eq_iff)

end
