(* ===== verification/Button_Events.thy ===== *)
theory Button_Events
  imports Pages
begin

text \<open>
  The transaction buttons of \<^verbatim>\<open>admin.js\<close> and \<^verbatim>\<open>user.js\<close> as the browser runs
  them: a handler is an \<^verbatim>\<open>async\<close> function, so a click runs it up to its first
  \<^verbatim>\<open>await\<close> (the button is disabled and relabelled) and the rest runs when the
  transaction settles; meanwhile other clicks are handled. A disabled button does
  not dispatch clicks. The page's events are an interleaving of clicks and
  settlements (\<open>page_step\<close>); the lemmas show that no button ever has two
  transactions in flight, and that when two handlers settle the status element
  keeps only the message of the last one.
\<close>

section \<open>A handler in two halves\<close>

text \<open>Up to the first \<^verbatim>\<open>await\<close>: \<^verbatim>\<open>btn.disabled = true; btn.textContent = busy\<close>.\<close>

definition handlerStart :: "txButton \<Rightarrow> dom \<Rightarrow> dom" where
  "handlerStart b d = setButton (btnId b) True (busyLabel b) d"

text \<open>The status message a settled handler shows, and whether it is an error.\<close>

definition statusText :: "txButton \<Rightarrow> string + unit \<Rightarrow> string" where
  "statusText b outcome = (case outcome of Inr _ \<Rightarrow> okMessage b | Inl m \<Rightarrow> failPrefix b @ m)"

text \<open>After the \<^verbatim>\<open>await\<close>: the status, then the \<^verbatim>\<open>finally\<close> block.\<close>

definition handlerFinish :: "txButton \<Rightarrow> string + unit \<Rightarrow> dom \<Rightarrow> dom" where
  "handlerFinish b outcome d =
     setButton (btnId b) False (idleLabel b) (statusUpdate statusId (statusText b outcome) (isl outcome) d)"

section \<open>The page's events\<close>

record page_state =
  pg :: dom
  inFlight :: "txButton list"

text \<open>
  \<open>bs\<close> are the buttons of the page. A click on an enabled button starts its
  handler; a handler in flight settles with any outcome.
\<close>

inductive page_step :: "txButton set \<Rightarrow> page_state \<Rightarrow> page_state \<Rightarrow> bool" where
  click: "b \<in> bs \<Longrightarrow> \<not> disabled (pg s (btnId b)) \<Longrightarrow>
    page_step bs s \<lparr>pg = handlerStart b (pg s), inFlight = inFlight s @ [b]\<rparr>"
| settle: "b \<in> set (inFlight s) \<Longrightarrow>
    page_step bs s \<lparr>pg = handlerFinish b outcome (pg s), inFlight = remove1 b (inFlight s)\<rparr>"

inductive_cases page_stepE: "page_step bs s s'"

text \<open>The buttons of the administrator's page.\<close>

definition adminButtons :: "txButton set" where
  "adminButtons = {triggerDrawButton, distributePrizeButton, resetLotteryButton}"

text \<open>Buttons with their own elements, none of them the status element.\<close>

definition buttons_ok :: "txButton set \<Rightarrow> bool" where
  "buttons_ok bs \<longleftrightarrow> inj_on btnId bs \<and> statusId \<notin> btnId ` bs"

definition page_inv :: "txButton set \<Rightarrow> page_state \<Rightarrow> bool" where
  "page_inv bs s \<longleftrightarrow>
     distinct (map btnId (inFlight s)) \<and> set (inFlight s) \<subseteq> bs \<and>
     (\<forall>b \<in> set (inFlight s). disabled (pg s (btnId b)))"

section \<open>Lemmas\<close>

lemma txButtonUI_split: "txButtonUI b outcome d = handlerFinish b outcome (handlerStart b d)"
  by (cases outcome) (simp_all add: txButtonUI_def handlerFinish_def handlerStart_def statusText_def)

lemma setButton_other [simp]: "j \<noteq> i \<Longrightarrow> setButton i dis l d j = d j"
  by (simp add: setButton_def)

lemma setButton_same [simp]: "setButton i dis l d i = (d i)\<lparr>disabled := dis, textContent := l\<rparr>"
  by (simp add: setButton_def)

lemma handlerFinish_other: "j \<noteq> btnId b \<Longrightarrow> j \<noteq> statusId \<Longrightarrow> handlerFinish b outcome d j = d j"
  by (simp add: handlerFinish_def)

lemma page_inv_click:
  assumes "buttons_ok bs" and "page_inv bs s" and "b \<in> bs" and "\<not> disabled (pg s (btnId b))"
  shows "page_inv bs \<lparr>pg = handlerStart b (pg s), inFlight = inFlight s @ [b]\<rparr>"
proof -
  from assms(1) have inj: "inj_on btnId bs" by (simp add: buttons_ok_def)
  have fresh: "btnId b \<notin> btnId ` set (inFlight s)"
  proof
    assume "btnId b \<in> btnId ` set (inFlight s)"
    then obtain b' where b': "b' \<in> set (inFlight s)" "btnId b' = btnId b" by auto
    with assms(2,3) inj have "b' = b" by (auto simp: page_inv_def dest: inj_onD)
    with b' assms(2,4) show False by (auto simp: page_inv_def)
  qed
  then have "\<forall>b'\<in>set (inFlight s). btnId b' \<noteq> btnId b" by (metis image_eqI)
  with fresh assms(2,3) show ?thesis
    by (auto simp: page_inv_def handlerStart_def)
qed

lemma page_inv_settle:
  assumes "buttons_ok bs" and "page_inv bs s" and "b \<in> set (inFlight s)"
  shows "page_inv bs \<lparr>pg = handlerFinish b outcome (pg s), inFlight = remove1 b (inFlight s)\<rparr>"
proof -
  from assms(2) have dist: "distinct (map btnId (inFlight s))" and sub: "set (inFlight s) \<subseteq> bs"
    by (simp_all add: page_inv_def)
  then have dfl: "distinct (inFlight s)" by (simp add: distinct_map)
  have "disabled (handlerFinish b outcome (pg s) (btnId b')) = disabled (pg s (btnId b'))"
    if "b' \<in> set (remove1 b (inFlight s))" for b'
  proof -
    from that dfl have b': "b' \<in> set (inFlight s)" "b' \<noteq> b" by simp_all
    with assms(3) dist have "btnId b' \<noteq> btnId b" by (auto dest: inj_onD simp: distinct_map)
    moreover have "btnId b' \<noteq> statusId"
    proof
      assume "btnId b' = statusId"
      with b'(1) sub have "statusId \<in> btnId ` bs" by force
      with assms(1) show False by (simp add: buttons_ok_def)
    qed
    ultimately show ?thesis by (simp add: handlerFinish_other)
  qed
  moreover have "distinct (map btnId (remove1 b (inFlight s)))"
  proof -
    from dist have "distinct (inFlight s)" "inj_on btnId (set (inFlight s))" by (simp_all add: distinct_map)
    moreover have "set (remove1 b (inFlight s)) \<subseteq> set (inFlight s)" by (rule set_remove1_subset)
    ultimately show ?thesis unfolding distinct_map by (metis distinct_remove1 inj_on_subset)
  qed
  moreover have rs: "set (remove1 b (inFlight s)) \<subseteq> set (inFlight s)" by (rule set_remove1_subset)
  from rs sub have "set (remove1 b (inFlight s)) \<subseteq> bs" by (rule order_trans)
  moreover from assms(2) rs have "\<forall>b' \<in> set (remove1 b (inFlight s)). disabled (pg s (btnId b'))"
    unfolding page_inv_def by blast
  ultimately show ?thesis unfolding page_inv_def page_state.simps by simp
qed

lemma page_step_inv: "page_step bs s s' \<Longrightarrow> buttons_ok bs \<Longrightarrow> page_inv bs s \<Longrightarrow> page_inv bs s'"
  by (induction rule: page_step.induct) (simp_all add: page_inv_click page_inv_settle)

lemma page_steps_inv: "(page_step bs)\<^sup>*\<^sup>* s s' \<Longrightarrow> buttons_ok bs \<Longrightarrow> page_inv bs s \<Longrightarrow> page_inv bs s'"
  by (induction rule: rtranclp_induct) (auto intro: page_step_inv)

lemma buttons_ok_admin: "buttons_ok adminButtons"
  by (simp add: buttons_ok_def adminButtons_def triggerDrawButton_def distributePrizeButton_def
      resetLotteryButton_def statusId_def)

text \<open>
  C30. However clicks and settlements interleave, from a page with no handler in
  flight no button ever has two transactions in flight, and every button with one
  in flight is disabled (so the browser dispatches no click to it).
\<close>

lemma no_double_submission:
  assumes "buttons_ok bs" and "(page_step bs)\<^sup>*\<^sup>* \<lparr>pg = d, inFlight = []\<rparr> s"
  shows "distinct (map btnId (inFlight s)) \<and> (\<forall>b \<in> set (inFlight s). disabled (pg s (btnId b)))"
proof -
  have "page_inv bs \<lparr>pg = d, inFlight = []\<rparr>" by (simp add: page_inv_def)
  with assms(2,1) have "page_inv bs s" by (rule page_steps_inv)
  then show ?thesis by (simp add: page_inv_def)
qed

text \<open>
  C31. When two handlers of different buttons are in flight, the order in which
  their transactions settle does not change the buttons (each ends enabled with its
  idle label), but the status element keeps only the message of the one that
  settled last.
\<close>

lemma settle_order:
  assumes "btnId b1 \<noteq> btnId b2" and "btnId b1 \<noteq> statusId" and "btnId b2 \<noteq> statusId"
  shows "handlerFinish b2 o2 (handlerFinish b1 o1 d) (btnId b1) = handlerFinish b1 o1 (handlerFinish b2 o2 d) (btnId b1) \<and>
         handlerFinish b2 o2 (handlerFinish b1 o1 d) (btnId b2) = handlerFinish b1 o1 (handlerFinish b2 o2 d) (btnId b2) \<and>
         textContent (handlerFinish b2 o2 (handlerFinish b1 o1 d) statusId) = statusText b2 o2 \<and>
         textContent (handlerFinish b1 o1 (handlerFinish b2 o2 d) statusId) = statusText b1 o1"
  using assms by (simp add: handlerFinish_def statusUpdate_def)

text \<open>
  A click followed directly by the settlement of its transaction is a run of
  the page's events whose result is the handler of \<open>Pages\<close> run as one step
  (\<open>txButtonUI\<close>): the two-step model refines the atomic one.
\<close>

lemma click_settle_refines:
  assumes "b \<in> bs" and "\<not> disabled (pg s (btnId b))" and "b \<notin> set (inFlight s)"
  shows "(page_step bs)\<^sup>*\<^sup>* s \<lparr>pg = txButtonUI b outcome (pg s), inFlight = inFlight s\<rparr>"
proof -
  let ?s1 = "\<lparr>pg = handlerStart b (pg s), inFlight = inFlight s @ [b]\<rparr>"
  have 1: "page_step bs s ?s1" using assms(1,2) by (rule page_step.click)
  have "page_step bs ?s1 \<lparr>pg = handlerFinish b outcome (pg ?s1), inFlight = remove1 b (inFlight ?s1)\<rparr>"
    by (rule page_step.settle) simp
  moreover have "remove1 b (inFlight s @ [b]) = inFlight s" using assms(3) by (simp add: remove1_append)
  ultimately have 2: "page_step bs ?s1 \<lparr>pg = txButtonUI b outcome (pg s), inFlight = inFlight s\<rparr>"
    by (simp add: txButtonUI_split)
  from 1 2 show ?thesis by (rule converse_rtranclp_into_rtranclp[OF _ r_into_rtranclp])
qed

end
