(* ===== verification/Round_Progress.thy ===== *)
theory Round_Progress
  imports Lifecycle
begin

text \<open>
  Progress of the lottery's round. The lifecycle Open, Drawn, Distributed, Open
  moves only by the administrator's calls, and the payout is an ether transfer the
  winner's code may refuse. The lemmas show that, when the winners accept their
  payouts, the administrator alone can bring every reachable state back to an
  empty open round with no ether held; and that a winner whose code rejects the
  payment freezes the round: in the Drawn phase every transaction then fails and
  changes nothing, so neither the payout nor a reset can ever happen.
\<close>

section \<open>The administrator's transactions, one by one\<close>

lemma runTxs_Cons_Inr:
  "exec callDepthLimit rs c k s = Inr s1 \<Longrightarrow> runTxs rs ((c, k) # ts) s = runTxs rs ts s1"
  by simp

lemma reset_tx:
  assumes "phase s = Distributed"
  shows "exec callDepthLimit rs (admin s) ResetLottery s =
           Inr (s\<lparr>participants := [], prizePool := 0, winner := None, phase := Open\<rparr>)"
  using assms by (simp add: exec_top resetLottery_Inr_iff del: exec.simps)

lemma distribute_tx:
  assumes "phase s = Drawn" and "unat (prizePool s) \<le> contractBalance s"
  shows "exec callDepthLimit acceptAll (admin s) DistributePrize s = Inr (payoutState s)"
  using assms by (simp add: exec_top distributePrize_acceptAll del: exec.simps)

lemma draw_tx:
  assumes "phase s = Open" and "participants s \<noteq> []"
  shows "exec callDepthLimit rs (admin s) (DrawWinner r) s =
           Inr (s\<lparr>winner := Some (participants s ! drawIndex r (length (participants s))), phase := Drawn\<rparr>)"
  using assms by (simp add: exec_top drawWinner_Inr_iff del: exec.simps)

text \<open>From the Drawn phase: pay out, then reset.\<close>

lemma complete_from_drawn:
  assumes "phase s = Drawn" and "unat (prizePool s) = contractBalance s"
  shows "runTxs acceptAll [(admin s, DistributePrize), (admin s, ResetLottery)] s =
           Inr ((payoutState s)\<lparr>participants := [], prizePool := 0, winner := None, phase := Open\<rparr>)"
proof -
  have p: "phase (payoutState s) = Distributed" "admin (payoutState s) = admin s"
    by (simp_all add: payoutState_def)
  show ?thesis
    using distribute_tx[OF assms(1)] assms(2) reset_tx[OF p(1), of acceptAll] p(2)
    by (simp del: exec.simps)
qed

section \<open>A rejecting winner\<close>

lemma distribute_rejected:
  assumes "phase s = Drawn" and "\<forall>t. rs (winnerAddress s) t = Reject"
  shows "\<exists>e. distributePrize (receive ex rs) c s = Inl e"
  using assms by (simp add: distributePrize_def transferTo_def receive_def Let_def check_def require_def
      requireAdmin_def split: if_splits sum.splits)

lemma exec_Drawn_rejecting:
  assumes "phase s = Drawn" and "\<forall>t. rs (winnerAddress s) t = Reject"
  shows "\<exists>e. exec callDepthLimit rs c k s = Inl e"
proof (cases k)
  case DistributePrize
  then show ?thesis using distribute_rejected[of s rs "exec (callDepthLimit - 1) rs" c, OF assms] by (simp add: exec_top del: exec.simps)
next
  case (BuyTicket v)
  with assms show ?thesis by (simp add: exec_top buyTicket_def check_def require_def del: exec.simps)
next
  case (DrawWinner r)
  with assms show ?thesis by (auto simp: exec_top drawWinner_def requireAdmin_def check_def require_def del: exec.simps)
next
  case ResetLottery
  with assms show ?thesis by (auto simp: exec_top resetLottery_def requireAdmin_def check_def require_def del: exec.simps)
qed

section \<open>Progress\<close>

lemma inv_pool_balance: "lottery_inv s \<Longrightarrow> unat (prizePool s) = contractBalance s"
  by (simp add: lottery_inv_def)

text \<open>
  C32. When winners accept their payouts, from every reachable state the
  administrator alone can bring the lottery back to an empty open round that holds
  no ether, keeping the administrator and the ticket price: at most a draw, a
  payout and a reset, in that order.
\<close>

theorem round_can_always_complete:
  assumes "reachable s"
  shows "\<exists>ks s'. length ks \<le> 3 \<and> runTxs acceptAll (map (\<lambda>k. (admin s, k)) ks) s = Inr s' \<and>
           phase s' = Open \<and> participants s' = [] \<and> prizePool s' = 0 \<and> contractBalance s' = 0 \<and>
           admin s' = admin s \<and> ticketPrice s' = ticketPrice s"
proof -
  from assms have inv: "lottery_inv s" by (rule reachable_lottery_inv)
  then have bal: "unat (prizePool s) = contractBalance s" by (rule inv_pool_balance)
  show ?thesis
  proof (cases "phase s")
    case Open
    show ?thesis
    proof (cases "participants s = []")
      case True
      with inv Open have "unat (prizePool s) = 0" by (simp add: lottery_inv_def)
      with bal have "prizePool s = 0" "contractBalance s = 0" by (simp_all add: unat_eq_zero)
      with Open True show ?thesis by (intro exI[of _ "[]"] exI[of _ s]) simp
    next
      case False
      let ?s1 = "s\<lparr>winner := Some (participants s ! drawIndex 0 (length (participants s))), phase := Drawn\<rparr>"
      have d: "exec callDepthLimit acceptAll (admin s) (DrawWinner 0) s = Inr ?s1"
        by (rule draw_tx[OF Open False])
      have c: "runTxs acceptAll [(admin ?s1, DistributePrize), (admin ?s1, ResetLottery)] ?s1 =
          Inr ((payoutState ?s1)\<lparr>participants := [], prizePool := 0, winner := None, phase := Open\<rparr>)"
        by (rule complete_from_drawn) (simp_all add: bal)
      show ?thesis
        using d c bal
        by (intro exI[of _ "[DrawWinner 0, DistributePrize, ResetLottery]"])
           (simp add: payoutState_def del: exec.simps)
    qed
  next
    case Drawn
    from complete_from_drawn[OF Drawn bal] show ?thesis
      using bal by (intro exI[of _ "[DistributePrize, ResetLottery]"]) (simp add: payoutState_def)
  next
    case Distributed
    with inv have "prizePool s = 0" by (simp add: lottery_inv_def)
    with bal have "contractBalance s = 0" by simp
    with reset_tx[OF Distributed, of acceptAll] \<open>prizePool s = 0\<close> show ?thesis
      by (intro exI[of _ "[ResetLottery]"]) (simp del: exec.simps)
  qed
qed

text \<open>
  C33. A winner whose code rejects every payment freezes the round: in the Drawn
  phase every transaction, whoever sends it, fails and changes nothing, so no
  sequence of transactions ever pays out, resets or reopens the round.
\<close>

theorem rejecting_winner_freezes:
  assumes "phase s = Drawn" and "\<forall>t. rs (winnerAddress s) t = Reject"
  shows "(\<forall>c k. snd (transact rs c k s) = s \<and> isl (fst (transact rs c k s))) \<and>
         (ts \<noteq> [] \<longrightarrow> isl (runTxs rs ts s))"
proof -
  have ex: "\<exists>e. exec callDepthLimit rs c k s = Inl e" for c k
    using assms by (rule exec_Drawn_rejecting)
  have "snd (transact rs c k s) = s \<and> isl (fst (transact rs c k s))" for c k
    using ex[of c k] by (auto simp: transact_def del: exec.simps)
  moreover have "ts \<noteq> [] \<longrightarrow> isl (runTxs rs ts s)"
  proof
    assume "ts \<noteq> []"
    then obtain c k ts' where "ts = (c, k) # ts'" by (cases ts) auto
    with ex[of c k] show "isl (runTxs rs ts s)" by (auto simp del: exec.simps)
  qed
  ultimately show ?thesis by blast
qed

section \<open>Fairness of the draw\<close>

text \<open>
  C12. The draw is as fair as a modulo reduction allows: of the \<open>2 ^ 256\<close>
  randomness samples, the administrator's draw transaction in an open round of
  \<open>n\<close> entries picks entry \<open>i\<close> under exactly \<open>2 ^ 256 div n\<close> of them, plus one
  for the first \<open>2 ^ 256 mod n\<close> entries; no two entries' counts differ by more
  than one sample.
\<close>

theorem draw_bias:
  assumes "phase s = Open" and "i < length (participants s)"
  shows "card {r :: uint. exec callDepthLimit rs (admin s) (DrawWinner r) s =
             Inr (s\<lparr>winner := Some (participants s ! i), phase := Drawn\<rparr>) \<and>
             drawIndex r (length (participants s)) = i} =
         2 ^ 256 div length (participants s) + (if i < 2 ^ 256 mod length (participants s) then 1 else 0)"
proof -
  let ?n = "length (participants s)"
  from assms(2) have ne: "participants s \<noteq> []" by auto
  have "{r :: uint. exec callDepthLimit rs (admin s) (DrawWinner r) s =
             Inr (s\<lparr>winner := Some (participants s ! i), phase := Drawn\<rparr>) \<and> drawIndex r ?n = i} =
        {r. drawIndex r ?n = i}"
    using draw_tx[OF assms(1) ne, of rs] by auto
  moreover have "card {r :: uint. drawIndex r ?n = i} = 2 ^ 256 div ?n + (if i < 2 ^ 256 mod ?n then 1 else 0)"
    using assms(2) by (intro drawIndex_class_card) auto
  ultimately show ?thesis by simp
qed

end
