(* ===== verification/Spec2Isabelle.thy ===== *)
theory Spec2Isabelle
  imports Page_Elements Deploy Button_Events Round_Progress
begin

text \<open>
  \<^bold>\<open>A verification library for the Dec-lot decentralised lottery.\<close>

  \<^bold>\<open>The program.\<close> An on-chain Lottery contract holds a prize pool: anyone may
  buy a ticket at a fixed price while the round is open; the administrator (the
  deploying account) draws a winner, pays the whole pool to the winner and resets
  the round. The repository holds the contract's ABI and the browser front end
  (\<^verbatim>\<open>src/frontend/lottery.js\<close>: the ABI, \<^verbatim>\<open>showStatus\<close>,
  \<^verbatim>\<open>loadLotteryDetails\<close>; \<^verbatim>\<open>src/frontend/admin.js\<close>: the administrator's page;
  \<^verbatim>\<open>src/frontend/user.js\<close>: the player's page), the deployment script
  \<^verbatim>\<open>src/scripts/deploy.js\<close> and the Hardhat configuration (Solidity 0.8.0). The
  Solidity source of the contract is not in the repository: its behaviour is
  modelled from the design document (phases Open, Drawn, Distributed; admin-only
  draw, distribute and reset; exact payment; checks-effects-interactions payout),
  its interface from the ABI.

  \<^bold>\<open>Theories.\<close>
  \<^item> \<open>Prelude\<close>: EVM types (\<open>addr = 160 word\<close>, \<open>uint = 256 word\<close>), Solidity's
    \<open>require\<close> as a guard on \<open>error + 'a\<close> results, checked 256-bit addition.
  \<^item> \<open>Lottery_State\<close>: the contract storage (record \<open>lottery\<close>) extended by the
    chain around it (record \<open>chain\<close>: the contract's ether balance, the wei
    received, the payouts made), the revert reasons, the constructor, the view
    functions, AccessControl (\<open>requireAdmin\<close>) and the custody invariant
    \<open>lottery_inv\<close>.
  \<^item> \<open>Ticket_Ledger\<close> (\<open>buyTicket\<close>), \<open>Draw_Engine\<close> (\<open>drawWinner\<close>, with the
    randomness sample an input), \<open>Prize_Vault\<close> (\<open>distributePrize\<close>, with the
    winner's code a parameter that may call back into the contract): one
    operation each, its behaviour on every branch, its preservation of the
    invariant.
  \<^item> \<open>Lifecycle\<close>: \<open>resetLottery\<close>; the dispatcher \<open>exec\<close> of the four mutating
    ABI functions, whose first argument is the EVM call depth left (1024 for a
    transaction, \<open>callDepthLimit\<close>). A reentrant call made by the winner during
    the payout runs one level deeper, so \<open>exec\<close> is primitive recursive and every
    call returns; at depth 0 a call fails, as on the EVM, so the bound is the
    machine's and no enough-fuel lemma is needed. \<open>transact\<close> is a transaction
    that reverts on failure, \<open>runTxs\<close> the host's serial order, \<open>reachable\<close>
    the states reachable from a deployment.
  \<^item> \<open>Round_Progress\<close>: the administrator's transactions one by one from each
    phase, what a winner whose code rejects ether does to the round, and how many
    of the \<open>2 ^ 256\<close> samples make the draw transaction pick each entry.
  \<^item> \<open>Contract_ABI\<close>: the \<^verbatim>\<open>contractABI\<close> constant of \<^verbatim>\<open>lottery.js\<close> entry by entry
    and its agreement with the model's calls and getters.
  \<^item> \<open>Address_Strings\<close>: addresses and amounts as strings (\<^verbatim>\<open>toLowerCase\<close>,
    the hexadecimal form of an address, \<^verbatim>\<open>formatEther\<close> and \<^verbatim>\<open>parseEther\<close> of
    ethers, and their round trip).
  \<^item> \<open>Frontend\<close>: the page as a store of DOM elements; \<^verbatim>\<open>showStatus\<close> and
    \<^verbatim>\<open>loadLotteryDetails\<close> of \<^verbatim>\<open>lottery.js\<close>.
  \<^item> \<open>Pages\<close>: the button handlers of \<^verbatim>\<open>admin.js\<close> and \<^verbatim>\<open>user.js\<close>, each a
    transaction through \<open>transact\<close> and an update of the page.
  \<^item> \<open>Wallet_Connect\<close>: the Connect Wallet handlers of \<^verbatim>\<open>admin.js\<close>
    (\<open>connectAdmin\<close>: the lowercase admin check) and \<^verbatim>\<open>user.js\<close>
    (\<open>connectUser\<close>), the element ids they use, \<^verbatim>\<open>initWheel\<close>'s one effect on
    the page, and the un-awaited \<^verbatim>\<open>loadLotteryDetails\<close> (\<open>loadDetailsAsync\<close>).
  \<^item> \<open>Page_Elements\<close>: the \<^verbatim>\<open>document.getElementById\<close> bindings at the top
    of both pages and the element object they pass to
    \<^verbatim>\<open>loadLotteryDetails\<close>, checked against the ids the other theories use.
  \<^item> \<open>Button_Events\<close>: each transaction handler split at its \<^verbatim>\<open>await\<close>
    (\<open>handlerStart\<close>, \<open>handlerFinish\<close>) and the page's clicks and
    settlements as an inductive step relation \<open>page_step\<close>, with the invariant
    \<open>page_inv\<close> proved by rule induction.
  \<^item> \<open>Wheel\<close>: the pages' global \<^verbatim>\<open>wheel\<close> (\<open>None\<close> while undefined),
    \<^verbatim>\<open>initWheel\<close> with the throw of three.js's renderer (\<open>initWheelScene\<close>),
    \<^verbatim>\<open>spinWheel\<close> with the throw on an undefined wheel, and the connect, draw
    and buy handlers with these calls inside their \<^verbatim>\<open>try\<close> blocks
    (\<open>connectUserWheel\<close>, \<open>connectAdminWheel\<close>, \<open>clickTxSpin\<close>,
    \<open>clickTriggerDrawSpin\<close>, \<open>clickBuyTicketSpin\<close>). With the wheel created
    they are the handlers of Pages and Wallet_Connect (\<open>clickTxSpin_created\<close>,
    \<open>connectUserWheel_created\<close>, \<open>connectAdminWheel_created\<close>), which are
    therefore the handlers in a browser with WebGL; the properties of the draw,
    purchase and connect handlers' success paths are stated over the full ones.
    The distribute and reset handlers do not spin the wheel, so Pages models them
    completely.
  \<^item> \<open>Deploy\<close>: \<^verbatim>\<open>src/scripts/deploy.js\<close>. \<open>deployMain\<close> is \<^verbatim>\<open>main\<close> with
    both \<^verbatim>\<open>catch\<close> blocks over a record \<open>network\<close> of the provider's answers,
    returning the console calls and the exit code, or \<open>None\<close> when it never
    ends. BigInts are \<open>int\<close> with JavaScript's truncating division; the wait
    for the deployment is a \<open>partial_function (option)\<close> polling once per tick
    of the progress interval, so that a transaction never mined is the value
    \<open>None\<close>, and its termination is proved as an equivalence with the existence
    of a settled poll (no fuel is chosen).
  \<^item> this theory: the properties that span components, the scenario of the
    design document, and the concrete pages and networks the witnesses use (a
    Sepolia run with the addresses and gas price recorded in
    \<^verbatim>\<open>deploy.js\<close>).

  \<^bold>\<open>What is shown.\<close> Every reachable state keeps the custody invariant (the
  contract holds exactly the pool, never pays out more than it received, the pool
  is the price times the entries until the payout, a winner is set exactly after
  the draw and is an entrant); the payout zeroes the pool and leaves the Drawn
  phase before the winner's code runs, so a reentrant payout fails; the three
  admin buttons refuse everybody but the administrator; each button behaves as the
  design says on every branch; a round trip entry, draw, payout, reset returns to an
  empty open round, and from every reachable state the administrator alone
  reaches one in at most three transactions when winners accept payment, while a
  winner whose code rejects ether freezes the round for good; the player's page
  always pays the current price, and a purchase is refused only outside the open
  phase or on overflow; the draw picks each entry under \<open>2 ^ 256 div n\<close> or one
  more of the samples; the page shows what it read, exactly (the amounts parse
  back to the wei read), and a failed read escapes as a \<^verbatim>\<open>TypeError\<close>
  instead of a status message. Connecting shows the admin section exactly to the
  administrator whatever the case of the address strings; a failed connection
  changes only the status; the wallet label is at most 24 characters; a failed
  details load during a connect with WebGL is reported nowhere; without WebGL the
  connection shows the page's section but reports a failure, and every
  successful purchase or draw after it is reported as failed. However clicks and
  settlements interleave, no button has two transactions in flight; two
  settling handlers leave only the last message; a click followed by its
  settlement is the atomic handler. The deployment script raises the gas price
  by exactly \<open>p div 5\<close>, never deploys without the funds for the gas limit,
  crashes on a null gas price before its fallback, runs forever exactly when
  its deployment is never settled (no timeout), exits 0 even when no code is at
  the address, and prints its progress dots in lines of 61.

  \<^bold>\<open>Not modelled.\<close> Of the animations, the three.js scene and render loop
  and the buttons' anime.js effects: they draw pixels and change no element field
  the model keeps (the wheel's angle is kept as the value it is animated to,
  without the timing of overlapping animations). ethers.js and the
  wallet provider: their answers are inputs (\<open>msgOf\<close>, \<open>fmt\<close>, the records
  \<open>wallet\<close> and \<open>network\<close>); only \<^verbatim>\<open>formatEther\<close>, \<^verbatim>\<open>formatUnits\<close> and
  \<^verbatim>\<open>parseEther\<close> are modelled, as helpers. The Hardhat configuration: it
  only fixes the compiler version (0.8.0, whose checked arithmetic the contract
  model follows) and reads the network URL and key from the environment. The
  timing of the progress interval is abstracted to one poll per tick. Lines 119 to
  213 of \<^verbatim>\<open>deploy.js\<close> are comments (a console session) and hold no code.
\<close>

section \<open>A scenario\<close>

text \<open>
  The scenario of the design document: ticket price 100, administrator 1, three
  entrants.
\<close>

definition demoOpen :: chain where
  "demoOpen = (newLottery 1 100)\<lparr>participants := [0xA, 0xB, 0xC], prizePool := 300,
                                  contractBalance := 300, deposited := 300\<rparr>"

definition demoDrawn :: chain where
  "demoDrawn = demoOpen\<lparr>winner := Some 0xB, phase := Drawn\<rparr>"

definition demoPaid :: chain where
  "demoPaid = demoDrawn\<lparr>prizePool := 0, phase := Distributed, contractBalance := 0, paid := [(0xB, 300)]\<rparr>"

definition demoReset :: chain where
  "demoReset = (newLottery 1 100)\<lparr>deposited := 300, paid := [(0xB, 300)]\<rparr>"

text \<open>
  A deployment to Sepolia as the session recorded at the end of
  \<^verbatim>\<open>src/scripts/deploy.js\<close> saw it: the signer, a gas price of about 50.7 gwei,
  the deployment settled at the third tick of the progress interval; and the same
  run with no gas price reported, with too little ether, and never settled.
\<close>

definition sepoliaRun :: network where
  "sepoliaRun =
     \<lparr>signerAddr = Inr ''0xB0250A9AE5Df63697973C4B9f7712872147a41b3'', walletBalance = Inr (10 ^ 18),
      feeGasPrice = Inr (Some 50748895179), accountNonce = Inr 7, contractFactory = Inr (),
      deployTx = Inr ''0x3f1bb9c394eeb11c6edc5108fcfc46efe535a14653197a11078c51387b5d148f'',
      pollDeploy = (\<lambda>i. if i < 3 then None else Some (Inr ())),
      deployedAddress = Inr ''0x5E34Cf7BFf346Ae078EbC431dC89EE7D2cc7c717'', deployedCode = Inr ''0x6080''\<rparr>"

definition sepoliaNoGasPrice :: network where
  "sepoliaNoGasPrice = sepoliaRun\<lparr>feeGasPrice := Inr None\<rparr>"

definition sepoliaPoor :: network where
  "sepoliaPoor = sepoliaRun\<lparr>walletBalance := Inr (10 ^ 15)\<rparr>"

definition sepoliaStuck :: network where
  "sepoliaStuck = sepoliaRun\<lparr>pollDeploy := (\<lambda>i. None)\<rparr>"

lemma demo_entries:
  "runTxs acceptAll [(0xA, BuyTicket 100), (0xB, BuyTicket 100), (0xC, BuyTicket 100)] (newLottery 1 100) = Inr demoOpen"
  by (simp add: exec_top buyTicket_def add_fits_def newLottery_def demoOpen_def del: exec.simps)

lemma reachable_demoOpen: "reachable demoOpen"
  by (rule reachable_runTxs[OF reachable.deploy demo_entries])

lemmas demo_defs = demoOpen_def demoDrawn_def demoPaid_def demoReset_def newLottery_def

lemmas sepolia_defs = sepoliaRun_def sepoliaNoGasPrice_def sepoliaPoor_def sepoliaStuck_def gasLimit_def

section \<open>Custody of the funds\<close>

text \<open>
  C1. In every state the contract can reach from its deployment, the custody
  invariant holds: the contract's balance is the prize pool, received wei equals
  balance plus payouts, before the payout the pool is the ticket price times the
  number of entries and after it the pool is empty, the winner is set exactly when
  the round is drawn, and the winner is one of the entrants.
\<close>

theorem custody_invariant: "reachable s \<Longrightarrow> lottery_inv s"
  by (rule reachable_lottery_inv)

theorem custody_invariant_witness: "reachable demoOpen \<and> lottery_inv demoOpen"
  using custody_invariant[OF reachable_demoOpen] reachable_demoOpen by blast

text \<open>
  C2. Checks-effects-interactions: when a payout succeeds, the winner's code ran on
  a chain where the pool was already zero, the phase already Distributed and the
  payout already recorded, so that any reentrant call to \<^verbatim>\<open>distributePrize\<close>
  it makes fails.
\<close>

theorem payout_before_interaction:
  assumes "exec (Suc n) rs c DistributePrize s = Inr s'"
  shows "\<exists>t. receive (exec n rs) rs (winnerAddress s) t = Inr s' \<and>
             prizePool t = 0 \<and> phase t = Distributed \<and>
             paid t = paid s @ [(winnerAddress s, unat (prizePool s))] \<and>
             (\<forall>m c'. \<exists>e. exec m rs c' DistributePrize t = Inl e)"
proof -
  from assms have r: "receive (exec n rs) rs (winnerAddress s) (payoutState s) = Inr s'"
    by (simp add: distributePrize_Inr_iff)
  have "\<exists>e. exec m rs c' DistributePrize (payoutState s) = Inl e" for m c'
    by (cases m) (simp_all add: distributePrize_def)
  with r show ?thesis by auto
qed

theorem payout_before_interaction_witness:
  "exec (Suc 0) acceptAll 1 DistributePrize demoDrawn = Inr (payoutState demoDrawn) \<and>
   (\<exists>t. receive (exec 0 acceptAll) acceptAll (winnerAddress demoDrawn) t = Inr (payoutState demoDrawn) \<and>
        prizePool t = 0 \<and> phase t = Distributed \<and>
        paid t = paid demoDrawn @ [(winnerAddress demoDrawn, unat (prizePool demoDrawn))] \<and>
        (\<forall>m c'. \<exists>e. exec m acceptAll c' DistributePrize t = Inl e))"
proof -
  have h: "exec (Suc 0) acceptAll 1 DistributePrize demoDrawn = Inr (payoutState demoDrawn)"
    by (simp add: distributePrize_acceptAll demo_defs)
  show ?thesis using payout_before_interaction[OF h] h by blast
qed

section \<open>The administrator's page against the contract\<close>

text \<open>
  C3. A caller that is not the administrator who clicks Trigger Draw, Distribute
  Prize or Reset Lottery gets the provider's message for \<open>Unauthorized\<close>, in
  whatever phase, and the chain is unchanged.
\<close>

theorem admin_buttons_reject_others:
  assumes "c \<noteq> admin s"
  shows "clickTriggerDraw msgOf rs c r s d =
           \<lparr>page = txButtonUI triggerDrawButton (Inl (msgOf Unauthorized)) d, chainAfter = s, reloads = False\<rparr> \<and>
         clickDistributePrize msgOf rs c s d =
           \<lparr>page = txButtonUI distributePrizeButton (Inl (msgOf Unauthorized)) d, chainAfter = s, reloads = False\<rparr> \<and>
         clickResetLottery msgOf rs c s d =
           \<lparr>page = txButtonUI resetLotteryButton (Inl (msgOf Unauthorized)) d, chainAfter = s, reloads = False\<rparr>"
  using assms
  by (simp add: clickTriggerDraw_def clickDistributePrize_def clickResetLottery_def clickTx_outcome
        exec_top drawWinner_def distributePrize_def resetLottery_def del: exec.simps)

theorem admin_buttons_reject_others_witness:
  "(0xA::addr) \<noteq> admin demoOpen \<and>
   chainAfter (clickTriggerDraw (\<lambda>e. ''reverted'') acceptAll 0xA 7 demoOpen emptyPage) = demoOpen \<and>
   chainAfter (clickDistributePrize (\<lambda>e. ''reverted'') acceptAll 0xA demoOpen emptyPage) = demoOpen \<and>
   chainAfter (clickResetLottery (\<lambda>e. ''reverted'') acceptAll 0xA demoOpen emptyPage) = demoOpen"
proof -
  have h: "(0xA::addr) \<noteq> admin demoOpen" by (simp add: demo_defs)
  show ?thesis using admin_buttons_reject_others[OF h] h by simp
qed

text \<open>
  C4. On the administrator's page with the wheel created (the administrator
  connected in a browser with WebGL; C13 shows the page without it), the draw in
  the open phase with entries picks the entry at the index the randomness sample
  gives modulo the number of entries, moves to Drawn, reports success, reloads the
  details and turns the wheel by 12.56 rad.
\<close>

theorem draw_click_picks_winner:
  assumes "c = admin s" and "phase s = Open" and "participants s \<noteq> []"
  shows "clickTriggerDrawSpin msgOf rs c r (Some y) s d =
    (\<lparr>page = txButtonUI triggerDrawButton (Inr ()) d,
      chainAfter = s\<lparr>winner := Some (participants s ! (unat r mod length (participants s))), phase := Drawn\<rparr>,
      reloads = True\<rparr>, Some (y + adminTurn))"
  using assms
  by (simp add: clickTriggerDrawSpin_def clickTxSpin_created clickTx_outcome exec_top drawWinner_def drawIndex_def
      del: exec.simps)

theorem draw_click_picks_winner_witness:
  "1 = admin demoOpen \<and> phase demoOpen = Open \<and> participants demoOpen \<noteq> [] \<and>
   clickTriggerDrawSpin (\<lambda>e. ''reverted'') acceptAll 1 7 (Some 0) demoOpen emptyPage =
     (\<lparr>page = txButtonUI triggerDrawButton (Inr ()) emptyPage, chainAfter = demoDrawn, reloads = True\<rparr>, Some adminTurn)"
proof -
  have h: "1 = admin demoOpen" "phase demoOpen = Open" "participants demoOpen \<noteq> []"
    by (simp_all add: demo_defs)
  show ?thesis using draw_click_picks_winner[OF h, of "\<lambda>e. ''reverted''" acceptAll 7 0 emptyPage] h
    by (simp add: demo_defs)
qed

text \<open>
  C5. A draw never succeeds when nobody has entered: the chain is unchanged and the
  details are not reloaded.
\<close>

theorem draw_click_without_entries:
  assumes "participants s = []"
  shows "chainAfter (clickTriggerDraw msgOf rs c r s d) = s \<and> \<not> reloads (clickTriggerDraw msgOf rs c r s d)"
  using assms by (simp add: clickTriggerDraw_def clickTx_outcome exec_top drawWinner_def del: exec.simps)

theorem draw_click_without_entries_witness:
  "participants (newLottery 1 100) = [] \<and>
   chainAfter (clickTriggerDraw (\<lambda>e. ''reverted'') acceptAll 1 7 (newLottery 1 100) emptyPage) = newLottery 1 100"
proof -
  have h: "participants (newLottery 1 100) = []" by (simp add: newLottery_def)
  show ?thesis using draw_click_without_entries[OF h] h by blast
qed

text \<open>
  C6. A round draws at most once: after a successful draw, the next draw by the same
  caller fails with \<open>InvalidPhase\<close> and changes nothing.
\<close>

theorem draw_click_twice_fails:
  assumes "chainAfter (clickTriggerDraw msgOf rs c r s d) = s'" and "reloads (clickTriggerDraw msgOf rs c r s d)"
  shows "clickTriggerDraw msgOf rs c r' s' d' =
    \<lparr>page = txButtonUI triggerDrawButton (Inl (msgOf InvalidPhase)) d', chainAfter = s', reloads = False\<rparr>"
proof -
  from assms have "drawWinner c r s = Inr s'"
    by (auto simp: clickTriggerDraw_def clickTx_outcome exec_top split: sum.splits simp del: exec.simps)
  then have "c = admin s'" "phase s' = Drawn" by (auto simp: drawWinner_Inr_iff)
  then show ?thesis
    by (simp add: clickTriggerDraw_def clickTx_outcome exec_top drawWinner_def del: exec.simps)
qed

theorem draw_click_twice_fails_witness:
  "chainAfter (clickTriggerDraw (\<lambda>e. ''reverted'') acceptAll 1 7 demoOpen emptyPage) = demoDrawn \<and>
   reloads (clickTriggerDraw (\<lambda>e. ''reverted'') acceptAll 1 7 demoOpen emptyPage) \<and>
   chainAfter (clickTriggerDraw (\<lambda>e. ''reverted'') acceptAll 1 5 demoDrawn emptyPage) = demoDrawn"
proof -
  have h: "chainAfter (clickTriggerDraw (\<lambda>e. ''reverted'') acceptAll 1 7 demoOpen emptyPage) = demoDrawn"
          "reloads (clickTriggerDraw (\<lambda>e. ''reverted'') acceptAll 1 7 demoOpen emptyPage)"
    by (simp_all add: clickTriggerDraw_def clickTx_outcome exec_top drawWinner_def drawIndex_def demo_defs
        del: exec.simps)
  show ?thesis using draw_click_twice_fails[OF h, of 5 emptyPage] h by simp
qed

text \<open>
  C7. The administrator's payout in the Drawn phase, to a winner that accepts the
  ether, pays the whole pool to the winner, empties the pool and the contract's
  balance and moves to Distributed; a second payout then fails with
  \<open>InvalidPhase\<close>.
\<close>

theorem distribute_click_pays_winner:
  assumes "lottery_inv s" and "c = admin s" and "phase s = Drawn"
  shows "clickDistributePrize msgOf acceptAll c s d =
    \<lparr>page = txButtonUI distributePrizeButton (Inr ()) d,
     chainAfter = s\<lparr>prizePool := 0, phase := Distributed, contractBalance := 0,
                     paid := paid s @ [(winnerAddress s, unat (prizePool s))]\<rparr>,
     reloads = True\<rparr> \<and>
    clickDistributePrize msgOf rs c (chainAfter (clickDistributePrize msgOf acceptAll c s d)) d' =
    \<lparr>page = txButtonUI distributePrizeButton (Inl (msgOf InvalidPhase)) d',
     chainAfter = chainAfter (clickDistributePrize msgOf acceptAll c s d), reloads = False\<rparr>"
proof -
  from assms(1) have bal: "contractBalance s = unat (prizePool s)" by (simp add: lottery_inv_def)
  have "exec callDepthLimit acceptAll c DistributePrize s =
        Inr (s\<lparr>prizePool := 0, phase := Distributed, contractBalance := 0,
                paid := paid s @ [(winnerAddress s, unat (prizePool s))]\<rparr>)"
    using assms bal by (simp add: exec_top distributePrize_acceptAll payoutState_def del: exec.simps)
  then have first: "clickDistributePrize msgOf acceptAll c s d =
    \<lparr>page = txButtonUI distributePrizeButton (Inr ()) d,
     chainAfter = s\<lparr>prizePool := 0, phase := Distributed, contractBalance := 0,
                     paid := paid s @ [(winnerAddress s, unat (prizePool s))]\<rparr>,
     reloads = True\<rparr>"
    by (simp add: clickDistributePrize_def clickTx_outcome del: exec.simps)
  have "clickDistributePrize msgOf rs c (chainAfter (clickDistributePrize msgOf acceptAll c s d)) d' =
    \<lparr>page = txButtonUI distributePrizeButton (Inl (msgOf InvalidPhase)) d',
     chainAfter = chainAfter (clickDistributePrize msgOf acceptAll c s d), reloads = False\<rparr>"
    using assms(2) unfolding first
    by (simp add: clickDistributePrize_def clickTx_outcome exec_top distributePrize_def del: exec.simps)
  with first show ?thesis by blast
qed

theorem distribute_click_pays_winner_witness:
  "lottery_inv demoDrawn \<and> 1 = admin demoDrawn \<and> phase demoDrawn = Drawn \<and>
   chainAfter (clickDistributePrize (\<lambda>e. ''reverted'') acceptAll 1 demoDrawn emptyPage) = demoPaid"
proof -
  have inv: "lottery_inv demoOpen" by (rule reachable_lottery_inv[OF reachable_demoOpen])
  have h: "lottery_inv demoDrawn" "1 = admin demoDrawn" "phase demoDrawn = Drawn"
    using inv by (simp_all add: lottery_inv_def demo_defs)
  show ?thesis using distribute_click_pays_winner[OF h, of "\<lambda>e. ''reverted''" emptyPage] h
    by (simp add: demo_defs winnerAddress_def)
qed

text \<open>
  C8. The administrator's reset is accepted exactly in the Distributed phase; it
  clears the entries, the pool and the winner and reopens the round, keeping the
  administrator and the ticket price; in any other phase it changes nothing.
\<close>

theorem reset_click:
  assumes "c = admin s"
  shows "reloads (clickResetLottery msgOf rs c s d) = (phase s = Distributed) \<and>
         chainAfter (clickResetLottery msgOf rs c s d) =
           (if phase s = Distributed
            then s\<lparr>participants := [], prizePool := 0, winner := None, phase := Open\<rparr> else s)"
  using assms by (simp add: clickResetLottery_def clickTx_outcome exec_top resetLottery_def del: exec.simps)

theorem reset_click_witness:
  "1 = admin demoPaid \<and> reloads (clickResetLottery (\<lambda>e. ''reverted'') acceptAll 1 demoPaid emptyPage) \<and>
   chainAfter (clickResetLottery (\<lambda>e. ''reverted'') acceptAll 1 demoPaid emptyPage) = demoReset"
proof -
  have h: "1 = admin demoPaid" by (simp add: demo_defs)
  show ?thesis using reset_click[OF h, of "\<lambda>e. ''reverted''" acceptAll emptyPage] h by (simp add: demo_defs)
qed

section \<open>The player's page against the contract\<close>

text \<open>
  C9. The player's page reads the ticket price and later sends exactly that value;
  whatever transactions are mined in between, it pays the current price, so the
  purchase never fails with \<open>IncorrectPayment\<close>.
\<close>

theorem buy_click_pays_current_price:
  assumes "lottery_step\<^sup>*\<^sup>* r s"
  shows "clickBuyTicket msgOf rs c (Inr r) s d = clickTx buyTicketButton msgOf rs c (BuyTicket (ticketPrice s)) s d \<and>
         fst (transact rs c (BuyTicket (ticketPrice s)) s) \<noteq> Inl IncorrectPayment"
proof -
  from assms have "ticketPrice s = ticketPrice r"
    by (auto dest: lottery_steps_config simp: same_config_def)
  then show ?thesis
    by (auto simp: clickBuyTicket_def transact_def exec_top buyTicket_def split: sum.splits simp del: exec.simps)
qed

theorem buy_click_pays_current_price_witness:
  "lottery_step\<^sup>*\<^sup>* demoOpen demoOpen \<and>
   fst (transact acceptAll 0xD (BuyTicket (ticketPrice demoOpen)) demoOpen) \<noteq> Inl IncorrectPayment"
  using buy_click_pays_current_price[OF rtranclp.rtrancl_refl[of lottery_step demoOpen]] by blast

text \<open>
  C10. On the player's page with the wheel created, a purchase after a read of the
  current price has one of three outcomes: in any phase but Open it is refused with
  InvalidPhase, when the pool would pass \<open>2 ^ 256 - 1\<close> wei with Overflow, and
  otherwise the clicking account is appended to the entries, the price is added to
  the pool and to the contract's balance, success is reported, the details reload
  and the wheel turns by 6.28 rad. A refused purchase changes neither the chain
  nor the wheel.
\<close>

theorem buy_click_outcome:
  assumes "ticketPrice r = ticketPrice s"
  shows "clickBuyTicketSpin msgOf rs c (Inr r) (Some y) s d =
    (if phase s \<noteq> Open then
       (\<lparr>page = txButtonUI buyTicketButton (Inl (msgOf InvalidPhase)) d, chainAfter = s, reloads = False\<rparr>, Some y)
     else if \<not> add_fits (prizePool s) (ticketPrice s) then
       (\<lparr>page = txButtonUI buyTicketButton (Inl (msgOf Overflow)) d, chainAfter = s, reloads = False\<rparr>, Some y)
     else
       (\<lparr>page = txButtonUI buyTicketButton (Inr ()) d,
         chainAfter = s\<lparr>participants := participants s @ [c], prizePool := prizePool s + ticketPrice s,
                        contractBalance := contractBalance s + unat (ticketPrice s),
                        deposited := deposited s + unat (ticketPrice s)\<rparr>,
         reloads = True\<rparr>, Some (y + userTurn)))"
  using assms
  by (simp add: clickBuyTicketSpin_def clickTxSpin_created clickTx_outcome exec_top buyTicket_def check_def
      require_def del: exec.simps)

theorem buy_click_outcome_witness:
  "ticketPrice demoOpen = ticketPrice demoOpen \<and>
   clickBuyTicketSpin (\<lambda>e. ''reverted'') acceptAll 0xD (Inr demoOpen) (Some 0) demoOpen emptyPage =
     (\<lparr>page = txButtonUI buyTicketButton (Inr ()) emptyPage,
       chainAfter = demoOpen\<lparr>participants := [0xA, 0xB, 0xC, 0xD], prizePool := 400,
                             contractBalance := 400, deposited := 400\<rparr>,
       reloads = True\<rparr>, Some userTurn) \<and>
   clickBuyTicketSpin (\<lambda>e. ''reverted'') acceptAll 0xD (Inr demoDrawn) (Some 0) demoDrawn emptyPage =
     (\<lparr>page = txButtonUI buyTicketButton (Inl ''reverted'') emptyPage, chainAfter = demoDrawn, reloads = False\<rparr>,
      Some 0)"
proof -
  have o: "ticketPrice demoOpen = ticketPrice demoOpen" ..
  have d: "ticketPrice demoDrawn = ticketPrice demoDrawn" ..
  show ?thesis
    using buy_click_outcome[OF o, of "\<lambda>e. ''reverted''" acceptAll "0xD" 0 emptyPage]
      buy_click_outcome[OF d, of "\<lambda>e. ''reverted''" acceptAll "0xD" 0 emptyPage]
    by (simp add: demo_defs add_fits_code)
qed

section \<open>A whole round\<close>

text \<open>
  C11. Round trip: from an open round with entries, draw, payout and reset by the
  administrator all succeed and return an open round with no entries, no pool, no
  winner and an empty contract balance, the only trace being the one payout of the
  whole pool to the drawn entrant.
\<close>

theorem round_trip:
  assumes "lottery_inv s" and "phase s = Open" and "participants s \<noteq> []"
  shows "runTxs acceptAll [(admin s, DrawWinner r), (admin s, DistributePrize), (admin s, ResetLottery)] s =
    Inr (s\<lparr>participants := [], prizePool := 0, winner := None, phase := Open, contractBalance := 0,
            paid := paid s @ [(participants s ! (unat r mod length (participants s)), unat (prizePool s))]\<rparr>)"
proof -
  from assms(1) have bal: "contractBalance s = unat (prizePool s)" by (simp add: lottery_inv_def)
  with assms(2,3) show ?thesis
    by (simp add: exec_top drawWinner_def drawIndex_def distributePrize_acceptAll
        payoutState_def winnerAddress_def resetLottery_def del: exec.simps)
qed

theorem round_trip_witness:
  "lottery_inv demoOpen \<and> phase demoOpen = Open \<and> participants demoOpen \<noteq> [] \<and>
   runTxs acceptAll [(1, DrawWinner 7), (1, DistributePrize), (1, ResetLottery)] demoOpen = Inr demoReset"
proof -
  have h: "lottery_inv demoOpen" "phase demoOpen = Open" "participants demoOpen \<noteq> []"
    using reachable_lottery_inv[OF reachable_demoOpen] by (simp_all add: demo_defs)
  show ?thesis using round_trip[OF h, of 7] h by (simp add: demo_defs)
qed

text \<open>
  The scenario of the design document: three entries at price 100 give a pool
  of 300; an entry paying 50 fails with \<open>IncorrectPayment\<close>; a draw by a
  non-administrator fails with \<open>Unauthorized\<close>; the administrator's draw with
  sample 7 picks entry \<open>7 mod 3 = 1\<close>; the payout pays 300 to it and a second
  payout fails with \<open>InvalidPhase\<close>; the reset empties the round and keeps the
  price. Each failed transaction leaves the chain as it was.
\<close>

theorem design_scenario:
  "runTxs acceptAll [(0xA, BuyTicket 100), (0xB, BuyTicket 100), (0xC, BuyTicket 100)] (newLottery 1 100) = Inr demoOpen \<and>
   getPrizePool demoOpen = 300 \<and> length (getParticipants demoOpen) = 3 \<and>
   transact acceptAll 0xD (BuyTicket 50) demoOpen = (Inl IncorrectPayment, demoOpen) \<and>
   transact acceptAll 0xA (DrawWinner 7) demoOpen = (Inl Unauthorized, demoOpen) \<and>
   transact acceptAll 1 (DrawWinner 7) demoOpen = (Inr (), demoDrawn) \<and>
   winner demoDrawn = Some (participants demoOpen ! 1) \<and>
   transact acceptAll 1 DistributePrize demoDrawn = (Inr (), demoPaid) \<and>
   paid demoPaid = [(0xB, 300)] \<and> prizePool demoPaid = 0 \<and>
   transact acceptAll 1 DistributePrize demoPaid = (Inl InvalidPhase, demoPaid) \<and>
   transact acceptAll 1 ResetLottery demoPaid = (Inr (), demoReset) \<and>
   participants demoReset = [] \<and> prizePool demoReset = 0 \<and> winner demoReset = None \<and>
   phase demoReset = Open \<and> ticketPrice demoReset = 100"
proof -
  have pay: "transact acceptAll 1 DistributePrize demoDrawn = (Inr (), demoPaid)"
    by (simp add: transact_def exec_top distributePrize_acceptAll payoutState_def winnerAddress_def
        demo_defs del: exec.simps)
  have again: "transact acceptAll 1 DistributePrize demoPaid = (Inl InvalidPhase, demoPaid)"
    by (simp add: transact_def exec_top distributePrize_def demo_defs del: exec.simps)
  show ?thesis
    unfolding pay again
    by (simp add: demo_entries transact_def exec_top buyTicket_def add_fits_def drawWinner_def drawIndex_def
        resetLottery_def getPrizePool_def getParticipants_def demo_defs del: exec.simps)
qed

section \<open>What the page shows\<close>

text \<open>
  C16. With a provider that writes each address as its hexadecimal digits (in any
  case) and no entry from the zero address, the winner field of the page reads
  "Not drawn yet" exactly while the round is open.
\<close>

theorem winner_display:
  assumes "\<forall>a. encodesAddress (fmt a) a" and "reachable s" and "0 \<notin> set (participants s)"
  shows "winnerText (fmt (winnerAddress s)) = ''Not drawn yet'' \<longleftrightarrow> \<not> isDrawDone s"
proof -
  have "winnerText (fmt (winnerAddress s)) = ''Not drawn yet'' \<longleftrightarrow> winnerAddress s = 0"
    using assms(1) by (simp add: winnerText_not_drawn)
  also have "\<dots> \<longleftrightarrow> phase s = Open"
    using reachable_lottery_inv[OF assms(2)] assms(3) by (rule winnerAddress_zero_iff)
  finally show ?thesis by (simp add: isDrawDone_def)
qed

theorem winner_display_witness:
  "(\<forall>a. encodesAddress (hexAddress a) a) \<and> reachable demoOpen \<and> 0 \<notin> set (participants demoOpen) \<and>
   winnerText (hexAddress (winnerAddress demoOpen)) = ''Not drawn yet''"
proof -
  have h: "\<forall>a. encodesAddress (hexAddress a) a" "0 \<notin> set (participants demoOpen)"
    by (simp_all add: encodesAddress_hexAddress demo_defs)
  have "\<not> isDrawDone demoOpen" by (simp add: isDrawDone_def demo_defs)
  then show ?thesis using winner_display[OF h(1) reachable_demoOpen h(2)] h reachable_demoOpen by blast
qed

section \<open>The buttons\<close>

text \<open>
  C17. Whatever the outcome of its transaction, a button handler ends with its
  button enabled again and showing its idle label (the \<^verbatim>\<open>finally\<close> block).
\<close>

theorem button_restored:
  "\<not> disabled (txButtonUI b outcome d (btnId b)) \<and> textContent (txButtonUI b outcome d (btnId b)) = idleLabel b"
  by (simp add: txButtonUI_def setButton_def Let_def)

text \<open>
  C18. The status element reports the outcome: the success message, or the
  failure prefix followed by the error's message.
\<close>

theorem status_reports_outcome:
  assumes "btnId b \<noteq> statusId"
  shows "textContent (txButtonUI b outcome d statusId) =
           (case outcome of Inr _ \<Rightarrow> okMessage b | Inl m \<Rightarrow> failPrefix b @ m)"
  using assms by (simp add: txButtonUI_def setButton_def Let_def split: sum.splits)

theorem status_reports_outcome_witness:
  "btnId triggerDrawButton \<noteq> statusId \<and>
   textContent (txButtonUI triggerDrawButton (Inl ''execution reverted'') emptyPage statusId) =
     ''Failed to trigger draw: execution reverted''"
proof -
  have h: "btnId triggerDrawButton \<noteq> statusId" by (simp add: triggerDrawButton_def statusId_def)
  show ?thesis using status_reports_outcome[OF h, of "Inl ''execution reverted''" emptyPage] h
    by (simp add: triggerDrawButton_def)
qed

section \<open>Connecting the wallet\<close>

theorem admin_connect_gate_witness:
  "hasEthereum \<lparr>hasEthereum = True, requestAccounts = Inr (), signerAddress = Inr (hexAddress 2)\<rparr> \<and>
   encodesAddress (hexAddress 2) 2 \<and> encodesAddress (hexAddress (admin demoOpen)) (admin demoOpen) \<and>
   ''hidden'' \<in> set (classList ((emptyPage(''admin-section'' := \<lparr>textContent = [], classList = [''hidden''], disabled = False\<rparr>)) adminSectionId)) \<and>
   ''hidden'' \<in> set (classList (connPage (connectAdmin \<lparr>hasEthereum = True, requestAccounts = Inr (), signerAddress = Inr (hexAddress 2)\<rparr>
      (Inr (hexAddress (admin demoOpen))) (readAll hexAddress demoOpen demoOpen demoOpen demoOpen)
      (emptyPage(''admin-section'' := \<lparr>textContent = [], classList = [''hidden''], disabled = False\<rparr>))) adminSectionId)) \<and>
   textContent (connPage (connectAdmin \<lparr>hasEthereum = True, requestAccounts = Inr (), signerAddress = Inr (hexAddress 2)\<rparr>
      (Inr (hexAddress (admin demoOpen))) (readAll hexAddress demoOpen demoOpen demoOpen demoOpen)
      (emptyPage(''admin-section'' := \<lparr>textContent = [], classList = [''hidden''], disabled = False\<rparr>))) statusId) = ''You are not the admin''"
proof -
  have adm: "admin demoOpen = 1" by (simp add: demo_defs)
  show ?thesis
    using Wallet_Connect.admin_connect_gate[of "\<lparr>hasEthereum = True, requestAccounts = Inr (), signerAddress = Inr (hexAddress 2)\<rparr>"
        "hexAddress 2" 2 hexAddress demoOpen "emptyPage(''admin-section'' := \<lparr>textContent = [], classList = [''hidden''], disabled = False\<rparr>)"
        "readAll hexAddress demoOpen demoOpen demoOpen demoOpen"]
    by (simp add: encodesAddress_hexAddress adm adminSectionId_def)
qed

theorem walletLabel_bounds_witness:
  "encodesAddress (hexAddress 1) 1 \<and> length (walletLabel (hexAddress 1)) = 24"
  using Wallet_Connect.walletLabel_bounds[of "hexAddress 1" 1] by (simp add: encodesAddress_hexAddress)

theorem connect_failure_frame_witness:
  "\<not> hasEthereum \<lparr>hasEthereum = False, requestAccounts = Inr (), signerAddress = Inr []\<rparr> \<and>
   connPage (connectAdmin \<lparr>hasEthereum = False, requestAccounts = Inr (), signerAddress = Inr []\<rparr> (Inr [])
      (readAll hexAddress demoOpen demoOpen demoOpen demoOpen) emptyPage) adminSectionId = emptyPage adminSectionId \<and>
   unhandled (connectUser \<lparr>hasEthereum = False, requestAccounts = Inr (), signerAddress = Inr []\<rparr>
      (readAll hexAddress demoOpen demoOpen demoOpen demoOpen) emptyPage) = None"
  using Wallet_Connect.connect_failure_frame[of "\<lparr>hasEthereum = False, requestAccounts = Inr (), signerAddress = Inr []\<rparr>"
      "Inr []" "readAll hexAddress demoOpen demoOpen demoOpen demoOpen" emptyPage]
  by (simp add: adminSectionId_def statusId_def)

theorem admin_connect_load_unreported_witness:
  "hasEthereum \<lparr>hasEthereum = True, requestAccounts = Inr (), signerAddress = Inr (hexAddress 1)\<rparr> \<and>
   toLowerCase (hexAddress 1) = toLowerCase (hexAddress 1) \<and>
   unhandled (fst (connectAdminWheel True \<lparr>hasEthereum = True, requestAccounts = Inr (), signerAddress = Inr (hexAddress 1)\<rparr>
      (Inr (hexAddress 1)) \<lparr>rTicketPrice = Inl ''network error'', rParticipants = Inr [], rPrizePool = Inr 0, rWinner = Inr []\<rparr>
      None emptyPage)) = Some typeErrorUndefined \<and>
   snd (connectAdminWheel True \<lparr>hasEthereum = True, requestAccounts = Inr (), signerAddress = Inr (hexAddress 1)\<rparr>
      (Inr (hexAddress 1)) \<lparr>rTicketPrice = Inl ''network error'', rParticipants = Inr [], rPrizePool = Inr 0, rWinner = Inr []\<rparr>
      None emptyPage) = Some 0 \<and>
   unhandled (fst (connectAdminWheel False \<lparr>hasEthereum = True, requestAccounts = Inr (), signerAddress = Inr (hexAddress 1)\<rparr>
      (Inr (hexAddress 1)) \<lparr>rTicketPrice = Inl ''network error'', rParticipants = Inr [], rPrizePool = Inr 0, rWinner = Inr []\<rparr>
      None emptyPage)) = None"
  using Wheel.admin_connect_load_unreported[of "\<lparr>hasEthereum = True, requestAccounts = Inr (), signerAddress = Inr (hexAddress 1)\<rparr>"
      "hexAddress 1" "hexAddress 1" "\<lparr>rTicketPrice = Inl ''network error'', rParticipants = Inr [], rPrizePool = Inr 0, rWinner = Inr []\<rparr>"
      "''network error''" None emptyPage]
  by simp

theorem user_connect_with_wheel_witness:
  "hasEthereum \<lparr>hasEthereum = True, requestAccounts = Inr (), signerAddress = Inr (hexAddress 2)\<rparr> \<and>
   textContent (connPage (fst (connectUserWheel True \<lparr>hasEthereum = True, requestAccounts = Inr (), signerAddress = Inr (hexAddress 2)\<rparr>
      (readAll hexAddress demoOpen demoOpen demoOpen demoOpen) None emptyPage)) walletStatusId) = walletLabel (hexAddress 2) \<and>
   unhandled (fst (connectUserWheel True \<lparr>hasEthereum = True, requestAccounts = Inr (), signerAddress = Inr (hexAddress 2)\<rparr>
      (readAll hexAddress demoOpen demoOpen demoOpen demoOpen) None emptyPage)) = None \<and>
   snd (connectUserWheel True \<lparr>hasEthereum = True, requestAccounts = Inr (), signerAddress = Inr (hexAddress 2)\<rparr>
      (readAll hexAddress demoOpen demoOpen demoOpen demoOpen) None emptyPage) = Some 0"
  using Wheel.user_connect_with_wheel[of "\<lparr>hasEthereum = True, requestAccounts = Inr (), signerAddress = Inr (hexAddress 2)\<rparr>"
      "hexAddress 2" hexAddress demoOpen demoOpen demoOpen demoOpen None emptyPage]
  by simp

section \<open>Deployment\<close>

theorem null_gas_price_crashes_witness:
  "deployMain sepoliaNoGasPrice =
     Some ([Log [''Starting optimized deployment process...''], Log [''Fetching signer...''],
       Log [''Deploying from wallet:'', ''0xB0250A9AE5Df63697973C4B9f7712872147a41b3''], Log [''Checking wallet balance...''],
       Log [''Wallet balance:'', formatUnits (10 ^ 18) 18, ''ETH''], Log [''Ticket price:'', ''0.0001'', ''ETH''],
       Log [''Getting current gas prices...''], Err [''Deployment failed:'', bigIntMixError]], 1)"
  using Deploy.null_gas_price_crashes[of sepoliaNoGasPrice "''0xB0250A9AE5Df63697973C4B9f7712872147a41b3''" "10 ^ 18"]
  by (simp add: sepolia_defs)

theorem gas_bump_bounds_witness:
  "bumpGasPrice (Some 50748895179) = Inr 60898674214 \<and> (50748895179::int) \<le> 60898674214"
  using Deploy.gas_bump_bounds[of 50748895179] by simp

theorem deploy_requires_funds_witness:
  "(\<exists>out. deployMain sepoliaPoor = Some (out @ [Err [''Insufficient funds: have'', formatUnits (10 ^ 15) 18, ''ETH, need'',
       formatUnits (gasLimit * 60898674214) 18, ''ETH'']], 1)) \<and>
   deployMain (sepoliaPoor\<lparr>deployTx := Inl ''replacement underpriced'', pollDeploy := (\<lambda>i. None)\<rparr>) = deployMain sepoliaPoor"
  using Deploy.deploy_requires_funds[where n = sepoliaPoor and w = "''0xB0250A9AE5Df63697973C4B9f7712872147a41b3''"
      and b = "10 ^ 15" and p = 50748895179 and x = "Inl ''replacement underpriced''" and q = "\<lambda>i. None"]
  by (simp add: sepolia_defs)

theorem deployMain_never_returns_iff_witness: "deployMain sepoliaStuck = None"
  using Deploy.deployMain_never_returns_iff[of sepoliaStuck] by (simp add: sepolia_defs bumpGasPrice_Some)

theorem deploy_success_witness:
  "\<exists>pre. deployMain sepoliaRun = Some (pre @ fst (progressSpec 3) @
      [Log [newline @ ''Lottery successfully deployed to:'', ''0x5E34Cf7BFf346Ae078EbC431dC89EE7D2cc7c717''],
       Log [''Verifying contract has code...''],
       Log [''Contract verified - code exists at deployed address '' @ checkMark],
       Log [newline @ ''Deployment successful! Your lottery contract is ready to use.''],
       Log [''View on Etherscan: https://sepolia.etherscan.io/address/'' @ ''0x5E34Cf7BFf346Ae078EbC431dC89EE7D2cc7c717'']], 0) \<and>
     Log [''Ticket price:'', ''0.0001'', ''ETH''] \<in> set pre \<and>
     Log [''Transaction sent, hash:'', ''0x3f1bb9c394eeb11c6edc5108fcfc46efe535a14653197a11078c51387b5d148f''] \<in> set pre"
  using Deploy.deploy_success[of sepoliaRun "''0xB0250A9AE5Df63697973C4B9f7712872147a41b3''" "10 ^ 18" 50748895179 7
      "''0x3f1bb9c394eeb11c6edc5108fcfc46efe535a14653197a11078c51387b5d148f''" 3
      "''0x5E34Cf7BFf346Ae078EbC431dC89EE7D2cc7c717''" "''0x6080''"]
  by (simp add: sepolia_defs)

section \<open>Interleaved button events\<close>

theorem no_double_submission_witness:
  "distinct (map btnId (inFlight \<lparr>pg = handlerStart triggerDrawButton emptyPage, inFlight = [triggerDrawButton]\<rparr>)) \<and>
   disabled (handlerStart triggerDrawButton emptyPage (btnId triggerDrawButton))"
proof -
  have "page_step adminButtons \<lparr>pg = emptyPage, inFlight = []\<rparr>
      \<lparr>pg = handlerStart triggerDrawButton emptyPage, inFlight = [triggerDrawButton]\<rparr>"
    using page_step.click[of triggerDrawButton adminButtons "\<lparr>pg = emptyPage, inFlight = []\<rparr>"]
    by (simp add: adminButtons_def emptyPage_def)
  then have "(page_step adminButtons)\<^sup>*\<^sup>* \<lparr>pg = emptyPage, inFlight = []\<rparr>
      \<lparr>pg = handlerStart triggerDrawButton emptyPage, inFlight = [triggerDrawButton]\<rparr>" by (rule r_into_rtranclp)
  from Button_Events.no_double_submission[OF buttons_ok_admin this] show ?thesis by simp
qed

theorem settle_order_witness:
  "btnId triggerDrawButton \<noteq> btnId distributePrizeButton \<and>
   textContent (handlerFinish distributePrizeButton (Inl ''execution reverted'')
     (handlerFinish triggerDrawButton (Inr ()) emptyPage) statusId) = ''Failed to distribute prize: execution reverted'' \<and>
   textContent (handlerFinish triggerDrawButton (Inr ())
     (handlerFinish distributePrizeButton (Inl ''execution reverted'') emptyPage) statusId) = ''Draw triggered successfully!''"
  using Button_Events.settle_order[of triggerDrawButton distributePrizeButton "Inl ''execution reverted''" "Inr ()" emptyPage]
  by (simp add: triggerDrawButton_def distributePrizeButton_def statusId_def statusText_def)

section \<open>Amounts on the page\<close>

text \<open>
  The page shows amounts without loss: when the details load, ethers'
  \<^verbatim>\<open>parseEther\<close> of the ticket price and of the prize pool the page shows gives
  back exactly the wei the contract returned (\<^verbatim>\<open>formatEther\<close> and
  \<^verbatim>\<open>parseEther\<close> are a round trip).
\<close>

theorem shown_amounts_exact:
  "case loadLotteryDetails (readAll fmt s1 s2 s3 s4) detailsElements d of
     Inl _ \<Rightarrow> False
   | Inr d' \<Rightarrow> parseEther (textContent (d' ''ticket-price'')) = Some (int (unat (ticketPrice s1))) \<and>
              parseEther (textContent (d' ''prize-pool'')) = Some (int (unat (prizePool s3)))"
  by (simp add: loadLotteryDetails_def loadTry_def readAll_def setText_def detailsElements_def
      getParticipants_def getPrizePool_def parseEther_formatEther)

theorem round_can_always_complete_witness:
  "reachable demoOpen \<and>
   (\<exists>ks s'. length ks \<le> 3 \<and> runTxs acceptAll (map (\<lambda>k. (admin demoOpen, k)) ks) demoOpen = Inr s' \<and>
      phase s' = Open \<and> participants s' = [] \<and> prizePool s' = 0 \<and> contractBalance s' = 0 \<and>
      admin s' = admin demoOpen \<and> ticketPrice s' = ticketPrice demoOpen)"
  using Round_Progress.round_can_always_complete[OF reachable_demoOpen] reachable_demoOpen by blast

theorem rejecting_winner_freezes_witness:
  "phase demoDrawn = Drawn \<and> (\<forall>t. (\<lambda>w t. Reject) (winnerAddress demoDrawn) t = Reject) \<and>
   (\<forall>c k. snd (transact (\<lambda>w t. Reject) c k demoDrawn) = demoDrawn \<and>
          isl (fst (transact (\<lambda>w t. Reject) c k demoDrawn))) \<and>
   isl (runTxs (\<lambda>w t. Reject) [(1, DistributePrize), (1, ResetLottery)] demoDrawn)"
proof -
  have h: "phase demoDrawn = Drawn" by (simp add: demo_defs)
  have r: "\<forall>t. (\<lambda>w t. Reject) (winnerAddress demoDrawn) t = Reject" by simp
  show ?thesis
    using Round_Progress.rejecting_winner_freezes[OF h r, of "[(1, DistributePrize), (1, ResetLottery)]"] h r
    by simp
qed

theorem purchase_reported_failed_without_wheel_witness:
  "hasEthereum \<lparr>hasEthereum = True, requestAccounts = Inr (), signerAddress = Inr (hexAddress 0xD)\<rparr> \<and>
   connectTry \<lparr>hasEthereum = True, requestAccounts = Inr (), signerAddress = Inr (hexAddress 0xD)\<rparr> emptyPage =
     Inr (hexAddress 0xD, hideElement connectWalletId (setTextContent walletStatusId (walletLabel (hexAddress 0xD)) emptyPage)) \<and>
   exec callDepthLimit acceptAll 0xD (BuyTicket (ticketPrice demoOpen)) demoOpen =
     Inr (demoOpen\<lparr>participants := [0xA, 0xB, 0xC, 0xD], prizePool := 400, contractBalance := 400, deposited := 400\<rparr>) \<and>
   (let (cr, wh) = connectUserWheel False \<lparr>hasEthereum = True, requestAccounts = Inr (), signerAddress = Inr (hexAddress 0xD)\<rparr>
                     (readAll hexAddress demoOpen demoOpen demoOpen demoOpen) None emptyPage;
        (res, wh') = clickBuyTicketSpin (\<lambda>e. ''reverted'') acceptAll 0xD (Inr demoOpen) wh demoOpen (connPage cr)
    in ''hidden'' \<notin> set (classList (connPage cr userSectionId)) \<and>
       textContent (connPage cr statusId) = ''Failed to connect wallet: '' @ webglError \<and>
       chainAfter res = demoOpen\<lparr>participants := [0xA, 0xB, 0xC, 0xD], prizePool := 400, contractBalance := 400, deposited := 400\<rparr> \<and>
       \<not> reloads res \<and> wh' = None \<and>
       textContent (page res statusId) = ''Failed to buy ticket: '' @ typeErrorRotation \<and>
       \<not> disabled (page res (btnId buyTicketButton)))"
proof -
  have h1: "hasEthereum \<lparr>hasEthereum = True, requestAccounts = Inr (), signerAddress = Inr (hexAddress 0xD)\<rparr>"
    by simp
  have h2: "connectTry \<lparr>hasEthereum = True, requestAccounts = Inr (), signerAddress = Inr (hexAddress 0xD)\<rparr> emptyPage =
     Inr (hexAddress 0xD, hideElement connectWalletId (setTextContent walletStatusId (walletLabel (hexAddress 0xD)) emptyPage))"
    by (simp add: connectTry_def)
  have h3: "exec callDepthLimit acceptAll 0xD (BuyTicket (ticketPrice demoOpen)) demoOpen =
     Inr (demoOpen\<lparr>participants := [0xA, 0xB, 0xC, 0xD], prizePool := 400, contractBalance := 400, deposited := 400\<rparr>)"
    by (simp add: exec_top buyTicket_def check_def require_def demo_defs add_fits_code del: exec.simps)
  show ?thesis
    using Wheel.purchase_reported_failed_without_wheel[OF h1 h2 h3,
        of "readAll hexAddress demoOpen demoOpen demoOpen demoOpen" "\<lambda>e. ''reverted''"] h1 h2 h3
    by blast
qed

theorem draw_bias_witness:
  "phase demoOpen = Open \<and> 0 < length (participants demoOpen) \<and> length (participants demoOpen) = 3 \<and>
   card {r :: uint. exec callDepthLimit acceptAll (admin demoOpen) (DrawWinner r) demoOpen =
           Inr (demoOpen\<lparr>winner := Some (participants demoOpen ! 0), phase := Drawn\<rparr>) \<and>
           drawIndex r (length (participants demoOpen)) = 0} =
   2 ^ 256 div length (participants demoOpen) + (if 0 < 2 ^ 256 mod length (participants demoOpen) then 1 else 0)"
proof -
  have h: "phase demoOpen = Open" "0 < length (participants demoOpen)" "length (participants demoOpen) = 3"
    by (simp_all add: demo_defs)
  show ?thesis using Round_Progress.draw_bias[OF h(1,2), of acceptAll] h by blast
qed

end
